theory Spec2Isabelle
  imports Main
begin

section \<open>Strings\<close>

text \<open>
  JavaScript strings are modelled as HOL strings: sequences of code units below 256
  (the Latin-1 range). \<open>String.prototype.toLowerCase\<close> acts on that range character by
  character: \<open>A\<close>..\<open>Z\<close> and the accented capitals U+00C0..U+00DE (except the
  multiplication sign U+00D7) move up by 32, every other character stays.
\<close>

definition toLowerCase_char :: "char \<Rightarrow> char" where
  "toLowerCase_char c =
     (let n = (of_char c :: nat) in
      if 65 \<le> n \<and> n \<le> 90 then char_of (n + 32)
      else if 192 \<le> n \<and> n \<le> 222 \<and> n \<noteq> 215 then char_of (n + 32)
      else c)"

definition toLowerCase :: "string \<Rightarrow> string" where
  "toLowerCase s = map toLowerCase_char s"

section \<open>Data model (types/dexfra.ts)\<close>

datatype scheme = Exact | Upto

text \<open>\<open>interface X402PaymentRequirement\<close>; \<open>extra\<close> is an opaque map, kept as key/text pairs.\<close>

record X402PaymentRequirement =
  scheme :: scheme
  network :: string
  recipient :: string
  maxAmountRequired :: string
  token :: "string option"
  extra :: "(string \<times> string) list option"

section \<open>Requirement selection (tools/fetch.ts, selectPaymentRequirement)\<close>

text \<open>
  \<open>Array.prototype.find\<close> walks the array from index 0 and returns the first element
  for which the callback is true, or \<open>undefined\<close> (here \<open>None\<close>).
\<close>

fun array_find :: "('a \<Rightarrow> bool) \<Rightarrow> 'a list \<Rightarrow> 'a option" where
  "array_find p [] = None"
| "array_find p (x # xs) = (if p x then Some x else array_find p xs)"

text \<open>
  \<open>requirements[0]\<close> is \<open>undefined\<close> on an empty array, so the result is optional;
  the caller only passes a non-empty array.
\<close>

definition selectPaymentRequirement ::
  "X402PaymentRequirement list \<Rightarrow> string \<Rightarrow> X402PaymentRequirement option" where
  "selectPaymentRequirement requirements preferredNetwork =
     (case array_find (\<lambda>req. toLowerCase (network req) = toLowerCase preferredNetwork)
             requirements of
        Some networkMatch \<Rightarrow> Some networkMatch
      | None \<Rightarrow> (case requirements of [] \<Rightarrow> None | r # _ \<Rightarrow> Some r))"

section \<open>Numbers and big integers\<close>

text \<open>
  A JavaScript \<open>number\<close> is an IEEE-754 double. A finite double is written
  \<open>Dyadic m e\<close> for the value \<open>m * 2 ^ e\<close>; the doubles are the values with
  \<open>\<bar>m\<bar> < 2 ^ 53\<close> and \<open>- 1074 \<le> e \<le> 971\<close>. Arithmetic is done on the integers
  \<open>m\<close> and \<open>e\<close>, so every result is exact and can be computed.
\<close>

datatype number = Dyadic int int | NaN | PlusInfinity | MinusInfinity

definition is_double :: "number \<Rightarrow> bool" where
  "is_double x =
     (case x of Dyadic m e \<Rightarrow> \<bar>m\<bar> < 2 ^ 53 \<and> - 1074 \<le> e \<and> e \<le> 971 | _ \<Rightarrow> True)"

text \<open>Number of binary digits of a non-negative integer.\<close>

function bitlen :: "int \<Rightarrow> int" where
  "bitlen a = (if a \<le> 0 then 0 else 1 + bitlen (a div 2))"
  by pat_completeness auto
termination
  by (relation "measure nat") auto

declare bitlen.simps [simp del]

text \<open>\<open>a / 2 ^ s\<close> rounded to the nearest integer, ties to the even one.\<close>

definition round_even :: "int \<Rightarrow> int \<Rightarrow> int" where
  "round_even a s =
     (let d = 2 ^ nat s; q = a div d; r = a mod d in
      if 2 * r < d then q
      else if 2 * r > d then q + 1
      else if even q then q else q + 1)"

text \<open>
  The double nearest to \<open>\<plusminus> a * 2 ^ e\<close> (\<open>a \<ge> 0\<close>): at most 53 significant bits, exponent
  not below \<open>- 1074\<close>, and infinity from \<open>2 ^ 1024\<close> on (round to nearest, ties to even).
\<close>

definition to_double :: "bool \<Rightarrow> int \<Rightarrow> int \<Rightarrow> number" where
  "to_double neg a e =
     (let s = max 0 (max (bitlen a - 53) (- 1074 - e));
          q = round_even a s;
          e' = e + s
      in if bitlen q + e' > 1024 then (if neg then MinusInfinity else PlusInfinity)
         else Dyadic (if neg then - q else q) e')"

text \<open>The \<open>*\<close> of two numbers.\<close>

fun number_times :: "number \<Rightarrow> number \<Rightarrow> number" where
  "number_times (Dyadic m e) (Dyadic n f) =
     to_double ((m < 0) \<noteq> (n < 0)) \<bar>m * n\<bar> (e + f)"
| "number_times NaN _ = NaN"
| "number_times _ NaN = NaN"
| "number_times (Dyadic m e) y =
     (if m = 0 then NaN
      else if (m < 0) = (y = MinusInfinity) then PlusInfinity else MinusInfinity)"
| "number_times x (Dyadic n f) =
     (if n = 0 then NaN
      else if (n < 0) = (x = MinusInfinity) then PlusInfinity else MinusInfinity)"
| "number_times x y = (if x = y then PlusInfinity else MinusInfinity)"

text \<open>
  \<open>Math.floor\<close>: a finite number becomes the greatest integer below or equal to it,
  written with exponent 0; \<open>NaN\<close> and the infinities stay.
\<close>

fun Math_floor :: "number \<Rightarrow> number" where
  "Math_floor (Dyadic m e) =
     (if e \<ge> 0 then Dyadic (m * 2 ^ nat e) 0 else Dyadic (m div 2 ^ nat (- e)) 0)"
| "Math_floor x = x"

text \<open>A number is falsy when it is zero or \<open>NaN\<close>.\<close>

fun falsy_number :: "number \<Rightarrow> bool" where
  "falsy_number (Dyadic m e) = (m = 0)"
| "falsy_number NaN = True"
| "falsy_number _ = False"

text \<open>\<open>USDC_DECIMALS = 6\<close> (constants.ts); \<open>Math.pow(10, 6)\<close> is the double 1000000.\<close>

definition USDC_DECIMALS :: nat where
  "USDC_DECIMALS = 6"

definition Math_pow_10 :: "nat \<Rightarrow> number" where
  "Math_pow_10 k = Dyadic (10 ^ k) 0"

section \<open>JSON values\<close>

text \<open>
  A JSON value, as \<open>JSON.parse\<close> returns it; an object keeps its members in the order of
  the text.
\<close>

datatype json =
    JNull
  | JBool bool
  | JNumber number
  | JString string
  | JArray "json list"
  | JObject "(string \<times> json) list"

text \<open>The truthiness of a JSON value, as \<open>if (value)\<close> tests it.\<close>

fun truthy :: "json \<Rightarrow> bool" where
  "truthy JNull = False"
| "truthy (JBool b) = b"
| "truthy (JNumber x) = (\<not> falsy_number x)"
| "truthy (JString s) = (s \<noteq> [])"
| "truthy (JArray _) = True"
| "truthy (JObject _) = True"

text \<open>
  \<open>value.transactionId\<close> for a value that is not \<open>null\<close>: the member of that name of
  an object (the last one, when the text repeats the name), \<open>undefined\<close> (here \<open>None\<close>)
  when the object has none and for every value that is not an object.
\<close>

fun transactionId_of :: "json \<Rightarrow> json option" where
  "transactionId_of (JObject members) = map_of (rev members) ''transactionId''"
| "transactionId_of _ = None"

section \<open>Errors (types/dexfra.ts)\<close>

text \<open>
  \<open>interface X402PaymentRequiredResponse\<close>, each field possibly missing from the body.
  \<open>accepts = None\<close> stands for a value that is not an array. A body that is a JSON
  value without members (a number, a string, an array) reads as the record without fields.
\<close>

record X402PaymentRequiredResponse =
  x402Version :: "number option"
  accepts :: "X402PaymentRequirement list option"
  message :: "string option"

text \<open>
  What a JavaScript \<open>throw\<close> can carry: a built-in error (name and message), a value that
  is not an \<open>Error\<close>, or one of the classes of types/dexfra.ts. \<open>DexfraError\<close> carries
  message, code and details; the other subclasses of \<open>DexfraError\<close> of the repository
  (\<open>APINotFoundError\<close>, \<open>NetworkNotSupportedError\<close>) are \<open>DexfraError\<close> values with their
  own code.
\<close>

datatype exn =
    JsError string string
  | ThrownValue string
  | DexfraError string string details
  | PaymentRequiredError string string "X402PaymentRequirement list"
  | MaxAmountExceededError string string string
and details =
    NoDetails
  | ChallengeDetails X402PaymentRequiredResponse
  | Cause exn

text \<open>\<open>error instanceof DexfraError\<close>\<close>

fun instanceof_DexfraError :: "exn \<Rightarrow> bool" where
  "instanceof_DexfraError (DexfraError _ _ _) = True"
| "instanceof_DexfraError (PaymentRequiredError _ _ _) = True"
| "instanceof_DexfraError (MaxAmountExceededError _ _ _) = True"
| "instanceof_DexfraError _ = False"

text \<open>\<open>error instanceof Error ? error.message : "Unknown error"\<close>\<close>

fun message_or_unknown :: "exn \<Rightarrow> string" where
  "message_or_unknown (JsError _ m) = m"
| "message_or_unknown (ThrownValue _) = ''Unknown error''"
| "message_or_unknown (DexfraError m _ _) = m"
| "message_or_unknown (PaymentRequiredError m _ _) = m"
| "message_or_unknown (MaxAmountExceededError m _ _) = m"

text \<open>The \<open>code\<close> field of a \<open>DexfraError\<close>, set by each subclass constructor.\<close>

fun code :: "exn \<Rightarrow> string option" where
  "code (DexfraError _ c _) = Some c"
| "code (PaymentRequiredError _ _ _) = Some ''PAYMENT_REQUIRED''"
| "code (MaxAmountExceededError _ _ _) = Some ''MAX_AMOUNT_EXCEEDED''"
| "code _ = None"

text \<open>
  \<open>BigInt(Math.floor(x))\<close>. \<open>Math.floor\<close> returns an integer, \<open>NaN\<close> or an
  infinity, so these are the only arguments \<open>BigInt\<close> meets here: the integer is
  converted exactly, the other three give a \<open>RangeError\<close> with the engine's message.
\<close>

definition not_an_integer :: "string \<Rightarrow> exn" where
  "not_an_integer shown =
     JsError ''RangeError''
       (''The number '' @ shown @ '' cannot be converted to a BigInt because it is not an integer'')"

definition BigInt_of_Math_floor :: "number \<Rightarrow> exn + int" where
  "BigInt_of_Math_floor x =
     (case Math_floor x of
        Dyadic n e \<Rightarrow> Inr (n * 2 ^ nat e)
      | NaN \<Rightarrow> Inl (not_an_integer ''NaN'')
      | PlusInfinity \<Rightarrow> Inl (not_an_integer ''Infinity'')
      | MinusInfinity \<Rightarrow> Inl (not_an_integer ''-Infinity''))"

text \<open>
  \<open>function parseUSDCAmount(amount: number): bigint\<close>:
  \<open>BigInt(Math.floor(amount * Math.pow(10, USDC_DECIMALS)))\<close>
\<close>

definition parseUSDCAmount :: "number \<Rightarrow> exn + int" where
  "parseUSDCAmount amount =
     BigInt_of_Math_floor (number_times amount (Math_pow_10 USDC_DECIMALS))"

text \<open>
  \<open>BigInt(s)\<close> for a string (StringToBigInt): white space is trimmed; the empty string is 0;
  otherwise decimal digits with an optional sign, or binary, octal or hexadecimal digits
  after \<open>0b\<close>, \<open>0o\<close>, \<open>0x\<close>; anything else is a \<open>SyntaxError\<close>.
\<close>

definition is_whitespace :: "char \<Rightarrow> bool" where
  "is_whitespace c = ((of_char c :: nat) \<in> {9, 10, 11, 12, 13, 32, 160})"

definition trim :: "string \<Rightarrow> string" where
  "trim s = rev (dropWhile is_whitespace (rev (dropWhile is_whitespace s)))"

definition digit_value :: "char \<Rightarrow> int option" where
  "digit_value c =
     (let n = (of_char c :: int) in
      if 48 \<le> n \<and> n \<le> 57 then Some (n - 48)
      else if 97 \<le> n \<and> n \<le> 102 then Some (n - 87)
      else if 65 \<le> n \<and> n \<le> 70 then Some (n - 55)
      else None)"

fun parse_digits :: "int \<Rightarrow> int \<Rightarrow> string \<Rightarrow> int option" where
  "parse_digits base acc [] = Some acc"
| "parse_digits base acc (c # cs) =
     (case digit_value c of
        None \<Rightarrow> None
      | Some d \<Rightarrow> if d < base then parse_digits base (acc * base + d) cs else None)"

definition parse_nonempty :: "int \<Rightarrow> string \<Rightarrow> int option" where
  "parse_nonempty base s = (if s = [] then None else parse_digits base 0 s)"

definition StringToBigInt :: "string \<Rightarrow> int option" where
  "StringToBigInt s =
     (let t = trim s in
      if t = [] then Some 0
      else if take 2 t = ''0x'' \<or> take 2 t = ''0X'' then parse_nonempty 16 (drop 2 t)
      else if take 2 t = ''0o'' \<or> take 2 t = ''0O'' then parse_nonempty 8 (drop 2 t)
      else if take 2 t = ''0b'' \<or> take 2 t = ''0B'' then parse_nonempty 2 (drop 2 t)
      else if hd t = CHR ''+'' then parse_nonempty 10 (tl t)
      else if hd t = CHR ''-'' then map_option uminus (parse_nonempty 10 (tl t))
      else parse_nonempty 10 t)"

definition BigInt_of_string :: "string \<Rightarrow> exn + int" where
  "BigInt_of_string s =
     (case StringToBigInt s of
        None \<Rightarrow> Inl (JsError ''SyntaxError'' (''Cannot convert '' @ s @ '' to a BigInt''))
      | Some n \<Rightarrow> Inr n)"

text \<open>Decimal digits of a non-negative integer, and \<open>BigInt.prototype.toString()\<close>.\<close>

definition digit_char :: "int \<Rightarrow> char" where
  "digit_char d = ''0123456789'' ! nat d"

function dec_digits :: "int \<Rightarrow> string" where
  "dec_digits n = (if n < 10 then [digit_char n] else dec_digits (n div 10) @ [digit_char (n mod 10)])"
  by pat_completeness auto
termination
  by (relation "measure nat") auto

declare dec_digits.simps [simp del]

definition BigInt_toString :: "int \<Rightarrow> string" where
  "BigInt_toString n = (if n < 0 then CHR ''-'' # dec_digits (- n) else dec_digits n)"

section \<open>Text encodings\<close>

text \<open>
  \<open>JSON.stringify\<close> of a string (QuoteJSONString): the quote and the backslash are
  escaped with a backslash, the control characters below U+0020 become a backslash
  followed by \<open>b\<close>, \<open>t\<close>, \<open>n\<close>, \<open>f\<close>, \<open>r\<close>, or by \<open>u00\<close> and two lower-case
  hexadecimal digits; every other character is kept.
\<close>

definition hex_char :: "nat \<Rightarrow> char" where
  "hex_char d = ''0123456789abcdef'' ! d"

definition json_escape_char :: "char \<Rightarrow> string" where
  "json_escape_char c =
     (let n = (of_char c :: nat) in
      if n = 8 then CHR 0x5C # ''b''
      else if n = 9 then CHR 0x5C # ''t''
      else if n = 10 then CHR 0x5C # ''n''
      else if n = 12 then CHR 0x5C # ''f''
      else if n = 13 then CHR 0x5C # ''r''
      else if n = 34 then [CHR 0x5C, CHR 0x22]
      else if n = 92 then [CHR 0x5C, CHR 0x5C]
      else if n < 32 then CHR 0x5C # ''u00'' @ [hex_char (n div 16), hex_char (n mod 16)]
      else [c])"

definition JSON_stringify_string :: "string \<Rightarrow> string" where
  "JSON_stringify_string s = [CHR 0x22] @ concat (map json_escape_char s) @ [CHR 0x22]"

text \<open>
  \<open>Buffer.from(s)\<close>: the UTF-8 bytes of the string. A byte is a \<open>char\<close> (8 bits); a
  code unit below 128 is one byte, one from 128 to 255 is two.
\<close>

type_synonym byte = char

definition utf8_char :: "char \<Rightarrow> byte list" where
  "utf8_char c =
     (let n = (of_char c :: nat) in
      if n < 128 then [c] else [char_of (192 + n div 64), char_of (128 + n mod 64)])"

definition Buffer_from :: "string \<Rightarrow> byte list" where
  "Buffer_from s = concat (map utf8_char s)"

text \<open>
  \<open>buffer.toString("base64")\<close>: three bytes become four characters of the alphabet
  \<open>A-Z a-z 0-9 + /\<close>; a last group of one or two bytes is padded with \<open>=\<close>.
\<close>

definition base64_char :: "nat \<Rightarrow> char" where
  "base64_char i =
     (if i < 26 then char_of (65 + i)
      else if i < 52 then char_of (71 + i)
      else if i < 62 then char_of (i - 4)
      else if i = 62 then CHR ''+'' else CHR ''/'')"

fun toString_base64 :: "byte list \<Rightarrow> string" where
  "toString_base64 [] = []"
| "toString_base64 [a] =
     (let x = (of_char a :: nat) in
      [base64_char (x div 4), base64_char (x mod 4 * 16), CHR ''='', CHR ''=''])"
| "toString_base64 [a, b] =
     (let x = (of_char a :: nat); y = (of_char b :: nat) in
      [base64_char (x div 4), base64_char (x mod 4 * 16 + y div 16),
       base64_char (y mod 16 * 4), CHR ''=''])"
| "toString_base64 (a # b # c # rest) =
     (let x = (of_char a :: nat); y = (of_char b :: nat); z = (of_char c :: nat) in
      [base64_char (x div 4), base64_char (x mod 4 * 16 + y div 16),
       base64_char (y mod 16 * 4 + z div 64), base64_char (z mod 64)]
      @ toString_base64 rest)"

text \<open>
  The inverse reading of that format (the strict one: full groups of four, padding only in
  the last group), used to state that the encoding loses nothing.
\<close>

definition base64_index :: "char \<Rightarrow> nat option" where
  "base64_index c =
     (let n = (of_char c :: nat) in
      if 65 \<le> n \<and> n \<le> 90 then Some (n - 65)
      else if 97 \<le> n \<and> n \<le> 122 then Some (n - 71)
      else if 48 \<le> n \<and> n \<le> 57 then Some (n + 4)
      else if n = 43 then Some 62
      else if n = 47 then Some 63
      else None)"

fun from_base64 :: "string \<Rightarrow> byte list option" where
  "from_base64 [] = Some []"
| "from_base64 (p # q # r # s # rest) =
     (case (base64_index p, base64_index q) of
        (Some i, Some j) \<Rightarrow>
          (if r = CHR ''='' \<and> s = CHR ''='' \<and> rest = [] then
             (if j mod 16 = 0 then Some [char_of (i * 4 + j div 16)] else None)
           else
             (case base64_index r of
                None \<Rightarrow> None
              | Some k \<Rightarrow>
                  (if s = CHR ''='' \<and> rest = [] then
                     (if k mod 4 = 0
                      then Some [char_of (i * 4 + j div 16), char_of (j mod 16 * 16 + k div 4)]
                      else None)
                   else
                     (case base64_index s of
                        None \<Rightarrow> None
                      | Some l \<Rightarrow>
                          (case from_base64 rest of
                             None \<Rightarrow> None
                           | Some bs \<Rightarrow>
                               Some (char_of (i * 4 + j div 16)
                                     # char_of (j mod 16 * 16 + k div 4)
                                     # char_of (k mod 4 * 64 + l) # bs))))))
      | _ \<Rightarrow> None)"
| "from_base64 _ = None"

section \<open>Wallet (wallet.ts) and configuration (types/dexfra.ts)\<close>

type_synonym transaction = string

text \<open>\<open>interface DexfraWallet\<close>: every signing operation may reject with an error.\<close>

record DexfraWallet =
  publicKey :: string
  signTransaction :: "transaction \<Rightarrow> exn + transaction"
  signAllTransactions :: "transaction list \<Rightarrow> exn + transaction list"
  sendTransaction :: "(transaction \<Rightarrow> exn + string) option"

text \<open>
  \<open>interface DexfraFetchConfig\<close>. A callback returns \<open>None\<close> when it returns normally and
  \<open>Some e\<close> when it throws \<open>e\<close>; an absent callback is \<open>None\<close>. \<open>onPaymentSuccess\<close>
  is declared for a string but receives whatever \<open>settlement.transactionId\<close> is: a JSON
  value or \<open>undefined\<close> (\<open>None\<close>). \<open>connection\<close> is the RPC connection, of which
  nothing is used.
\<close>

record DexfraFetchConfig =
  wallet :: DexfraWallet
  connection :: string
  cfg_network :: string
  facilitatorUrl :: string
  maxAmount :: "number option"
  onPaymentRequired :: "(string \<Rightarrow> exn option) option"
  onPaymentSuccess :: "(json option \<Rightarrow> exn option) option"
  onPaymentError :: "(exn \<Rightarrow> exn option) option"

section \<open>Headers (the Fetch API)\<close>

text \<open>
  A \<open>Headers\<close> object is its header list: name/value pairs in insertion order. Names are
  kept in lower case, as every reading of the object shows them, and values without
  leading and trailing HTTP white space (tab, line feed, carriage return, space).
\<close>

type_synonym Headers = "(string \<times> string) list"

text \<open>Byte lower-casing: only \<open>A\<close>..\<open>Z\<close> move.\<close>

definition byte_lowercase_char :: "char \<Rightarrow> char" where
  "byte_lowercase_char c =
     (let n = (of_char c :: nat) in if 65 \<le> n \<and> n \<le> 90 then char_of (n + 32) else c)"

definition byte_lowercase :: "string \<Rightarrow> string" where
  "byte_lowercase s = map byte_lowercase_char s"

text \<open>
  A header name is a non-empty HTTP token: letters, digits and the marks
  \<open>! # $ % & ' * + - . ^ _ ` | ~\<close>.
\<close>

definition is_token_char :: "char \<Rightarrow> bool" where
  "is_token_char c =
     (let n = (of_char c :: nat) in
      (48 \<le> n \<and> n \<le> 57) \<or> (65 \<le> n \<and> n \<le> 90) \<or> (97 \<le> n \<and> n \<le> 122)
      \<or> n \<in> {33, 35, 36, 37, 38, 39, 42, 43, 45, 46, 94, 95, 96, 124, 126})"

definition is_header_name :: "string \<Rightarrow> bool" where
  "is_header_name name = (name \<noteq> [] \<and> list_all is_token_char name)"

definition is_http_whitespace :: "char \<Rightarrow> bool" where
  "is_http_whitespace c = ((of_char c :: nat) \<in> {9, 10, 13, 32})"

definition normalize_value :: "string \<Rightarrow> string" where
  "normalize_value v =
     rev (dropWhile is_http_whitespace (rev (dropWhile is_http_whitespace v)))"

text \<open>A normalized value is a header value when it holds no NUL, line feed or carriage return.\<close>

definition is_header_value :: "string \<Rightarrow> bool" where
  "is_header_value v =
     list_all (\<lambda>c. (of_char c :: nat) \<noteq> 0 \<and> (of_char c :: nat) \<noteq> 10
                 \<and> (of_char c :: nat) \<noteq> 13) v"

text \<open>
  \<open>headers.get(name)\<close>: the values of the entries of that name (compared without regard to
  case), joined with a comma and a space; \<open>null\<close> (here \<open>None\<close>) without such an entry.
\<close>

definition Headers_get :: "string \<Rightarrow> Headers \<Rightarrow> string option" where
  "Headers_get name hs =
     (case map snd (filter (\<lambda>(k, w). byte_lowercase k = byte_lowercase name) hs) of
        [] \<Rightarrow> None
      | v # vs \<Rightarrow> Some (foldl (\<lambda>joined w. joined @ '', '' @ w) v vs))"

text \<open>
  The update of \<open>headers.set(name, value)\<close>: the first entry of that name takes the value
  and the other entries of that name are removed; without such an entry one is added at
  the end.
\<close>

fun set_first :: "string \<Rightarrow> string \<Rightarrow> Headers \<Rightarrow> Headers" where
  "set_first n v [] = [(n, v)]"
| "set_first n v ((k, w) # hs) =
     (if byte_lowercase k = n
      then (n, v) # filter (\<lambda>(k', w'). byte_lowercase k' \<noteq> n) hs
      else (k, w) # set_first n v hs)"

definition Headers_put :: "string \<Rightarrow> string \<Rightarrow> Headers \<Rightarrow> Headers" where
  "Headers_put name value hs = set_first (byte_lowercase name) (normalize_value value) hs"

section \<open>The platform: requests, responses, clock\<close>

text \<open>
  \<open>RequestInit\<close> (method, body, headers) as far as the code touches it; the headers of
  the caller are name/value pairs, as an object, an array of pairs or a \<open>Headers\<close> object
  lists them.
\<close>

record RequestInit =
  init_method :: "string option"
  init_body :: "string option"
  init_headers :: "(string \<times> string) list"

record request =
  req_url :: string
  req_method :: "string option"
  req_body :: "string option"
  req_headers :: Headers

text \<open>
  A \<open>Response\<close>: \<open>resp_json\<close> is what \<open>await response.json()\<close> gives. It throws on a
  body that is not JSON (an empty body included); the body \<open>null\<close> is \<open>None\<close>; any other
  parsed body is read at the type \<open>X402PaymentRequiredResponse\<close>, as the cast in the
  source has it. \<open>resp_headers\<close> is the header list of \<open>response.headers\<close>. \<open>ok\<close> is
  true for the status range 200-299.
\<close>

record Response =
  status :: nat
  resp_headers :: Headers
  resp_json :: "exn + X402PaymentRequiredResponse option"
  resp_text :: string

definition ok :: "Response \<Rightarrow> bool" where
  "ok r = (200 \<le> status r \<and> status r \<le> 299)"

text \<open>
  The world outside the function: \<open>fetch n rq\<close> is the outcome of the call to \<open>fetch\<close>
  made after \<open>n\<close> earlier ones (a rejection or a response); \<open>now\<close> is \<open>Date.now()\<close>;
  \<open>atob\<close> and \<open>JSON_parse\<close> are the platform's decoder and parser, which throw on
  malformed input; \<open>Number_toString\<close> is the platform's decimal text of a finite number;
  \<open>invalid_header\<close> is the \<open>TypeError\<close> that \<open>Headers\<close> throws for a name and value
  it does not accept.
\<close>

record env =
  fetch :: "nat \<Rightarrow> request \<Rightarrow> exn + Response"
  now :: number
  atob :: "string \<Rightarrow> exn + string"
  JSON_parse :: "string \<Rightarrow> exn + json"
  Number_toString :: "number \<Rightarrow> string"
  invalid_header :: "string \<Rightarrow> string \<Rightarrow> exn"

text \<open>
  \<open>new Headers(init)\<close> appends the pairs in order: each value is normalized, a name that
  is not a token or a value that is not a header value throws, and the entry is added with
  its name in lower case.
\<close>

fun Headers_fill :: "env \<Rightarrow> (string \<times> string) list \<Rightarrow> Headers \<Rightarrow> exn + Headers" where
  "Headers_fill world [] hs = Inr hs"
| "Headers_fill world ((name, value) # rest) hs =
     (if is_header_name name \<and> is_header_value (normalize_value value)
      then Headers_fill world rest (hs @ [(byte_lowercase name, normalize_value value)])
      else Inl (invalid_header world name value))"

text \<open>\<open>new Headers(init?.headers)\<close>; without \<open>init\<close> the list is empty.\<close>

definition new_Headers :: "env \<Rightarrow> RequestInit option \<Rightarrow> exn + Headers" where
  "new_Headers world init =
     (case init of None \<Rightarrow> Inr [] | Some i \<Rightarrow> Headers_fill world (init_headers i) [])"

text \<open>\<open>headers.set(name, value)\<close> makes the same checks before the update.\<close>

definition Headers_set :: "env \<Rightarrow> string \<Rightarrow> string \<Rightarrow> Headers \<Rightarrow> exn + Headers" where
  "Headers_set world name value hs =
     (if is_header_name name \<and> is_header_value (normalize_value value)
      then Inr (Headers_put name value hs)
      else Inl (invalid_header world name value))"

text \<open>The observable steps of a call, in the order they happen.\<close>

datatype event =
    Fetch request "exn + Response"
  | OnPaymentRequired string
  | OnPaymentSuccess "json option"
  | OnPaymentError exn
  | CreatePaymentHeader number X402PaymentRequirement

type_synonym 'a outcome = "(exn + 'a) \<times> event list"

text \<open>Sequencing: an exception skips the rest; the events of both parts are kept in order.\<close>

definition and_then :: "'a outcome \<Rightarrow> ('a \<Rightarrow> 'b outcome) \<Rightarrow> 'b outcome" where
  "and_then m f =
     (case m of
        (Inl e, evs) \<Rightarrow> (Inl e, evs)
      | (Inr a, evs) \<Rightarrow> (case f a of (r, evs') \<Rightarrow> (r, evs @ evs')))"

text \<open>The optional call \<open>callback?.(arg)\<close>.\<close>

definition call_optional :: "('a \<Rightarrow> exn option) option \<Rightarrow> 'a \<Rightarrow> event \<Rightarrow> unit outcome" where
  "call_optional callback arg ev =
     (case callback of
        None \<Rightarrow> (Inr (), [])
      | Some f \<Rightarrow> (case f arg of None \<Rightarrow> (Inr (), [ev]) | Some e \<Rightarrow> (Inl e, [ev])))"

definition do_fetch :: "env \<Rightarrow> nat \<Rightarrow> request \<Rightarrow> Response outcome" where
  "do_fetch world n rq = (fetch world n rq, [Fetch rq (fetch world n rq)])"

section \<open>Payment header (tools/fetch.ts, createPaymentHeader)\<close>

text \<open>The object literal \<open>paymentData\<close>.\<close>

record paymentData =
  pd_version :: number
  pd_network :: string
  pd_recipient :: string
  pd_amount :: string
  pd_token :: "string option"
  pd_scheme :: scheme
  pd_timestamp :: number

definition make_paymentData :: "number \<Rightarrow> X402PaymentRequirement \<Rightarrow> number \<Rightarrow> paymentData" where
  "make_paymentData x402Version' requirement date_now =
     \<lparr> pd_version = x402Version',
       pd_network = network requirement,
       pd_recipient = recipient requirement,
       pd_amount = maxAmountRequired requirement,
       pd_token = token requirement,
       pd_scheme = scheme requirement,
       pd_timestamp = date_now \<rparr>"

fun scheme_text :: "scheme \<Rightarrow> string" where
  "scheme_text Exact = ''exact''"
| "scheme_text Upto = ''upto''"

text \<open>
  \<open>JSON.stringify\<close> of a number: \<open>null\<close> for \<open>NaN\<close> and the infinities, otherwise the
  decimal text of the number. For an integer of magnitude below \<open>2 ^ 53\<close> that text is its
  decimal digits; for every other finite number it is the platform's shortest text that
  reads back as the same number (with an exponent from \<open>10 ^ 21\<close> on).
\<close>

definition integer_value :: "number \<Rightarrow> int option" where
  "integer_value x =
     (case x of
        Dyadic m e \<Rightarrow>
          (if e \<ge> 0 then Some (m * 2 ^ nat e)
           else if m mod 2 ^ nat (- e) = 0 then Some (m div 2 ^ nat (- e))
           else None)
      | _ \<Rightarrow> None)"

definition JSON_stringify_number :: "env \<Rightarrow> number \<Rightarrow> string" where
  "JSON_stringify_number world x =
     (case x of
        Dyadic m e \<Rightarrow>
          (case integer_value x of
             Some n \<Rightarrow> if \<bar>n\<bar> < 2 ^ 53 then BigInt_toString n else Number_toString world x
           | None \<Rightarrow> Number_toString world x)
      | _ \<Rightarrow> ''null'')"

text \<open>\<open>JSON.stringify(paymentData)\<close>: the keys in insertion order; an undefined \<open>token\<close> is left out.\<close>

definition JSON_stringify_paymentData :: "env \<Rightarrow> paymentData \<Rightarrow> string" where
  "JSON_stringify_paymentData world d =
     ''{'' @ JSON_stringify_string ''version'' @ '':''
       @ JSON_stringify_number world (pd_version d)
     @ '','' @ JSON_stringify_string ''network'' @ '':'' @ JSON_stringify_string (pd_network d)
     @ '','' @ JSON_stringify_string ''recipient'' @ '':'' @ JSON_stringify_string (pd_recipient d)
     @ '','' @ JSON_stringify_string ''amount'' @ '':'' @ JSON_stringify_string (pd_amount d)
     @ (case pd_token d of
          None \<Rightarrow> []
        | Some t \<Rightarrow> '','' @ JSON_stringify_string ''token'' @ '':'' @ JSON_stringify_string t)
     @ '','' @ JSON_stringify_string ''scheme'' @ '':''
       @ JSON_stringify_string (scheme_text (pd_scheme d))
     @ '','' @ JSON_stringify_string ''timestamp'' @ '':''
       @ JSON_stringify_number world (pd_timestamp d)
     @ ''}''"

text \<open>
  The \<open>try\<close> block of \<open>createPaymentHeader\<close>: nothing in it reads the wallet or the
  connection, and none of its steps throws.
\<close>

definition paymentHeader_of :: "env \<Rightarrow> paymentData \<Rightarrow> string" where
  "paymentHeader_of world d = toString_base64 (Buffer_from (JSON_stringify_paymentData world d))"

definition createPaymentHeader_try ::
  "env \<Rightarrow> DexfraWallet \<Rightarrow> string \<Rightarrow> number \<Rightarrow> X402PaymentRequirement \<Rightarrow> exn + string" where
  "createPaymentHeader_try world wallet' connection' x402Version' requirement =
     Inr (paymentHeader_of world (make_paymentData x402Version' requirement (now world)))"

text \<open>\<open>createPaymentHeader\<close> with its \<open>catch\<close>, which wraps whatever the block throws.\<close>

definition createPaymentHeader ::
  "env \<Rightarrow> DexfraWallet \<Rightarrow> string \<Rightarrow> number \<Rightarrow> X402PaymentRequirement \<Rightarrow> string outcome" where
  "createPaymentHeader world wallet' connection' x402Version' requirement =
     (case createPaymentHeader_try world wallet' connection' x402Version' requirement of
        Inr paymentHeader \<Rightarrow> Inr paymentHeader
      | Inl error \<Rightarrow>
          Inl (DexfraError (''Failed to create payment header: '' @ message_or_unknown error)
                 ''PAYMENT_CREATION_FAILED'' (Cause error)),
      [CreatePaymentHeader x402Version' requirement])"

section \<open>Settlement header (tools/fetch.ts, parseSettlementResponse)\<close>

text \<open>
  \<open>!header\<close> holds for \<open>null\<close> and for the empty string; a throw of \<open>atob\<close> or of
  \<open>JSON.parse\<close> is caught, logged with \<open>console.warn\<close>, and gives \<open>null\<close>. Otherwise the
  result is whatever value the text parses to, \<open>null\<close> included.
\<close>

definition parseSettlementResponse :: "env \<Rightarrow> string option \<Rightarrow> json" where
  "parseSettlementResponse world header =
     (case header of
        None \<Rightarrow> JNull
      | Some h \<Rightarrow>
          if h = [] then JNull
          else (case atob world h of
                  Inl error \<Rightarrow> JNull
                | Inr decoded \<Rightarrow>
                    (case JSON_parse world decoded of
                       Inl error \<Rightarrow> JNull
                     | Inr settlement \<Rightarrow> settlement)))"

section \<open>The orchestrator (tools/fetch.ts, dexfraFetch)\<close>

text \<open>The request of \<open>fetch(url, {...init, headers})\<close>.\<close>

definition make_request :: "string \<Rightarrow> RequestInit option \<Rightarrow> Headers \<Rightarrow> request" where
  "make_request url init headers =
     \<lparr> req_url = url,
       req_method = (case init of None \<Rightarrow> None | Some i \<Rightarrow> init_method i),
       req_body = (case init of None \<Rightarrow> None | Some i \<Rightarrow> init_body i),
       req_headers = headers \<rparr>"

text \<open>
  Parsing, validating and selecting (fetch.ts lines 126-151, the first statements of the
  \<open>try\<close> block). Reading \<open>x402Version\<close> of the body \<open>null\<close> throws a \<open>TypeError\<close>.
  \<open>!x402Version\<close> holds for a missing version and for 0. The result is the version,
  the offers and the selected offer.
\<close>

definition falsy_version :: "number option \<Rightarrow> bool" where
  "falsy_version v = (case v of None \<Rightarrow> True | Some x \<Rightarrow> falsy_number x)"

definition read_challenge ::
  "DexfraFetchConfig \<Rightarrow> Response
     \<Rightarrow> (number \<times> X402PaymentRequirement list \<times> X402PaymentRequirement) outcome" where
  "read_challenge config response =
     and_then (resp_json response, []) (\<lambda>body.
       case body of
         None \<Rightarrow>
           (Inl (JsError ''TypeError''
                   ''Cannot read properties of null (reading 'x402Version')''), [])
       | Some paymentRequiredData \<Rightarrow>
           if falsy_version (x402Version paymentRequiredData)
              \<or> accepts paymentRequiredData = None \<or> accepts paymentRequiredData = Some []
           then (Inl (DexfraError ''Invalid 402 Payment Required response''
                        ''INVALID_402_RESPONSE'' (ChallengeDetails paymentRequiredData)), [])
           else
             (let x402Version' = the (x402Version paymentRequiredData);
                  requirements = the (accepts paymentRequiredData)
              in case selectPaymentRequirement requirements (cfg_network config) of
                   None \<Rightarrow>
                     (Inl (JsError ''TypeError''
                             ''Cannot read properties of undefined (reading 'maxAmountRequired')''),
                      [])
                 | Some selectedRequirement \<Rightarrow>
                     (Inr (x402Version', requirements, selectedRequirement), [])))"

text \<open>
  The ceiling check (lines 153-168): \<open>if (config.maxAmount !== undefined) { ... }\<close>. Both conversions may
  throw; when the required amount is above the ceiling the error is built, handed to
  \<open>onPaymentError\<close> and thrown.
\<close>

definition new_MaxAmountExceededError :: "X402PaymentRequirement \<Rightarrow> int \<Rightarrow> exn" where
  "new_MaxAmountExceededError selectedRequirement maxAmountWei =
     MaxAmountExceededError
       (''Payment amount '' @ maxAmountRequired selectedRequirement
        @ '' exceeds max amount '' @ BigInt_toString maxAmountWei)
       (maxAmountRequired selectedRequirement)
       (BigInt_toString maxAmountWei)"

definition check_maxAmount :: "DexfraFetchConfig \<Rightarrow> X402PaymentRequirement \<Rightarrow> unit outcome" where
  "check_maxAmount config selectedRequirement =
     (case maxAmount config of
        None \<Rightarrow> (Inr (), [])
      | Some amount \<Rightarrow>
          and_then (parseUSDCAmount amount, []) (\<lambda>maxAmountWei.
          and_then (BigInt_of_string (maxAmountRequired selectedRequirement), [])
            (\<lambda>requiredAmount.
              if requiredAmount > maxAmountWei then
                (let error = new_MaxAmountExceededError selectedRequirement maxAmountWei
                 in and_then (call_optional (onPaymentError config) error (OnPaymentError error))
                      (\<lambda>_. (Inl error, [])))
              else (Inr (), []))))"

text \<open>
  After the paid retry (lines 188-205): the second 402, the settlement header, the success
  callback, called with \<open>settlement.transactionId\<close> when \<open>settlement\<close> is truthy.
\<close>

definition settle ::
  "env \<Rightarrow> DexfraFetchConfig \<Rightarrow> X402PaymentRequirement list \<Rightarrow> X402PaymentRequirement
     \<Rightarrow> Response \<Rightarrow> Response outcome" where
  "settle world config requirements selectedRequirement paidResponse =
     (if \<not> ok paidResponse \<and> status paidResponse = 402
      then (Inl (PaymentRequiredError ''Payment was not accepted''
                   (maxAmountRequired selectedRequirement) requirements), [])
      else
        (let settlementHeader = Headers_get ''x-payment-response'' (resp_headers paidResponse);
             settlement = parseSettlementResponse world settlementHeader
         in and_then
              (if truthy settlement
               then call_optional (onPaymentSuccess config) (transactionId_of settlement)
                      (OnPaymentSuccess (transactionId_of settlement))
               else (Inr (), []))
              (\<lambda>_. (Inr paidResponse, []))))"

text \<open>
  From the ceiling check to the end of the \<open>try\<close> block (lines 153-205): the check,
  \<open>onPaymentRequired\<close>, the header, \<open>headers.set("x-payment", paymentHeader)\<close> and the
  second \<open>fetch\<close>.
\<close>

definition pay ::
  "env \<Rightarrow> string \<Rightarrow> DexfraFetchConfig \<Rightarrow> RequestInit option \<Rightarrow> Headers
     \<Rightarrow> number \<Rightarrow> X402PaymentRequirement list \<Rightarrow> X402PaymentRequirement \<Rightarrow> Response outcome" where
  "pay world url config init headers x402Version' requirements selectedRequirement =
     and_then (check_maxAmount config selectedRequirement) (\<lambda>_.
     and_then (call_optional (onPaymentRequired config)
                 (maxAmountRequired selectedRequirement)
                 (OnPaymentRequired (maxAmountRequired selectedRequirement))) (\<lambda>_.
     and_then (createPaymentHeader world (wallet config) (connection config)
                 x402Version' selectedRequirement) (\<lambda>paymentHeader.
     and_then (Headers_set world ''x-payment'' paymentHeader headers, []) (\<lambda>headers'.
     and_then (do_fetch world 1 (make_request url init headers'))
       (\<lambda>paidResponse. settle world config requirements selectedRequirement paidResponse)))))"

text \<open>The whole \<open>try\<close> block entered when the first response has status 402.\<close>

definition payment_flow ::
  "env \<Rightarrow> string \<Rightarrow> DexfraFetchConfig \<Rightarrow> RequestInit option \<Rightarrow> Headers
     \<Rightarrow> Response \<Rightarrow> Response outcome" where
  "payment_flow world url config init headers response =
     and_then (read_challenge config response)
       (\<lambda>(x402Version', requirements, selectedRequirement).
          pay world url config init headers x402Version' requirements selectedRequirement)"

text \<open>
  The \<open>catch\<close> of that block (lines 206-221): a \<open>DexfraError\<close> is thrown again as it is; anything else is
  wrapped, the wrapper is handed to \<open>onPaymentError\<close> and thrown.
\<close>

definition wrap_error :: "exn \<Rightarrow> exn" where
  "wrap_error error =
     DexfraError (''Payment processing failed: '' @ message_or_unknown error)
       ''PAYMENT_PROCESSING_FAILED'' (Cause error)"

definition payment_catch :: "DexfraFetchConfig \<Rightarrow> Response outcome \<Rightarrow> Response outcome" where
  "payment_catch config m =
     (case m of
        (Inr r, evs) \<Rightarrow> (Inr r, evs)
      | (Inl error, evs) \<Rightarrow>
          if instanceof_DexfraError error then (Inl error, evs)
          else
            (let wrappedError = wrap_error error
             in and_then (Inr (), evs) (\<lambda>_.
                and_then (call_optional (onPaymentError config) wrappedError
                            (OnPaymentError wrappedError))
                  (\<lambda>_. (Inl wrappedError, [])))))"

text \<open>
  \<open>dexfraFetch(url, config, init)\<close>: the headers are built and the first request is made
  outside the \<open>try\<close>, so a throw of \<open>new Headers\<close> and a rejection of the first request
  reach the caller as they are; a response with a status other than 402 is returned at
  once.
\<close>

definition dexfraFetch ::
  "env \<Rightarrow> string \<Rightarrow> DexfraFetchConfig \<Rightarrow> RequestInit option \<Rightarrow> Response outcome" where
  "dexfraFetch world url config init =
     and_then (new_Headers world init, []) (\<lambda>headers.
     and_then (do_fetch world 0 (make_request url init headers)) (\<lambda>response.
       if status response = 402
       then payment_catch config (payment_flow world url config init headers response)
       else (Inr response, [])))"

section \<open>Reading a run\<close>

fun is_Fetch :: "event \<Rightarrow> bool" where
  "is_Fetch (Fetch _ _) = True"
| "is_Fetch _ = False"

fun is_CreatePaymentHeader :: "event \<Rightarrow> bool" where
  "is_CreatePaymentHeader (CreatePaymentHeader _ _) = True"
| "is_CreatePaymentHeader _ = False"

fun is_OnPaymentError :: "event \<Rightarrow> bool" where
  "is_OnPaymentError (OnPaymentError _) = True"
| "is_OnPaymentError _ = False"

fun is_OnPaymentSuccess :: "event \<Rightarrow> bool" where
  "is_OnPaymentSuccess (OnPaymentSuccess _) = True"
| "is_OnPaymentSuccess _ = False"

text \<open>The network calls of a run, and whether the header construction step was reached.\<close>

definition fetches :: "event list \<Rightarrow> event list" where
  "fetches evs = filter is_Fetch evs"

definition header_built :: "event list \<Rightarrow> bool" where
  "header_built evs = list_ex is_CreatePaymentHeader evs"

text \<open>
  The first request of a call and the response to it: there is one when \<open>new Headers\<close>
  accepted the caller's headers and the request was not rejected.
\<close>

definition first_exchange ::
  "env \<Rightarrow> string \<Rightarrow> RequestInit option \<Rightarrow> (request \<times> Response) option" where
  "first_exchange world url init =
     (case new_Headers world init of
        Inl e \<Rightarrow> None
      | Inr headers \<Rightarrow>
          (case fetch world 0 (make_request url init headers) of
             Inl e \<Rightarrow> None
           | Inr response \<Rightarrow> Some (make_request url init headers, response)))"

text \<open>A callback that is absent, or that returns without throwing on the given argument.\<close>

definition returns_normally :: "('a \<Rightarrow> exn option) option \<Rightarrow> 'a \<Rightarrow> bool" where
  "returns_normally callback arg = (case callback of None \<Rightarrow> True | Some f \<Rightarrow> f arg = None)"

text \<open>
  The required amount of an offer is above the configured ceiling: both conversions
  succeed and the comparison of the two big integers holds.
\<close>

definition exceeds_maxAmount :: "DexfraFetchConfig \<Rightarrow> X402PaymentRequirement \<Rightarrow> bool" where
  "exceeds_maxAmount config selectedRequirement =
     (case maxAmount config of
        None \<Rightarrow> False
      | Some amount \<Rightarrow>
          (case (parseUSDCAmount amount,
                 BigInt_of_string (maxAmountRequired selectedRequirement)) of
             (Inr maxAmountWei, Inr requiredAmount) \<Rightarrow> requiredAmount > maxAmountWei
           | _ \<Rightarrow> False))"

text \<open>
  The request of the paid retry: the first request with the header \<open>x-payment\<close> set to the
  header built for the offer.
\<close>

definition paid_request ::
  "env \<Rightarrow> request \<Rightarrow> number \<Rightarrow> X402PaymentRequirement \<Rightarrow> request" where
  "paid_request world rq v sel =
     rq \<lparr> req_headers :=
            Headers_put ''x-payment'' (paymentHeader_of world (make_paymentData v sel (now world)))
              (req_headers rq) \<rparr>"

text \<open>The settlement value read from a response, and whether \<open>onPaymentSuccess\<close> was called.\<close>

definition settlement_of :: "env \<Rightarrow> Response \<Rightarrow> json" where
  "settlement_of world paidResponse =
     parseSettlementResponse world
       (Headers_get ''x-payment-response'' (resp_headers paidResponse))"


section \<open>Reading the header text back\<close>

text \<open>
  The inverse reading of UTF-8, for the code units the strings hold: a byte below 128 is
  itself, the bytes 194 and 195 start a pair.
\<close>

fun utf8_decode :: "byte list \<Rightarrow> string option" where
  "utf8_decode [] = Some []"
| "utf8_decode (b # bs) =
     (if (of_char b :: nat) < 128 then map_option ((#) b) (utf8_decode bs)
      else
        (case bs of
           [] \<Rightarrow> None
         | c # rest \<Rightarrow>
             (if 194 \<le> (of_char b :: nat) \<and> (of_char b :: nat) \<le> 195
                 \<and> 128 \<le> (of_char c :: nat) \<and> (of_char c :: nat) < 192
              then map_option
                     ((#) (char_of (((of_char b :: nat) - 192) * 64 + ((of_char c :: nat) - 128))))
                     (utf8_decode rest)
              else None)))"

text \<open>
  The inverse reading of a JSON string: from its opening quote to the closing one, with the
  escapes undone; the result is the string and the text after it.
\<close>

definition hex_value :: "char \<Rightarrow> nat option" where
  "hex_value c =
     (let n = (of_char c :: nat) in
      if 48 \<le> n \<and> n \<le> 57 then Some (n - 48)
      else if 97 \<le> n \<and> n \<le> 102 then Some (n - 87)
      else None)"

fun JSON_unquote_body :: "string \<Rightarrow> (string \<times> string) option" where
  "JSON_unquote_body [] = None"
| "JSON_unquote_body (c # cs) =
     (if c = CHR 0x22 then Some ([], cs)
      else if c = CHR 0x5C then
        (case cs of
           [] \<Rightarrow> None
         | e # rest \<Rightarrow>
             (if e = CHR ''u'' then
                (case rest of
                   a # b # x # y # rest' \<Rightarrow>
                     (case (hex_value x, hex_value y) of
                        (Some h, Some l) \<Rightarrow>
                          (if a = CHR ''0'' \<and> b = CHR ''0''
                           then map_option (\<lambda>(s, t). (char_of (h * 16 + l) # s, t))
                                  (JSON_unquote_body rest')
                           else None)
                      | _ \<Rightarrow> None)
                 | _ \<Rightarrow> None)
              else
                (case (if e = CHR ''b'' then Some (char_of (8 :: nat))
                       else if e = CHR ''t'' then Some (char_of (9 :: nat))
                       else if e = CHR ''n'' then Some (char_of (10 :: nat))
                       else if e = CHR ''f'' then Some (char_of (12 :: nat))
                       else if e = CHR ''r'' then Some (char_of (13 :: nat))
                       else if e = CHR 0x22 \<or> e = CHR 0x5C then Some e
                       else None) of
                   None \<Rightarrow> None
                 | Some ch \<Rightarrow>
                     map_option (\<lambda>(s, t). (ch # s, t)) (JSON_unquote_body rest))))
      else if (of_char c :: nat) < 32 then None
      else map_option (\<lambda>(s, t). (c # s, t)) (JSON_unquote_body cs))"

definition JSON_unquote :: "string \<Rightarrow> (string \<times> string) option" where
  "JSON_unquote s = (case s of [] \<Rightarrow> None | c # cs \<Rightarrow> if c = CHR 0x22 then JSON_unquote_body cs else None)"

text \<open>
  Equality of two strings without regard to the case of their letters: the same length,
  and at every position the same character or a capital (\<open>A\<close>..\<open>Z\<close>, or an accented
  capital U+00C0..U+00DE other than the multiplication sign) against its small letter, 32
  code points above.
\<close>

definition is_capital :: "char \<Rightarrow> bool" where
  "is_capital c =
     (let n = (of_char c :: nat) in
      (65 \<le> n \<and> n \<le> 90) \<or> (192 \<le> n \<and> n \<le> 222 \<and> n \<noteq> 215))"

definition same_letter :: "char \<Rightarrow> char \<Rightarrow> bool" where
  "same_letter c d =
     (c = d
      \<or> (is_capital c \<and> (of_char d :: nat) = of_char c + 32)
      \<or> (is_capital d \<and> (of_char c :: nat) = of_char d + 32))"

definition equal_ignoring_case :: "string \<Rightarrow> string \<Rightarrow> bool" where
  "equal_ignoring_case s t = list_all2 same_letter s t"

section \<open>Example inputs\<close>

definition ex_offer :: X402PaymentRequirement where
  "ex_offer =
     \<lparr> scheme = Exact, network = ''solana-devnet'', recipient = ''Rcpt1'',
       maxAmountRequired = ''2000000'', token = Some ''USDC'', extra = None \<rparr>"

definition ex_offer_A :: X402PaymentRequirement where
  "ex_offer_A =
     \<lparr> scheme = Exact, network = ''A'', recipient = ''Rcpt1'',
       maxAmountRequired = ''1000'', token = None, extra = None \<rparr>"

definition ex_offer_B :: X402PaymentRequirement where
  "ex_offer_B =
     \<lparr> scheme = Upto, network = ''B'', recipient = ''Rcpt2'',
       maxAmountRequired = ''2000'', token = None, extra = None \<rparr>"

definition ex_challenge :: X402PaymentRequiredResponse where
  "ex_challenge =
     \<lparr> x402Version = Some (Dyadic 1 0), accepts = Some [ex_offer], message = None \<rparr>"

definition ex_empty_challenge :: X402PaymentRequiredResponse where
  "ex_empty_challenge =
     \<lparr> x402Version = Some (Dyadic 1 0), accepts = Some [], message = None \<rparr>"

text \<open>A challenge that offers the \<open>upto\<close> offer after one on another network.\<close>

definition ex_challenge_upto :: X402PaymentRequiredResponse where
  "ex_challenge_upto =
     \<lparr> x402Version = Some (Dyadic 1 0), accepts = Some [ex_offer_A, ex_offer_B],
       message = None \<rparr>"

definition ex_402 :: Response where
  "ex_402 =
     \<lparr> status = 402, resp_headers = [], resp_json = Inr (Some ex_challenge), resp_text = [] \<rparr>"

definition ex_402_empty :: Response where
  "ex_402_empty = ex_402 \<lparr> resp_json := Inr (Some ex_empty_challenge) \<rparr>"

definition ex_402_upto :: Response where
  "ex_402_upto = ex_402 \<lparr> resp_json := Inr (Some ex_challenge_upto) \<rparr>"

text \<open>A 402 response without a body, and one whose body is the JSON text \<open>null\<close>.\<close>

definition ex_402_no_body :: Response where
  "ex_402_no_body =
     ex_402 \<lparr> resp_json := Inl (JsError ''SyntaxError'' ''Unexpected end of JSON input'') \<rparr>"

definition ex_402_null :: Response where
  "ex_402_null = ex_402 \<lparr> resp_json := Inr None \<rparr>"

text \<open>
  Successful responses to the paid retry: without a settlement header, and with the header
  \<open>x-payment-response\<close> holding text that is not base64 (\<open>%%%\<close>), the base64 of \<open>{{\<close>, of
  \<open>null\<close>, of \<open>{}\<close> and of \<open>{"transactionId":"tx1"}\<close>.
\<close>

definition ex_200 :: Response where
  "ex_200 =
     \<lparr> status = 200, resp_headers = [(''content-type'', ''text/plain'')],
       resp_json = Inl (JsError ''SyntaxError'' ''Unexpected token d in JSON at position 0''),
       resp_text = ''data'' \<rparr>"

definition ex_200_with :: "string \<Rightarrow> Response" where
  "ex_200_with h = ex_200 \<lparr> resp_headers := [(''x-payment-response'', h)] \<rparr>"

definition ex_200_undecodable :: Response where
  "ex_200_undecodable = ex_200_with ''%%%''"

definition ex_200_bad_json :: Response where
  "ex_200_bad_json = ex_200_with ''e3s=''"

definition ex_200_null :: Response where
  "ex_200_null = ex_200_with ''bnVsbA==''"

definition ex_200_empty_object :: Response where
  "ex_200_empty_object = ex_200_with ''e30=''"

definition ex_200_settled :: Response where
  "ex_200_settled = ex_200_with ''eyJ0cmFuc2FjdGlvbklkIjoidHgxIn0=''"

text \<open>
  The platform of the examples. Its \<open>atob\<close> is the forgiving base64 decoding of the
  platform: ASCII white space is dropped, one or two \<open>=\<close> are removed from the end of a
  text whose length is a multiple of four, a remaining length of one more than a multiple
  of four or a character outside the alphabet throws, and the spare bits of a last group
  are dropped. Its \<open>JSON.parse\<close> is the platform's on the four texts that the examples
  hand to it: it reads \<open>{}\<close>, \<open>null\<close> and \<open>{"transactionId":"tx1"}\<close> and throws
  on \<open>{{\<close>; no other text is given to it. \<open>Number_toString\<close> and
  \<open>invalid_header\<close> are not reached by the examples, whose numbers are integers below
  \<open>2 ^ 53\<close> and whose headers are valid.
\<close>

definition is_ascii_whitespace :: "char \<Rightarrow> bool" where
  "is_ascii_whitespace c = ((of_char c :: nat) \<in> {9, 10, 12, 13, 32})"

definition strip_padding :: "string \<Rightarrow> string" where
  "strip_padding d =
     (if length d mod 4 = 0 \<and> 2 \<le> length d \<and> drop (length d - 2) d = ''==''
        then take (length d - 2) d
      else if length d mod 4 = 0 \<and> 1 \<le> length d \<and> drop (length d - 1) d = ''=''
        then take (length d - 1) d
      else d)"

fun bytes_of_sextets :: "nat list \<Rightarrow> byte list" where
  "bytes_of_sextets (i # j # k # l # rest) =
     char_of (i * 4 + j div 16) # char_of (j mod 16 * 16 + k div 4)
     # char_of (k mod 4 * 64 + l) # bytes_of_sextets rest"
| "bytes_of_sextets [i, j, k] = [char_of (i * 4 + j div 16), char_of (j mod 16 * 16 + k div 4)]"
| "bytes_of_sextets [i, j] = [char_of (i * 4 + j div 16)]"
| "bytes_of_sextets _ = []"

definition ex_atob :: "string \<Rightarrow> exn + string" where
  "ex_atob s =
     (let d = strip_padding (filter (\<lambda>c. \<not> is_ascii_whitespace c) s) in
      case (if length d mod 4 = 1 then None else those (map base64_index d)) of
        Some sextets \<Rightarrow> Inr (bytes_of_sextets sextets)
      | None \<Rightarrow>
          Inl (JsError ''InvalidCharacterError''
                 ''The string to be decoded is not correctly encoded.''))"

definition ex_JSON_parse :: "string \<Rightarrow> exn + json" where
  "ex_JSON_parse s =
     (if s = ''{}'' then Inr (JObject [])
      else if s = ''null'' then Inr JNull
      else if s = ''{\"transactionId\":\"tx1\"}''
        then Inr (JObject [(''transactionId'', JString ''tx1'')])
      else Inl (JsError ''SyntaxError'' ''Unexpected token { in JSON at position 1''))"

text \<open>
  Worlds: \<open>ex_server first paid\<close> answers the first request with \<open>first\<close> and every
  later one with \<open>paid\<close>. The server asks for payment and then serves the paid retry; it
  rejects the payment with a second 402; it sends a challenge without offers; it offers an
  \<open>upto\<close> payment.
\<close>

definition ex_server :: "Response \<Rightarrow> Response \<Rightarrow> env" where
  "ex_server first paid =
     \<lparr> fetch = (\<lambda>n rq. if n = 0 then Inr first else Inr paid),
       now = Dyadic 1700000000000 0,
       atob = ex_atob,
       JSON_parse = ex_JSON_parse,
       Number_toString = (\<lambda>x. ''1e+21''),
       invalid_header = (\<lambda>name value. JsError ''TypeError'' ''Invalid header'') \<rparr>"

definition ex_world :: env where
  "ex_world = ex_server ex_402 ex_200"

definition ex_world_rejecting :: env where
  "ex_world_rejecting = ex_server ex_402 ex_402"

definition ex_world_empty :: env where
  "ex_world_empty = ex_server ex_402_empty ex_200"

definition ex_world_upto :: env where
  "ex_world_upto = ex_server ex_402_upto ex_200"

text \<open>A wallet whose signing operations always reject.\<close>

definition ex_wallet :: DexfraWallet where
  "ex_wallet =
     \<lparr> publicKey = ''PK'',
       signTransaction = (\<lambda>t. Inl (JsError ''Error'' ''signing refused'')),
       signAllTransactions = (\<lambda>ts. Inl (JsError ''Error'' ''signing refused'')),
       sendTransaction = None \<rparr>"

text \<open>
  Configurations: no ceiling; the ceiling 1.0 (the double \<open>1 * 2 ^ 0\<close>) with callbacks
  that return; the same with an \<open>onPaymentError\<close> that throws an error of its own, and
  with one that throws the error it was given, and without \<open>onPaymentError\<close>; no
  ceiling with an \<open>onPaymentRequired\<close> that throws an \<open>Error\<close>, that throws a
  \<open>DexfraError\<close>, and that throws while \<open>onPaymentError\<close> is absent.
\<close>

definition ex_config :: DexfraFetchConfig where
  "ex_config =
     \<lparr> wallet = ex_wallet, connection = ''rpc'', cfg_network = ''Solana-Devnet'',
       facilitatorUrl = ''https://facilitator.payai.network'', maxAmount = None,
       onPaymentRequired = Some (\<lambda>amount. None), onPaymentSuccess = Some (\<lambda>txId. None),
       onPaymentError = Some (\<lambda>error. None) \<rparr>"

definition ex_config_ceiling :: DexfraFetchConfig where
  "ex_config_ceiling = ex_config \<lparr> maxAmount := Some (Dyadic 1 0) \<rparr>"

definition ex_config_ceiling_throwing :: DexfraFetchConfig where
  "ex_config_ceiling_throwing =
     ex_config_ceiling \<lparr> onPaymentError := Some (\<lambda>error. Some (JsError ''Error'' ''handler failed'')) \<rparr>"

definition ex_config_ceiling_rethrowing :: DexfraFetchConfig where
  "ex_config_ceiling_rethrowing =
     ex_config_ceiling \<lparr> onPaymentError := Some (\<lambda>error. Some error) \<rparr>"

definition ex_config_required_throwing :: DexfraFetchConfig where
  "ex_config_required_throwing =
     ex_config \<lparr> onPaymentRequired := Some (\<lambda>amount. Some (JsError ''Error'' ''handler failed'')) \<rparr>"

definition ex_config_ceiling_silent :: DexfraFetchConfig where
  "ex_config_ceiling_silent = ex_config_ceiling \<lparr> onPaymentError := None \<rparr>"

definition ex_config_required_rejecting :: DexfraFetchConfig where
  "ex_config_required_rejecting =
     ex_config \<lparr> onPaymentRequired :=
       Some (\<lambda>amount. Some (DexfraError ''declined'' ''USER_DECLINED'' NoDetails)) \<rparr>"

definition ex_config_required_silent :: DexfraFetchConfig where
  "ex_config_required_silent = ex_config_required_throwing \<lparr> onPaymentError := None \<rparr>"

text \<open>The configuration that prefers the network \<open>b\<close>, written in lower case.\<close>

definition ex_config_b :: DexfraFetchConfig where
  "ex_config_b = ex_config \<lparr> cfg_network := ''b'' \<rparr>"

text \<open>The requests of the examples.\<close>

definition ex_url :: string where
  "ex_url = ''https://api.dexfra.fun/v1/price''"

definition ex_request :: request where
  "ex_request = \<lparr> req_url = ex_url, req_method = None, req_body = None, req_headers = [] \<rparr>"

definition ex_payment_header :: string where
  "ex_payment_header =
     ''eyJ2ZXJzaW9uIjoxLCJuZXR3b3JrIjoic29sYW5hLWRldm5ldCIsInJlY2lwaWVudCI6IlJjcHQxIiwiYW1vdW50IjoiMjAwMDAwMCIsInRva2VuIjoiVVNEQyIsInNjaGVtZSI6ImV4YWN0IiwidGltZXN0YW1wIjoxNzAwMDAwMDAwMDAwfQ==''"

definition ex_paid_request :: request where
  "ex_paid_request = ex_request \<lparr> req_headers := [(''x-payment'', ex_payment_header)] \<rparr>"

definition ex_payment_header_upto :: string where
  "ex_payment_header_upto =
     ''eyJ2ZXJzaW9uIjoxLCJuZXR3b3JrIjoiQiIsInJlY2lwaWVudCI6IlJjcHQyIiwiYW1vdW50IjoiMjAwMCIsInNjaGVtZSI6InVwdG8iLCJ0aW1lc3RhbXAiOjE3MDAwMDAwMDAwMDB9''"

text \<open>A caller that sends an \<open>X-Payment\<close> header of its own, among others.\<close>

definition ex_init :: RequestInit where
  "ex_init =
     \<lparr> init_method = Some ''POST'', init_body = Some ''q'',
       init_headers = [(''Accept'', '' text/plain ''), (''X-Payment'', ''mine''),
                       (''x-payment'', ''again'')] \<rparr>"

definition ex_request_init :: request where
  "ex_request_init =
     \<lparr> req_url = ex_url, req_method = Some ''POST'', req_body = Some ''q'',
       req_headers = [(''accept'', ''text/plain''), (''x-payment'', ''mine''),
                      (''x-payment'', ''again'')] \<rparr>"

text \<open>
  The ceiling 8.2: the double nearest to 8.2 is \<open>2308094809027379 * 2 ^ - 48\<close>
  (hexadecimal \<open>0x1.0666666666666p+3\<close>). The offer asks for exactly 8.2 USDC in base units.
\<close>

definition ex_offer_82 :: X402PaymentRequirement where
  "ex_offer_82 = ex_offer \<lparr> maxAmountRequired := ''8200000'' \<rparr>"

definition ex_402_82 :: Response where
  "ex_402_82 =
     ex_402 \<lparr> resp_json :=
       Inr (Some \<lparr> x402Version = Some (Dyadic 1 0), accepts = Some [ex_offer_82],
                  message = None \<rparr>) \<rparr>"

definition ex_world_82 :: env where
  "ex_world_82 = ex_server ex_402_82 ex_200"

definition ex_config_82 :: DexfraFetchConfig where
  "ex_config_82 = ex_config \<lparr> maxAmount := Some (Dyadic 2308094809027379 (- 48)) \<rparr>"

section \<open>Encoding lemmas\<close>

lemma of_char_less_256: "(of_char c :: nat) < 256"
proof -
  have "(of_char c :: nat) mod 256 = of_char c" by (rule of_char_mod_256)
  moreover have "(of_char c :: nat) mod 256 < 256" by simp
  ultimately show ?thesis by simp
qed

lemma of_char_char_of_small: "n < 256 \<Longrightarrow> (of_char (char_of n) :: nat) = n"
  by simp

lemma base64_index_char: "i < 64 \<Longrightarrow> base64_index (base64_char i) = Some i"
  by (auto simp: base64_index_def base64_char_def of_char_char_of_small Let_def)

lemma base64_index_pad: "base64_index (CHR ''='') = None"
  by (simp add: base64_index_def)

lemma base64_char_not_pad: "i < 64 \<Longrightarrow> base64_char i \<noteq> CHR ''=''"
  using base64_index_char [of i] base64_index_pad by auto

lemma sextets:
  fixes x y z :: nat
  assumes "x < 256" "y < 256" "z < 256"
  shows "x div 4 < 64" "x mod 4 * 16 + y div 16 < 64" "y mod 16 * 4 + z div 64 < 64"
    "z mod 64 < 64" "x mod 4 * 16 < 64" "y mod 16 * 4 < 64"
proof -
  have a: "x mod 4 < 4" "y mod 16 < 16" by simp_all
  have b: "y div 16 < 16" "z div 64 < 4" "x div 4 < 64" using assms by simp_all
  show "x div 4 < 64" by (rule b)
  show "x mod 4 * 16 + y div 16 < 64" using a(1) b(1) by linarith
  show "y mod 16 * 4 + z div 64 < 64" using a(2) b(2) by linarith
  show "z mod 64 < 64" by simp
  show "x mod 4 * 16 < 64" using a(1) by linarith
  show "y mod 16 * 4 < 64" using a(2) by linarith
qed

lemma regroup_first:
  fixes x y :: nat
  assumes "y < 256"
  shows "x div 4 * 4 + (x mod 4 * 16 + y div 16) div 16 = x"
proof -
  have "y div 16 < 16" using assms by simp
  then have "(x mod 4 * 16 + y div 16) div 16 = x mod 4" by simp
  then show ?thesis by simp
qed

lemma regroup_second:
  fixes x y z :: nat
  assumes "y < 256" "z < 256"
  shows "(x mod 4 * 16 + y div 16) mod 16 * 16 + (y mod 16 * 4 + z div 64) div 4 = y"
proof -
  have "y div 16 < 16" using assms by simp
  then have 1: "(x mod 4 * 16 + y div 16) mod 16 = y div 16" by simp
  have "z div 64 < 4" using assms by simp
  then have 2: "(y mod 16 * 4 + z div 64) div 4 = y mod 16" by simp
  show ?thesis unfolding 1 2 by simp
qed

lemma regroup_third:
  fixes y z :: nat
  assumes "z < 256"
  shows "(y mod 16 * 4 + z div 64) mod 4 * 64 + z mod 64 = z"
proof -
  have "z div 64 < 4" using assms by simp
  then have "(y mod 16 * 4 + z div 64) mod 4 = z div 64" by simp
  then show ?thesis by simp
qed

lemma regroup_padded:
  fixes x y :: nat
  assumes "y < 256"
  shows "x div 4 * 4 + x mod 4 * 16 div 16 = x"
    and "x mod 4 * 16 mod 16 = 0"
    and "(x mod 4 * 16 + y div 16) mod 16 * 16 + y mod 16 * 4 div 4 = y"
    and "y mod 16 * 4 mod 4 = 0"
proof -
  show "x div 4 * 4 + x mod 4 * 16 div 16 = x" by simp
  show "x mod 4 * 16 mod 16 = 0" by simp
  have "y div 16 < 16" using assms by simp
  then have "(x mod 4 * 16 + y div 16) mod 16 = y div 16" by simp
  then show "(x mod 4 * 16 + y div 16) mod 16 * 16 + y mod 16 * 4 div 4 = y" by simp
  show "y mod 16 * 4 mod 4 = 0" by simp
qed

lemma from_base64_one: "from_base64 (toString_base64 [a]) = Some [a]"
proof -
  have x: "(of_char a :: nat) < 256" by (rule of_char_less_256)
  show ?thesis
    using sextets(1,5) [OF x x x] regroup_padded(1,2) [OF x, of "of_char a"]
    by (simp add: Let_def base64_index_char)
qed

lemma from_base64_two: "from_base64 (toString_base64 [a, b]) = Some [a, b]"
proof -
  have x: "(of_char a :: nat) < 256" and y: "(of_char b :: nat) < 256"
    by (rule of_char_less_256)+
  show ?thesis
    using sextets(1,2,6) [OF x y y] regroup_first [OF y, of "of_char a"]
      regroup_padded(3) [OF y, of "of_char a"] regroup_padded(4) [OF y]
    by (simp add: Let_def base64_index_char base64_char_not_pad)
qed

lemma from_base64_three:
  assumes "from_base64 (toString_base64 rest) = Some rest"
  shows "from_base64 (toString_base64 (a # b # c # rest)) = Some (a # b # c # rest)"
proof -
  have x: "(of_char a :: nat) < 256" and y: "(of_char b :: nat) < 256"
    and z: "(of_char c :: nat) < 256"
    by (rule of_char_less_256)+
  show ?thesis
    using sextets(1-4) [OF x y z] regroup_first [OF y, of "of_char a"]
      regroup_second [OF y z, of "of_char a"] regroup_third [OF z, of "of_char b"] assms
    by (simp add: Let_def base64_index_char base64_char_not_pad)
qed

lemma from_base64_toString: "from_base64 (toString_base64 bs) = Some bs"
proof (induction bs rule: toString_base64.induct)
  case 1
  show ?case by simp
next
  case (2 a)
  show ?case by (rule from_base64_one)
next
  case (3 a b)
  show ?case by (rule from_base64_two)
next
  case (4 a b c rest)
  from 4 [OF refl refl refl] show ?case by (rule from_base64_three)
qed

text \<open>The header built for an offer is accepted by \<open>headers.set\<close> as it is.\<close>

lemma base64_char_range: "43 \<le> (of_char (base64_char i) :: nat)"
  by (auto simp: base64_char_def)

lemma toString_base64_range: "c \<in> set (toString_base64 bs) \<Longrightarrow> 43 \<le> (of_char c :: nat)"
proof (induction bs arbitrary: c rule: toString_base64.induct)
  case 1
  then show ?case by simp
next
  case (2 a)
  then show ?case by (auto simp: Let_def base64_char_range)
next
  case (3 a b)
  then show ?case by (auto simp: Let_def base64_char_range)
next
  case (4 a b c' rest)
  from 4(2) 4(1) [OF refl refl refl] show ?case
    by (auto simp: Let_def base64_char_range)
qed

lemma dropWhile_none: "(\<And>x. x \<in> set xs \<Longrightarrow> \<not> P x) \<Longrightarrow> dropWhile P xs = xs"
  by (cases xs) auto

lemma normalize_value_plain:
  assumes "\<And>c. c \<in> set v \<Longrightarrow> \<not> is_http_whitespace c"
  shows "normalize_value v = v"
proof -
  have "dropWhile is_http_whitespace v = v"
    using assms by (rule dropWhile_none)
  moreover have "dropWhile is_http_whitespace (rev v) = rev v"
    using assms by (intro dropWhile_none) simp
  ultimately show ?thesis
    by (simp add: normalize_value_def)
qed

lemma normalize_value_base64: "normalize_value (toString_base64 bs) = toString_base64 bs"
proof (rule normalize_value_plain)
  fix c assume "c \<in> set (toString_base64 bs)"
  then have "43 \<le> (of_char c :: nat)" by (rule toString_base64_range)
  then show "\<not> is_http_whitespace c" by (auto simp: is_http_whitespace_def)
qed

lemma is_header_value_base64: "is_header_value (toString_base64 bs)"
  unfolding is_header_value_def list_all_iff
proof
  fix c assume "c \<in> set (toString_base64 bs)"
  then have "43 \<le> (of_char c :: nat)" by (rule toString_base64_range)
  then show "(of_char c :: nat) \<noteq> 0 \<and> (of_char c :: nat) \<noteq> 10 \<and> (of_char c :: nat) \<noteq> 13"
    by auto
qed

lemma is_header_name_x_payment: "is_header_name ''x-payment''"
  by (simp add: is_header_name_def is_token_char_def)

lemma Headers_set_x_payment:
  "Headers_set world ''x-payment'' (toString_base64 bs) hs =
     Inr (Headers_put ''x-payment'' (toString_base64 bs) hs)"
  by (simp add: Headers_set_def is_header_name_x_payment normalize_value_base64
      is_header_value_base64)

lemma byte_lowercase_idem: "byte_lowercase (byte_lowercase s) = byte_lowercase s"
  by (induction s) (auto simp: byte_lowercase_def byte_lowercase_char_def Let_def)

lemma filter_set_first:
  "filter (\<lambda>(k, w). byte_lowercase k = n) (set_first n v hs) = [(n, v)]"
  if "byte_lowercase n = n"
  using that
proof (induction hs)
  case Nil
  then show ?case by simp
next
  case (Cons h hs)
  obtain k w where h: "h = (k, w)" by (cases h)
  have "filter (\<lambda>(k, w). byte_lowercase k = n)
          (filter (\<lambda>(k', w'). byte_lowercase k' \<noteq> n) hs) = []"
    by (auto simp: filter_empty_conv)
  with Cons h show ?case by simp
qed

lemma Headers_get_put:
  "Headers_get name (Headers_put name v hs) = Some (normalize_value v)"
  by (simp add: Headers_get_def Headers_put_def filter_set_first byte_lowercase_idem)

lemma utf8_decode_Buffer_from: "utf8_decode (Buffer_from s) = Some s"
proof (induction s)
  case Nil
  show ?case by (simp add: Buffer_from_def)
next
  case (Cons c s)
  have lt: "(of_char c :: nat) < 256" by (rule of_char_less_256)
  show ?case
  proof (cases "(of_char c :: nat) < 128")
    case True
    with Cons show ?thesis by (simp add: Buffer_from_def utf8_char_def)
  next
    case False
    let ?n = "of_char c :: nat"
    have d: "?n div 64 < 4" by (rule less_mult_imp_div_less) (use lt in simp)
    have "192 + ?n div 64 < 256" using d by linarith
    then have hi: "(of_char (char_of (192 + ?n div 64)) :: nat) = 192 + ?n div 64"
      by (rule of_char_char_of_small)
    have "?n mod 64 < 64" by simp
    then have "128 + ?n mod 64 < 256" by linarith
    then have lo: "(of_char (char_of (128 + ?n mod 64)) :: nat) = 128 + ?n mod 64"
      by (rule of_char_char_of_small)
    have d2: "2 \<le> ?n div 64" using False by simp
    have again: "char_of (?n div 64 * 64 + ?n mod 64) = c"
      by simp
    show ?thesis
      using Cons False d d2 again
      by (simp add: Buffer_from_def utf8_char_def hi lo Let_def del: div_mult_mod_eq)
  qed
qed

text \<open>Reading a quoted JSON string gives the string back.\<close>

lemma hex_value_hex_char_all: "\<forall>d \<in> {0 ..< 16}. hex_value (hex_char d) = Some d"
  by code_simp

lemma hex_value_hex_char: "d < 16 \<Longrightarrow> hex_value (hex_char d) = Some d"
  using hex_value_hex_char_all by simp

lemma char_is: "(c = char_of (n :: nat)) \<longleftrightarrow> (of_char c :: nat) = n" if "n < 256"
proof
  assume "c = char_of n"
  with that show "(of_char c :: nat) = n" by simp
next
  assume "(of_char c :: nat) = n"
  then have "char_of (of_char c :: nat) = char_of n" by simp
  then show "c = char_of n" by simp
qed

lemma special_chars:
  "char_of (34 :: nat) = CHR 0x22"
  "char_of (92 :: nat) = CHR 0x5C"
  by code_simp+

lemma quote_is: "(c = CHR 0x22) \<longleftrightarrow> (of_char c :: nat) = 34"
  using char_is [of 34 c] by (simp add: special_chars)

lemma backslash_is: "(c = CHR 0x5C) \<longleftrightarrow> (of_char c :: nat) = 92"
  using char_is [of 92 c] by (simp add: special_chars)

lemma JSON_unquote_body_escape:
  "JSON_unquote_body (json_escape_char c @ rest) =
     map_option (\<lambda>(s, t). (c # s, t)) (JSON_unquote_body rest)"
proof -
  let ?n = "of_char c :: nat"
  have c: "char_of ?n = c" by simp
  consider (b) "?n = 8" | (t) "?n = 9" | (n) "?n = 10" | (f) "?n = 12" | (r) "?n = 13"
    | (q) "?n = 34" | (s) "?n = 92"
    | (u) "?n < 32" "?n \<notin> {8, 9, 10, 12, 13}"
    | (p) "32 \<le> ?n" "?n \<noteq> 34" "?n \<noteq> 92"
    by fastforce
  then show ?thesis
  proof cases
    case b
    with c have "c = char_of (8 :: nat)" by metis
    then show ?thesis by (simp add: json_escape_char_def)
  next
    case t
    with c have "c = char_of (9 :: nat)" by metis
    then show ?thesis by (simp add: json_escape_char_def)
  next
    case n
    with c have "c = char_of (10 :: nat)" by metis
    then show ?thesis by (simp add: json_escape_char_def)
  next
    case f
    with c have "c = char_of (12 :: nat)" by metis
    then show ?thesis by (simp add: json_escape_char_def)
  next
    case r
    with c have "c = char_of (13 :: nat)" by metis
    then show ?thesis by (simp add: json_escape_char_def)
  next
    case q
    then have "c = CHR 0x22" by (simp add: quote_is)
    then show ?thesis by (simp add: json_escape_char_def)
  next
    case s
    then have "c = CHR 0x5C" by (simp add: backslash_is)
    then show ?thesis by (simp add: json_escape_char_def)
  next
    case u
    have hi: "?n div 16 < 16" using u(1) by simp
    have lo: "?n mod 16 < 16" by simp
    have e: "json_escape_char c =
        [CHR 0x5C, CHR ''u'', CHR ''0'', CHR ''0'', hex_char (?n div 16), hex_char (?n mod 16)]"
      using u by (simp add: json_escape_char_def Let_def)
    have "char_of (?n div 16 * 16 + ?n mod 16) = c"
      by simp
    then show ?thesis
      unfolding e
      by (simp add: hex_value_hex_char [OF hi] hex_value_hex_char [OF lo] del: div_mult_mod_eq)
  next
    case p
    then have e: "json_escape_char c = [c]"
      by (simp add: json_escape_char_def)
    from p have "c \<noteq> CHR 0x22" "c \<noteq> CHR 0x5C"
      by (simp_all add: quote_is backslash_is)
    with p(1) show ?thesis
      unfolding e by simp
  qed
qed

lemma JSON_unquote_body_escaped:
  "JSON_unquote_body (concat (map json_escape_char s) @ CHR 0x22 # rest) = Some (s, rest)"
  by (induction s) (simp_all add: JSON_unquote_body_escape)

lemma JSON_unquote_stringify:
  "JSON_unquote (JSON_stringify_string s @ rest) = Some (s, rest)"
  by (simp add: JSON_unquote_def JSON_stringify_string_def JSON_unquote_body_escaped)

section \<open>Comparison without regard to case\<close>

lemma toLowerCase_char_capital:
  "is_capital c \<Longrightarrow> toLowerCase_char c = char_of ((of_char c :: nat) + 32)"
  "\<not> is_capital c \<Longrightarrow> toLowerCase_char c = c"
  by (auto simp: is_capital_def toLowerCase_char_def Let_def)

lemma capital_bound: "is_capital c \<Longrightarrow> (of_char c :: nat) + 32 < 256"
  by (auto simp: is_capital_def Let_def)

lemma capital_small: "is_capital c \<Longrightarrow> (of_char d :: nat) = of_char c + 32 \<Longrightarrow> \<not> is_capital d"
  by (auto simp: is_capital_def Let_def)

lemma same_letter_iff: "same_letter c d \<longleftrightarrow> toLowerCase_char c = toLowerCase_char d"
proof (cases "is_capital c"; cases "is_capital d")
  assume c: "is_capital c" and d: "is_capital d"
  have "(char_of ((of_char c :: nat) + 32) :: char) = char_of ((of_char d :: nat) + 32)
      \<longleftrightarrow> (of_char c :: nat) = of_char d"
    using char_is [OF capital_bound [OF d], of "char_of ((of_char c :: nat) + 32)"]
      capital_bound [OF c] by simp
  then have "toLowerCase_char c = toLowerCase_char d \<longleftrightarrow> c = d"
    using c d by (simp add: toLowerCase_char_capital)
  moreover have "same_letter c d \<longleftrightarrow> c = d"
    using capital_small [OF c, of d] capital_small [OF d, of c] c d
    by (auto simp: same_letter_def)
  ultimately show ?thesis by simp
next
  assume c: "is_capital c" and d: "\<not> is_capital d"
  have "toLowerCase_char c = toLowerCase_char d \<longleftrightarrow> (of_char d :: nat) = of_char c + 32"
    using c d char_is [OF capital_bound [OF c], of d]
    by (auto simp: toLowerCase_char_capital)
  moreover have "same_letter c d \<longleftrightarrow> (of_char d :: nat) = of_char c + 32"
    using c d by (auto simp: same_letter_def)
  ultimately show ?thesis by simp
next
  assume c: "\<not> is_capital c" and d: "is_capital d"
  have "toLowerCase_char c = toLowerCase_char d \<longleftrightarrow> (of_char c :: nat) = of_char d + 32"
    using c d char_is [OF capital_bound [OF d], of c]
    by (auto simp: toLowerCase_char_capital)
  moreover have "same_letter c d \<longleftrightarrow> (of_char c :: nat) = of_char d + 32"
    using c d by (auto simp: same_letter_def)
  ultimately show ?thesis by simp
next
  assume c: "\<not> is_capital c" and d: "\<not> is_capital d"
  then show ?thesis
    by (auto simp: same_letter_def toLowerCase_char_capital)
qed

lemma equal_ignoring_case_iff:
  "equal_ignoring_case s t \<longleftrightarrow> toLowerCase s = toLowerCase t"
proof (induction s arbitrary: t)
  case Nil
  show ?case by (cases t) (simp_all add: equal_ignoring_case_def toLowerCase_def)
next
  case (Cons c s)
  show ?case
  proof (cases t)
    case Nil
    then show ?thesis by (simp add: equal_ignoring_case_def toLowerCase_def)
  next
    case (Cons d t')
    with Cons.IH [of t'] show ?thesis
      by (simp add: equal_ignoring_case_def toLowerCase_def same_letter_iff)
  qed
qed

section \<open>Sequencing and event lemmas\<close>

lemma fst_and_then: "fst (and_then m f) = (case fst m of Inl e \<Rightarrow> Inl e | Inr a \<Rightarrow> fst (f a))"
  by (cases m) (auto simp: and_then_def split: sum.splits prod.splits)

lemma snd_and_then:
  "snd (and_then m f) = snd m @ (case fst m of Inl e \<Rightarrow> [] | Inr a \<Rightarrow> snd (f a))"
  by (cases m) (auto simp: and_then_def split: sum.splits prod.splits)

lemma and_then_Inr [simp]: "and_then (Inr a, []) f = f a"
  by (simp add: and_then_def)

lemma and_then_Inr_events:
  "and_then (Inr a, evs) f = (fst (f a), evs @ snd (f a))"
  by (simp add: and_then_def split: prod.splits)

lemma and_then_Inl [simp]: "and_then (Inl e, evs) f = (Inl e, evs)"
  by (simp add: and_then_def)

lemma fetches_simps [simp]:
  "fetches [] = []"
  "fetches (ev # evs) = (if is_Fetch ev then ev # fetches evs else fetches evs)"
  "fetches (xs @ ys) = fetches xs @ fetches ys"
  by (simp_all add: fetches_def)

lemma header_built_simps [simp]:
  "header_built [] = False"
  "header_built (ev # evs) = (is_CreatePaymentHeader ev \<or> header_built evs)"
  "header_built (xs @ ys) = (header_built xs \<or> header_built ys)"
  by (auto simp: header_built_def list_ex_iff)

lemma snd_call_optional:
  "snd (call_optional cb a ev) = [] \<or> snd (call_optional cb a ev) = [ev]"
  by (simp add: call_optional_def split: option.splits)

lemma fetches_call_optional [simp]:
  "\<not> is_Fetch ev \<Longrightarrow> fetches (snd (call_optional cb a ev)) = []"
  using snd_call_optional [of cb a ev] by auto

lemma header_built_call_optional [simp]:
  "\<not> is_CreatePaymentHeader ev \<Longrightarrow> \<not> header_built (snd (call_optional cb a ev))"
  using snd_call_optional [of cb a ev] by auto

lemma fetches_check [simp]: "fetches (snd (check_maxAmount config sel)) = []"
  by (simp add: check_maxAmount_def snd_and_then Let_def split: option.splits sum.splits)

lemma header_built_check [simp]: "\<not> header_built (snd (check_maxAmount config sel))"
  by (simp add: check_maxAmount_def snd_and_then Let_def split: option.splits sum.splits)

lemma fetches_settle [simp]: "fetches (snd (settle world config reqs sel r)) = []"
  by (simp add: settle_def snd_and_then Let_def split: option.splits sum.splits)

lemma header_built_settle [simp]: "\<not> header_built (snd (settle world config reqs sel r))"
  by (simp add: settle_def snd_and_then Let_def split: option.splits sum.splits)

lemma createPaymentHeader_eq:
  "createPaymentHeader world w c v r =
     (Inr (paymentHeader_of world (make_paymentData v r (now world))), [CreatePaymentHeader v r])"
  by (simp add: createPaymentHeader_def createPaymentHeader_try_def)

lemma Headers_set_paymentHeader:
  "Headers_set world ''x-payment'' (paymentHeader_of world' d) hs =
     Inr (Headers_put ''x-payment'' (paymentHeader_of world' d) hs)"
  by (simp add: paymentHeader_of_def Headers_set_x_payment)

lemma paid_request_make:
  "paid_request world (make_request url init hs) v sel =
     make_request url init
       (Headers_put ''x-payment'' (paymentHeader_of world (make_paymentData v sel (now world))) hs)"
  by (simp add: paid_request_def make_request_def)

lemma snd_read_challenge [simp]: "snd (read_challenge config r) = []"
  by (simp add: read_challenge_def snd_and_then Let_def split: sum.splits option.splits)

lemma fetches_catch [simp]: "fetches (snd (payment_catch config m)) = fetches (snd m)"
  by (cases m) (simp add: payment_catch_def snd_and_then Let_def split: sum.splits)

lemma header_built_catch [simp]:
  "header_built (snd (payment_catch config m)) = header_built (snd m)"
  by (cases m) (simp add: payment_catch_def snd_and_then Let_def split: sum.splits)

text \<open>The first exchange, and the run after it.\<close>

lemma first_exchangeD:
  assumes "first_exchange world url init = Some (rq, response)"
  obtains hs where "new_Headers world init = Inr hs" "rq = make_request url init hs"
    "fetch world 0 (make_request url init hs) = Inr response"
  using assms by (auto simp: first_exchange_def split: sum.splits)

lemma first_exchangeI:
  "new_Headers world init = Inr hs \<Longrightarrow> fetch world 0 (make_request url init hs) = Inr response
     \<Longrightarrow> first_exchange world url init = Some (make_request url init hs, response)"
  by (simp add: first_exchange_def)

lemma dexfraFetch_402:
  assumes "new_Headers world init = Inr hs"
    and "fetch world 0 (make_request url init hs) = Inr response"
    and "status response = 402"
  shows "dexfraFetch world url config init =
     (fst (payment_catch config (payment_flow world url config init hs response)),
      Fetch (make_request url init hs) (Inr response)
      # snd (payment_catch config (payment_flow world url config init hs response)))"
  using assms
  by (simp add: dexfraFetch_def do_fetch_def prod_eq_iff fst_and_then snd_and_then)

lemma dexfraFetch_not_402:
  assumes "new_Headers world init = Inr hs"
    and "fetch world 0 (make_request url init hs) = Inr response"
    and "status response \<noteq> 402"
  shows "dexfraFetch world url config init =
     (Inr response, [Fetch (make_request url init hs) (Inr response)])"
  using assms
  by (simp add: dexfraFetch_def do_fetch_def prod_eq_iff fst_and_then snd_and_then)

lemma dexfraFetch_rejected:
  assumes "new_Headers world init = Inr hs"
    and "fetch world 0 (make_request url init hs) = Inl e"
  shows "dexfraFetch world url config init =
     (Inl e, [Fetch (make_request url init hs) (Inl e)])"
  using assms
  by (simp add: dexfraFetch_def do_fetch_def prod_eq_iff fst_and_then snd_and_then)

lemma dexfraFetch_bad_headers:
  assumes "new_Headers world init = Inl e"
  shows "dexfraFetch world url config init = (Inl e, [])"
  using assms by (simp add: dexfraFetch_def)

lemma payment_flow_selected:
  "read_challenge config response = (Inr (v, reqs, sel), []) \<Longrightarrow>
   payment_flow world url config init hs response = pay world url config init hs v reqs sel"
  by (simp add: payment_flow_def)

lemma payment_flow_invalid:
  "fst (read_challenge config response) = Inl e \<Longrightarrow>
   payment_flow world url config init hs response = (Inl e, [])"
  using snd_read_challenge [of config response]
  by (cases "read_challenge config response") (simp add: payment_flow_def)



lemma check_maxAmount_passes:
  "fst (check_maxAmount config sel) = Inr () \<Longrightarrow>
     check_maxAmount config sel = (Inr (), []) \<and> \<not> exceeds_maxAmount config sel"
  by (auto simp: check_maxAmount_def exceeds_maxAmount_def fst_and_then snd_and_then Let_def prod_eq_iff
      split: option.splits sum.splits)

lemma snd_pay:
  "snd (pay world url config init hs v reqs sel) =
     snd (check_maxAmount config sel) @
     (if fst (check_maxAmount config sel) = Inr () then
        snd (call_optional (onPaymentRequired config) (maxAmountRequired sel)
               (OnPaymentRequired (maxAmountRequired sel))) @
        (if fst (call_optional (onPaymentRequired config) (maxAmountRequired sel)
                   (OnPaymentRequired (maxAmountRequired sel))) = Inr ()
         then [CreatePaymentHeader v sel,
               Fetch (paid_request world (make_request url init hs) v sel)
                 (fetch world 1 (paid_request world (make_request url init hs) v sel))] @
              (case fetch world 1 (paid_request world (make_request url init hs) v sel) of
                 Inl e \<Rightarrow> []
               | Inr paidResponse \<Rightarrow> snd (settle world config reqs sel paidResponse))
         else [])
      else [])"
  by (simp add: pay_def snd_and_then fst_and_then createPaymentHeader_eq do_fetch_def
      Headers_set_paymentHeader paid_request_make split: sum.splits)

lemma fst_pay_header_built:
  assumes "header_built (snd (pay world url config init hs v reqs sel))"
  shows "fst (check_maxAmount config sel) = Inr ()"
    and "fst (call_optional (onPaymentRequired config) (maxAmountRequired sel)
                   (OnPaymentRequired (maxAmountRequired sel))) = Inr ()"
    and "fst (pay world url config init hs v reqs sel) =
          (case fetch world 1 (paid_request world (make_request url init hs) v sel) of
             Inl e \<Rightarrow> Inl e
           | Inr paidResponse \<Rightarrow> fst (settle world config reqs sel paidResponse))"
  using assms
  by (auto simp add: pay_def snd_and_then fst_and_then createPaymentHeader_eq do_fetch_def
      Headers_set_paymentHeader paid_request_make split: sum.splits)

lemma fetches_pay':
  "fetches (snd (pay world url config init hs v reqs sel)) =
     (if header_built (snd (pay world url config init hs v reqs sel))
      then [Fetch (paid_request world (make_request url init hs) v sel)
              (fetch world 1 (paid_request world (make_request url init hs) v sel))]
      else [])"
  by (simp add: pay_def snd_and_then fst_and_then createPaymentHeader_eq do_fetch_def
      Headers_set_paymentHeader paid_request_make split: sum.splits)

text \<open>The shape of every run: which network calls were made.\<close>

lemma fetches_dexfraFetch_cases:
  obtains (bad_headers) e where
      "new_Headers world init = Inl e"
      "dexfraFetch world url config init = (Inl e, [])"
  | (rejected) hs e where
      "new_Headers world init = Inr hs"
      "fetch world 0 (make_request url init hs) = Inl e"
      "dexfraFetch world url config init =
         (Inl e, [Fetch (make_request url init hs) (Inl e)])"
  | (plain) hs response where
      "new_Headers world init = Inr hs"
      "fetch world 0 (make_request url init hs) = Inr response"
      "status response \<noteq> 402"
      "dexfraFetch world url config init =
         (Inr response, [Fetch (make_request url init hs) (Inr response)])"
  | (invalid) hs response e where
      "new_Headers world init = Inr hs"
      "fetch world 0 (make_request url init hs) = Inr response"
      "status response = 402"
      "fst (read_challenge config response) = Inl e"
      "dexfraFetch world url config init =
         (fst (payment_catch config (Inl e, [])),
          Fetch (make_request url init hs) (Inr response)
          # snd (payment_catch config (Inl e, [])))"
  | (paying) hs response v reqs sel where
      "new_Headers world init = Inr hs"
      "fetch world 0 (make_request url init hs) = Inr response"
      "status response = 402"
      "read_challenge config response = (Inr (v, reqs, sel), [])"
      "dexfraFetch world url config init =
         (fst (payment_catch config (pay world url config init hs v reqs sel)),
          Fetch (make_request url init hs) (Inr response)
          # snd (payment_catch config (pay world url config init hs v reqs sel)))"
proof (cases "new_Headers world init")
  case (Inl e)
  then show ?thesis using bad_headers dexfraFetch_bad_headers by blast
next
  case hs: (Inr hs)
  show ?thesis
  proof (cases "fetch world 0 (make_request url init hs)")
    case (Inl e)
    then show ?thesis using rejected [OF hs] dexfraFetch_rejected [OF hs] by blast
  next
    case (Inr response)
    show ?thesis
    proof (cases "status response = 402")
      case False
      with Inr show ?thesis using plain [OF hs] dexfraFetch_not_402 [OF hs] by blast
    next
      case True
      show ?thesis
      proof (cases "fst (read_challenge config response)")
        case (Inl e)
        then show ?thesis
          using invalid [OF hs Inr True Inl] dexfraFetch_402 [OF hs Inr True, of config]
            payment_flow_invalid [OF Inl] by simp
      next
        case r: (Inr t)
        obtain v reqs sel where t: "t = (v, reqs, sel)" by (cases t) auto
        have rc: "read_challenge config response = (Inr (v, reqs, sel), [])"
          using r t snd_read_challenge [of config response] by (simp add: prod_eq_iff)
        show ?thesis
          using paying [OF hs Inr True rc] dexfraFetch_402 [OF hs Inr True, of config]
            payment_flow_selected [OF rc] by simp
      qed
    qed
  qed
qed

text \<open>The run of a call whose first response is a 402 with a valid challenge.\<close>

lemma dexfraFetch_paying:
  assumes "first_exchange world url init = Some (rq, response)"
    and "status response = 402"
    and "read_challenge config response = (Inr (v, reqs, sel), [])"
  obtains hs where "rq = make_request url init hs"
    "dexfraFetch world url config init =
       (fst (payment_catch config (pay world url config init hs v reqs sel)),
        Fetch rq (Inr response)
        # snd (payment_catch config (pay world url config init hs v reqs sel)))"
proof -
  from assms(1) obtain hs where hs: "new_Headers world init = Inr hs"
    "rq = make_request url init hs" "fetch world 0 (make_request url init hs) = Inr response"
    by (rule first_exchangeD)
  show ?thesis
    using that [OF hs(2)] dexfraFetch_402 [OF hs(1,3) assms(2), of config]
      payment_flow_selected [OF assms(3)] hs(2) by simp
qed

lemma dexfraFetch_invalid:
  assumes "first_exchange world url init = Some (rq, response)"
    and "status response = 402"
    and "fst (read_challenge config response) = Inl e"
  shows "dexfraFetch world url config init =
       (fst (payment_catch config (Inl e, [])),
        Fetch rq (Inr response) # snd (payment_catch config (Inl e, [])))"
proof -
  from assms(1) obtain hs where hs: "new_Headers world init = Inr hs"
    "rq = make_request url init hs" "fetch world 0 (make_request url init hs) = Inr response"
    by (rule first_exchangeD)
  show ?thesis
    using dexfraFetch_402 [OF hs(1,3) assms(2), of config]
      payment_flow_invalid [OF assms(3)] hs(2) by simp
qed

lemma payment_catch_Dexfra:
  "instanceof_DexfraError e \<Longrightarrow> payment_catch config (Inl e, evs) = (Inl e, evs)"
  by (simp add: payment_catch_def)

lemma payment_catch_Inr: "payment_catch config (Inr r, evs) = (Inr r, evs)"
  by (simp add: payment_catch_def)


lemma payment_catch_fst_Dexfra:
  "fst m = Inl e \<Longrightarrow> instanceof_DexfraError e \<Longrightarrow> payment_catch config m = m"
  by (cases m) (simp add: payment_catch_def)

lemma payment_catch_other:
  "\<not> instanceof_DexfraError e \<Longrightarrow>
     payment_catch config (Inl e, evs) =
       (case onPaymentError config of
          None \<Rightarrow> (Inl (wrap_error e), evs)
        | Some handler \<Rightarrow>
            (Inl (case handler (wrap_error e) of None \<Rightarrow> wrap_error e | Some thrown \<Rightarrow> thrown),
             evs @ [OnPaymentError (wrap_error e)]))"
  by (simp add: payment_catch_def and_then_def call_optional_def Let_def
      split: option.splits)

lemma settle_402:
  "status r = 402 \<Longrightarrow>
   settle world config reqs sel r =
     (Inl (PaymentRequiredError ''Payment was not accepted'' (maxAmountRequired sel) reqs), [])"
  by (simp add: settle_def ok_def)

lemma settle_not_402:
  "status r \<noteq> 402 \<Longrightarrow>
   settle world config reqs sel r =
     (if truthy (settlement_of world r)
      then (case onPaymentSuccess config of
              None \<Rightarrow> (Inr r, [])
            | Some callback \<Rightarrow>
                (case callback (transactionId_of (settlement_of world r)) of
                   None \<Rightarrow> Inr r
                 | Some thrown \<Rightarrow> Inl thrown,
                 [OnPaymentSuccess (transactionId_of (settlement_of world r))]))
      else (Inr r, []))"
  by (simp add: settle_def settlement_of_def and_then_def call_optional_def Let_def
      split: option.splits)

lemma OnPaymentError_not_Success: "is_OnPaymentError x \<Longrightarrow> \<not> is_OnPaymentSuccess x"
  by (cases x) simp_all





lemma call_optional_returns:
  "returns_normally callback arg \<Longrightarrow> fst (call_optional callback arg ev) = Inr ()"
  by (auto simp: returns_normally_def call_optional_def split: option.splits)

lemma call_optional_throws:
  "callback = Some f \<Longrightarrow> f arg = Some e \<Longrightarrow> call_optional callback arg ev = (Inl e, [ev])"
  by (simp add: call_optional_def)

lemma instanceof_new_MaxAmountExceededError [simp]:
  "instanceof_DexfraError (new_MaxAmountExceededError sel mx)"
  by (simp add: new_MaxAmountExceededError_def)

lemma instanceof_wrap_error [simp]: "instanceof_DexfraError (wrap_error e)"
  by (simp add: wrap_error_def)

lemma check_maxAmount_exceeds:
  assumes "maxAmount config = Some amount" "parseUSDCAmount amount = Inr maxAmountWei"
    "BigInt_of_string (maxAmountRequired sel) = Inr requiredAmount"
    "requiredAmount > maxAmountWei"
  shows "check_maxAmount config sel =
     (case onPaymentError config of
        None \<Rightarrow> (Inl (new_MaxAmountExceededError sel maxAmountWei), [])
      | Some handler \<Rightarrow>
          (Inl (case handler (new_MaxAmountExceededError sel maxAmountWei) of
                  None \<Rightarrow> new_MaxAmountExceededError sel maxAmountWei
                | Some thrown \<Rightarrow> thrown),
           [OnPaymentError (new_MaxAmountExceededError sel maxAmountWei)]))"
  using assms
  by (simp add: check_maxAmount_def and_then_def call_optional_def Let_def
      split: option.splits)

lemma pay_check_fails:
  "fst (check_maxAmount config sel) = Inl e \<Longrightarrow>
     pay world url config init hs v reqs sel = (Inl e, snd (check_maxAmount config sel))"
  by (cases "check_maxAmount config sel") (simp add: pay_def and_then_def)

lemma pay_required_throws:
  assumes "check_maxAmount config sel = (Inr (), [])"
    and "onPaymentRequired config = Some callback"
    and "callback (maxAmountRequired sel) = Some thrown"
  shows "pay world url config init hs v reqs sel =
     (Inl thrown, [OnPaymentRequired (maxAmountRequired sel)])"
  using assms by (simp add: pay_def and_then_def call_optional_def)

text \<open>No step of a run reads the wallet.\<close>

lemma payment_catch_wallet_irrelevant:
  "payment_catch (config \<lparr> wallet := other \<rparr>) m = payment_catch config m"
  by (simp add: payment_catch_def Let_def cong: if_cong sum.case_cong prod.case_cong)

lemma payment_flow_wallet_irrelevant:
  "payment_flow world url (config \<lparr> wallet := other \<rparr>) init hs response =
     payment_flow world url config init hs response"
  by (simp add: payment_flow_def pay_def read_challenge_def check_maxAmount_def
      settle_def createPaymentHeader_eq Let_def
      cong: if_cong sum.case_cong prod.case_cong option.case_cong)

lemma dexfraFetch_wallet_irrelevant:
  "dexfraFetch world url (config \<lparr> wallet := other \<rparr>) init = dexfraFetch world url config init"
  by (simp add: dexfraFetch_def payment_catch_wallet_irrelevant
      payment_flow_wallet_irrelevant cong: if_cong)

section \<open>Example runs\<close>

text \<open>The definitions a run unfolds to, and the conversions of the examples.\<close>

lemmas run_defs =
  dexfraFetch_def do_fetch_def and_then_def new_Headers_def payment_flow_def
  read_challenge_def falsy_version_def selectPaymentRequirement_def payment_catch_def pay_def
  check_maxAmount_def call_optional_def createPaymentHeader_eq
  settle_def ok_def make_request_def wrap_error_def new_MaxAmountExceededError_def Let_def

lemmas ex_defs =
  ex_world_def ex_world_rejecting_def ex_world_empty_def
  ex_world_upto_def ex_world_82_def ex_config_def ex_config_ceiling_def
  ex_config_ceiling_throwing_def ex_config_ceiling_rethrowing_def
  ex_config_required_throwing_def ex_config_ceiling_silent_def
  ex_config_required_rejecting_def ex_config_required_silent_def ex_config_b_def
  ex_config_82_def
  ex_402_def ex_402_empty_def ex_402_upto_def ex_402_no_body_def ex_402_null_def ex_402_82_def
  ex_200_def ex_200_with_def ex_200_undecodable_def ex_200_bad_json_def ex_200_null_def
  ex_200_empty_object_def ex_200_settled_def
  ex_request_def ex_paid_request_def ex_challenge_def ex_empty_challenge_def
  ex_challenge_upto_def

lemma ex_conversions:
  "parseUSDCAmount (Dyadic 1 0) = Inr 1000000"
  "parseUSDCAmount (Dyadic 2308094809027379 (- 48)) = Inr 8199999"
  "BigInt_of_string ''2000000'' = Inr 2000000"
  "BigInt_of_string ''8200000'' = Inr 8200000"
  "BigInt_toString 1000000 = ''1000000''"
  "BigInt_toString 8199999 = ''8199999''"
  by code_simp+

lemma ex_amounts:
  "maxAmountRequired ex_offer = ''2000000''"
  "maxAmountRequired ex_offer_82 = ''8200000''"
  "maxAmountRequired ex_offer_B = ''2000''"
  by (simp_all add: ex_offer_def ex_offer_82_def ex_offer_B_def)

lemma ex_numbers:
  "JSON_stringify_number world (Dyadic 1 0) = ''1''"
  "JSON_stringify_number world (Dyadic 1700000000000 0) = ''1700000000000''"
proof -
  have "BigInt_toString 1 = ''1''" "BigInt_toString 1700000000000 = ''1700000000000''"
    by code_simp+
  then show "JSON_stringify_number world (Dyadic 1 0) = ''1''"
    "JSON_stringify_number world (Dyadic 1700000000000 0) = ''1700000000000''"
    by (simp_all add: JSON_stringify_number_def integer_value_def)
qed

lemma ex_payment_text:
  "JSON_stringify_paymentData world
     (make_paymentData (Dyadic 1 0) ex_offer (Dyadic 1700000000000 0)) =
   ''{\"version\":1,\"network\":\"solana-devnet\",\"recipient\":\"Rcpt1\",\"amount\":\"2000000\",\"token\":\"USDC\",\"scheme\":\"exact\",\"timestamp\":1700000000000}''"
proof -
  have "map JSON_stringify_string
          [''version'', ''network'', ''recipient'', ''amount'', ''token'', ''scheme'',
           ''timestamp'', ''solana-devnet'', ''Rcpt1'', ''2000000'', ''USDC'', ''exact''] =
        [''\"version\"'', ''\"network\"'', ''\"recipient\"'', ''\"amount\"'', ''\"token\"'',
         ''\"scheme\"'', ''\"timestamp\"'', ''\"solana-devnet\"'', ''\"Rcpt1\"'',
         ''\"2000000\"'', ''\"USDC\"'', ''\"exact\"'']"
    by code_simp
  then show ?thesis
    by (simp add: JSON_stringify_paymentData_def make_paymentData_def ex_offer_def ex_numbers)
qed

lemma ex_payment_text_upto:
  "JSON_stringify_paymentData world
     (make_paymentData (Dyadic 1 0) ex_offer_B (Dyadic 1700000000000 0)) =
   ''{\"version\":1,\"network\":\"B\",\"recipient\":\"Rcpt2\",\"amount\":\"2000\",\"scheme\":\"upto\",\"timestamp\":1700000000000}''"
proof -
  have "map JSON_stringify_string
          [''version'', ''network'', ''recipient'', ''amount'', ''scheme'',
           ''timestamp'', ''B'', ''Rcpt2'', ''2000'', ''upto''] =
        [''\"version\"'', ''\"network\"'', ''\"recipient\"'', ''\"amount\"'',
         ''\"scheme\"'', ''\"timestamp\"'', ''\"B\"'', ''\"Rcpt2\"'',
         ''\"2000\"'', ''\"upto\"'']"
    by code_simp
  then show ?thesis
    by (simp add: JSON_stringify_paymentData_def make_paymentData_def ex_offer_B_def ex_numbers)
qed

lemma ex_base64:
  "toString_base64 (Buffer_from
     ''{\"version\":1,\"network\":\"solana-devnet\",\"recipient\":\"Rcpt1\",\"amount\":\"2000000\",\"token\":\"USDC\",\"scheme\":\"exact\",\"timestamp\":1700000000000}'')
   = ex_payment_header"
  by code_simp

lemma ex_header:
  "paymentHeader_of world (make_paymentData (Dyadic 1 0) ex_offer (Dyadic 1700000000000 0)) =
     ex_payment_header"
  by (simp only: paymentHeader_of_def ex_payment_text ex_base64)

lemma ex_header_put:
  "Headers_put ''x-payment'' ex_payment_header [] = [(''x-payment'', ex_payment_header)]"
  by code_simp

lemma ex_header_set:
  "Headers_set world ''x-payment'' ex_payment_header [] = Inr [(''x-payment'', ex_payment_header)]"
proof -
  have "Headers_set world ''x-payment''
          (paymentHeader_of world
             (make_paymentData (Dyadic 1 0) ex_offer (Dyadic 1700000000000 0))) [] =
        Inr (Headers_put ''x-payment''
          (paymentHeader_of world
             (make_paymentData (Dyadic 1 0) ex_offer (Dyadic 1700000000000 0))) [])"
    by (rule Headers_set_paymentHeader)
  then show ?thesis
    by (simp only: ex_header ex_header_put)
qed

lemma ex_server_simps:
  "fetch (ex_server first paid) n rq = (if n = 0 then Inr first else Inr paid)"
  "now (ex_server first paid) = Dyadic 1700000000000 0"
  "atob (ex_server first paid) = ex_atob"
  "JSON_parse (ex_server first paid) = ex_JSON_parse"
  by (simp_all add: ex_server_def)

lemma ex_read_challenge:
  "read_challenge config ex_402 = (Inr (Dyadic 1 0, [ex_offer], ex_offer), [])"
  by (simp add: run_defs ex_defs)

lemma Headers_get_single: "Headers_get name [(name, v)] = Some v"
  by (simp add: Headers_get_def)

lemma Headers_get_other: "Headers_get ''x-payment-response'' [(''content-type'', v)] = None"
proof -
  have "byte_lowercase ''content-type'' \<noteq> byte_lowercase ''x-payment-response''"
    by code_simp
  then show ?thesis by (simp add: Headers_get_def)
qed

lemma ex_decodings:
  "ex_atob ''%%%'' =
     Inl (JsError ''InvalidCharacterError'' ''The string to be decoded is not correctly encoded.'')"
  "ex_atob ''e3s='' = Inr ''{{''"
  "ex_atob ''bnVsbA=='' = Inr ''null''"
  "ex_atob ''e30='' = Inr ''{}''"
  "ex_atob ''eyJ0cmFuc2FjdGlvbklkIjoidHgxIn0='' = Inr ''{\"transactionId\":\"tx1\"}''"
  by code_simp+

lemma ex_parsings:
  "ex_JSON_parse ''{{'' =
     Inl (JsError ''SyntaxError'' ''Unexpected token { in JSON at position 1'')"
  "ex_JSON_parse ''null'' = Inr JNull"
  "ex_JSON_parse ''{}'' = Inr (JObject [])"
  "ex_JSON_parse ''{\"transactionId\":\"tx1\"}'' =
     Inr (JObject [(''transactionId'', JString ''tx1'')])"
  by (simp_all add: ex_JSON_parse_def)

lemma ex_settlements:
  "settlement_of (ex_server first paid) ex_200 = JNull"
  "settlement_of (ex_server first paid) ex_200_undecodable = JNull"
  "settlement_of (ex_server first paid) ex_200_bad_json = JNull"
  "settlement_of (ex_server first paid) ex_200_null = JNull"
  "settlement_of (ex_server first paid) ex_200_empty_object = JObject []"
  "settlement_of (ex_server first paid) ex_200_settled =
     JObject [(''transactionId'', JString ''tx1'')]"
  by (simp_all add: settlement_of_def parseSettlementResponse_def ex_defs ex_server_simps
      Headers_get_single Headers_get_other ex_decodings ex_parsings)

lemma ex_statuses:
  "status ex_402 = 402" "status ex_200 = 200" "status (ex_200_with h) = 200"
  "status ex_402_empty = 402" "status ex_402_no_body = 402" "status ex_402_null = 402"
  "status ex_402_upto = 402" "status ex_402_82 = 402"
  by (simp_all add: ex_defs)


text \<open>
  The run against a server that serves the paid retry with the response \<open>r\<close>, for a
  configuration without ceiling whose callbacks return.
\<close>

lemma ex_run_paid:
  assumes "status r \<noteq> 402"
  shows "dexfraFetch (ex_server ex_402 r) ex_url ex_config None =
     (Inr r,
      [Fetch ex_request (Inr ex_402), OnPaymentRequired ''2000000'',
       CreatePaymentHeader (Dyadic 1 0) ex_offer, Fetch ex_paid_request (Inr r)]
      @ (if truthy (settlement_of (ex_server ex_402 r) r)
         then [OnPaymentSuccess (transactionId_of (settlement_of (ex_server ex_402 r) r))]
         else []))"
proof -
  have c: "onPaymentSuccess ex_config = Some (\<lambda>txId. None)"
    "onPaymentRequired ex_config = Some (\<lambda>amount. None)" "maxAmount ex_config = None"
    by (simp_all add: ex_config_def)
  have s: "settle (ex_server ex_402 r) ex_config [ex_offer] ex_offer r =
     (Inr r, if truthy (settlement_of (ex_server ex_402 r) r)
         then [OnPaymentSuccess (transactionId_of (settlement_of (ex_server ex_402 r) r))]
         else [])"
    using assms by (simp add: settle_not_402 c)
  show ?thesis
    by (simp add: dexfraFetch_def new_Headers_def do_fetch_def make_request_def
        payment_flow_def ex_read_challenge payment_catch_def pay_def check_maxAmount_def
        call_optional_def createPaymentHeader_eq c s ex_server_simps ex_statuses ex_amounts
        ex_header ex_header_set ex_request_def ex_paid_request_def and_then_Inr_events)
qed

lemma ex_run_served:
  "dexfraFetch ex_world ex_url ex_config None =
     (Inr ex_200,
      [Fetch ex_request (Inr ex_402), OnPaymentRequired ''2000000'',
       CreatePaymentHeader (Dyadic 1 0) ex_offer, Fetch ex_paid_request (Inr ex_200)])"
  unfolding ex_world_def
  by (simp add: ex_run_paid ex_statuses ex_settlements)

lemma ex_run_rejected:
  "dexfraFetch ex_world_rejecting ex_url ex_config None =
     (Inl (PaymentRequiredError ''Payment was not accepted'' ''2000000'' [ex_offer]),
      [Fetch ex_request (Inr ex_402), OnPaymentRequired ''2000000'',
       CreatePaymentHeader (Dyadic 1 0) ex_offer, Fetch ex_paid_request (Inr ex_402)])"
proof -
  have c: "onPaymentRequired ex_config = Some (\<lambda>amount. None)" "maxAmount ex_config = None"
    by (simp_all add: ex_config_def)
  show ?thesis
    unfolding ex_world_rejecting_def
    by (simp add: dexfraFetch_def new_Headers_def do_fetch_def make_request_def
        payment_flow_def ex_read_challenge payment_catch_def pay_def check_maxAmount_def
        call_optional_def createPaymentHeader_eq c settle_402 ex_server_simps ex_statuses
        ex_amounts ex_header ex_header_set ex_request_def ex_paid_request_def
        and_then_Inr_events)
qed

text \<open>The runs that stop before the header: the ceiling, a throwing callback, a bad challenge.\<close>

lemma ex_run_before_header:
  assumes "fst (pay (ex_server ex_402 ex_200) ex_url config None [] (Dyadic 1 0) [ex_offer]
             ex_offer) = Inl e"
  shows "dexfraFetch ex_world ex_url config None =
     (fst (payment_catch config
        (pay (ex_server ex_402 ex_200) ex_url config None [] (Dyadic 1 0) [ex_offer] ex_offer)),
      Fetch ex_request (Inr ex_402)
      # snd (payment_catch config
        (pay (ex_server ex_402 ex_200) ex_url config None [] (Dyadic 1 0) [ex_offer] ex_offer)))"
  unfolding ex_world_def
  by (simp add: dexfraFetch_def new_Headers_def do_fetch_def make_request_def
      payment_flow_def ex_read_challenge ex_server_simps ex_statuses ex_request_def
      and_then_def split: prod.splits)

lemma ex_ceiling_error:
  "new_MaxAmountExceededError ex_offer 1000000 =
     MaxAmountExceededError ''Payment amount 2000000 exceeds max amount 1000000''
       ''2000000'' ''1000000''"
  by (simp add: new_MaxAmountExceededError_def ex_amounts ex_conversions)

lemma ex_check_ceiling:
  assumes "maxAmount config = Some (Dyadic 1 0)"
  shows "check_maxAmount config ex_offer =
     (case onPaymentError config of
        None \<Rightarrow> (Inl (new_MaxAmountExceededError ex_offer 1000000), [])
      | Some handler \<Rightarrow>
          (Inl (case handler (new_MaxAmountExceededError ex_offer 1000000) of
                  None \<Rightarrow> new_MaxAmountExceededError ex_offer 1000000
                | Some thrown \<Rightarrow> thrown),
           [OnPaymentError (new_MaxAmountExceededError ex_offer 1000000)]))"
  by (rule check_maxAmount_exceeds [OF assms, of _ _ 2000000])
    (simp_all add: ex_conversions ex_amounts)

lemma ex_run_ceiling:
  "dexfraFetch ex_world ex_url ex_config_ceiling None =
     (Inl (MaxAmountExceededError ''Payment amount 2000000 exceeds max amount 1000000''
             ''2000000'' ''1000000''),
      [Fetch ex_request (Inr ex_402),
       OnPaymentError (MaxAmountExceededError
          ''Payment amount 2000000 exceeds max amount 1000000'' ''2000000'' ''1000000'')])"
proof -
  have c: "maxAmount ex_config_ceiling = Some (Dyadic 1 0)"
    "onPaymentError ex_config_ceiling = Some (\<lambda>error. None)"
    by (simp_all add: ex_config_ceiling_def ex_config_def)
  have p: "pay (ex_server ex_402 ex_200) ex_url ex_config_ceiling None [] (Dyadic 1 0) [ex_offer]
      ex_offer =
     (Inl (new_MaxAmountExceededError ex_offer 1000000),
      [OnPaymentError (new_MaxAmountExceededError ex_offer 1000000)])"
    by (simp add: pay_def ex_check_ceiling [OF c(1)] c(2))
  show ?thesis
    using ex_run_before_header [of ex_config_ceiling] p
    by (simp add: payment_catch_Dexfra ex_ceiling_error)
qed

lemma ex_run_ceiling_throwing:
  "dexfraFetch ex_world ex_url ex_config_ceiling_throwing None =
     (Inl (JsError ''Error'' ''handler failed''),
      [Fetch ex_request (Inr ex_402),
       OnPaymentError (MaxAmountExceededError
          ''Payment amount 2000000 exceeds max amount 1000000'' ''2000000'' ''1000000''),
       OnPaymentError (DexfraError ''Payment processing failed: handler failed''
          ''PAYMENT_PROCESSING_FAILED'' (Cause (JsError ''Error'' ''handler failed'')))])"
proof -
  have c: "maxAmount ex_config_ceiling_throwing = Some (Dyadic 1 0)"
    "onPaymentError ex_config_ceiling_throwing =
       Some (\<lambda>error. Some (JsError ''Error'' ''handler failed''))"
    by (simp_all add: ex_config_ceiling_throwing_def ex_config_ceiling_def ex_config_def)
  have p: "pay (ex_server ex_402 ex_200) ex_url ex_config_ceiling_throwing None [] (Dyadic 1 0)
      [ex_offer] ex_offer =
     (Inl (JsError ''Error'' ''handler failed''),
      [OnPaymentError (new_MaxAmountExceededError ex_offer 1000000)])"
    by (simp add: pay_def ex_check_ceiling [OF c(1)] c(2))
  show ?thesis
    using ex_run_before_header [of ex_config_ceiling_throwing] p
    by (simp add: payment_catch_other c(2) ex_ceiling_error wrap_error_def)
qed

lemma ex_run_ceiling_rethrowing:
  "dexfraFetch ex_world ex_url ex_config_ceiling_rethrowing None =
     (Inl (MaxAmountExceededError ''Payment amount 2000000 exceeds max amount 1000000''
             ''2000000'' ''1000000''),
      [Fetch ex_request (Inr ex_402),
       OnPaymentError (MaxAmountExceededError
          ''Payment amount 2000000 exceeds max amount 1000000'' ''2000000'' ''1000000'')])"
proof -
  have c: "maxAmount ex_config_ceiling_rethrowing = Some (Dyadic 1 0)"
    "onPaymentError ex_config_ceiling_rethrowing = Some (\<lambda>error. Some error)"
    by (simp_all add: ex_config_ceiling_rethrowing_def ex_config_ceiling_def ex_config_def)
  have p: "pay (ex_server ex_402 ex_200) ex_url ex_config_ceiling_rethrowing None [] (Dyadic 1 0)
      [ex_offer] ex_offer =
     (Inl (new_MaxAmountExceededError ex_offer 1000000),
      [OnPaymentError (new_MaxAmountExceededError ex_offer 1000000)])"
    by (simp add: pay_def ex_check_ceiling [OF c(1)] c(2))
  show ?thesis
    using ex_run_before_header [of ex_config_ceiling_rethrowing] p
    by (simp add: payment_catch_Dexfra ex_ceiling_error)
qed

lemma ex_run_required_throwing:
  "dexfraFetch ex_world ex_url ex_config_required_throwing None =
     (Inl (DexfraError ''Payment processing failed: handler failed''
          ''PAYMENT_PROCESSING_FAILED'' (Cause (JsError ''Error'' ''handler failed''))),
      [Fetch ex_request (Inr ex_402), OnPaymentRequired ''2000000'',
       OnPaymentError (DexfraError ''Payment processing failed: handler failed''
          ''PAYMENT_PROCESSING_FAILED'' (Cause (JsError ''Error'' ''handler failed'')))])"
proof -
  have c: "maxAmount ex_config_required_throwing = None"
    "onPaymentRequired ex_config_required_throwing =
       Some (\<lambda>amount. Some (JsError ''Error'' ''handler failed''))"
    "onPaymentError ex_config_required_throwing = Some (\<lambda>error. None)"
    by (simp_all add: ex_config_required_throwing_def ex_config_def)
  have p: "pay (ex_server ex_402 ex_200) ex_url ex_config_required_throwing None []
      (Dyadic 1 0) [ex_offer] ex_offer =
     (Inl (JsError ''Error'' ''handler failed''), [OnPaymentRequired ''2000000''])"
    by (simp add: pay_def check_maxAmount_def call_optional_def c ex_amounts)
  show ?thesis
    using ex_run_before_header [of ex_config_required_throwing] p
    by (simp add: payment_catch_other c(3) wrap_error_def)
qed

text \<open>The runs on a challenge that cannot be used.\<close>

lemma ex_run_unusable:
  assumes "status first = 402" and "fst (read_challenge config first) = Inl e"
  shows "dexfraFetch (ex_server first ex_200) ex_url config None =
     (fst (payment_catch config (Inl e, [])),
      Fetch ex_request (Inr first) # snd (payment_catch config (Inl e, [])))"
proof -
  have "read_challenge config first = (Inl e, [])"
    using assms(2) snd_read_challenge [of config first] by (simp add: prod_eq_iff)
  then show ?thesis
    using assms
    by (simp add: dexfraFetch_def new_Headers_def do_fetch_def make_request_def
        payment_flow_def ex_server_simps ex_request_def and_then_def split: prod.splits)
qed

lemma ex_run_empty:
  "dexfraFetch ex_world_empty ex_url ex_config None =
     (Inl (DexfraError ''Invalid 402 Payment Required response'' ''INVALID_402_RESPONSE''
             (ChallengeDetails ex_empty_challenge)),
      [Fetch ex_request (Inr ex_402_empty)])"
proof -
  have r: "fst (read_challenge ex_config ex_402_empty) =
      Inl (DexfraError ''Invalid 402 Payment Required response'' ''INVALID_402_RESPONSE''
             (ChallengeDetails ex_empty_challenge))"
    by (simp add: read_challenge_def ex_402_empty_def ex_402_def ex_empty_challenge_def)
  show ?thesis
    unfolding ex_world_empty_def
    using ex_run_unusable [OF ex_statuses(4) r]
    by (simp add: payment_catch_Dexfra)
qed


lemma ex_run_null:
  "dexfraFetch (ex_server ex_402_null ex_200) ex_url ex_config None =
     (Inl (DexfraError
             ''Payment processing failed: Cannot read properties of null (reading 'x402Version')''
             ''PAYMENT_PROCESSING_FAILED''
             (Cause (JsError ''TypeError''
                ''Cannot read properties of null (reading 'x402Version')''))),
      [Fetch ex_request (Inr ex_402_null),
       OnPaymentError (DexfraError
             ''Payment processing failed: Cannot read properties of null (reading 'x402Version')''
             ''PAYMENT_PROCESSING_FAILED''
             (Cause (JsError ''TypeError''
                ''Cannot read properties of null (reading 'x402Version')'')))])"
proof -
  have r: "fst (read_challenge ex_config ex_402_null) =
      Inl (JsError ''TypeError'' ''Cannot read properties of null (reading 'x402Version')'')"
    by (simp add: read_challenge_def ex_402_null_def ex_402_def)
  have c: "onPaymentError ex_config = Some (\<lambda>error. None)"
    by (simp add: ex_config_def)
  show ?thesis
    using ex_run_unusable [OF ex_statuses(6) r]
    by (simp add: payment_catch_other c wrap_error_def)
qed

lemma ex_exceeds: "exceeds_maxAmount ex_config_ceiling_throwing ex_offer"
  by (simp add: exceeds_maxAmount_def ex_defs ex_amounts ex_conversions)

lemma ex_run_82:
  "dexfraFetch ex_world_82 ex_url ex_config_82 None =
     (Inl (MaxAmountExceededError ''Payment amount 8200000 exceeds max amount 8199999''
             ''8200000'' ''8199999''),
      [Fetch ex_request (Inr ex_402_82),
       OnPaymentError (MaxAmountExceededError
          ''Payment amount 8200000 exceeds max amount 8199999'' ''8200000'' ''8199999'')])"
  by (simp add: run_defs ex_defs ex_server_simps ex_amounts ex_conversions)

text \<open>The first exchange of the examples, and the challenge with the \<open>upto\<close> offer.\<close>

lemma ex_first_exchange:
  "first_exchange (ex_server first paid) ex_url None = Some (ex_request, first)"
  by (simp add: first_exchange_def new_Headers_def make_request_def ex_server_simps
      ex_request_def)

lemma ex_new_Headers_init:
  "new_Headers world (Some ex_init) =
     Inr [(''accept'', ''text/plain''), (''x-payment'', ''mine''), (''x-payment'', ''again'')]"
proof -
  have "Headers_fill world
          [(''Accept'', '' text/plain ''), (''X-Payment'', ''mine''), (''x-payment'', ''again'')] [] =
        Inr [(''accept'', ''text/plain''), (''x-payment'', ''mine''), (''x-payment'', ''again'')]"
    by code_simp
  then show ?thesis
    by (simp add: new_Headers_def ex_init_def)
qed

lemma ex_first_exchange_init:
  "first_exchange (ex_server first paid) ex_url (Some ex_init) = Some (ex_request_init, first)"
  unfolding first_exchange_def ex_new_Headers_init
  by (simp add: make_request_def ex_server_simps ex_request_init_def ex_init_def)

lemma ex_header_put_init:
  "Headers_put ''x-payment'' ex_payment_header (req_headers ex_request_init) =
     [(''accept'', ''text/plain''), (''x-payment'', ex_payment_header)]"
  unfolding ex_request_init_def by code_simp

lemma ex_selection_b:
  "selectPaymentRequirement [ex_offer_A, ex_offer_B] ''b'' = Some ex_offer_B"
proof -
  have "toLowerCase ''A'' \<noteq> toLowerCase ''b''" "toLowerCase ''B'' = toLowerCase ''b''"
    by code_simp+
  then show ?thesis
    by (simp add: selectPaymentRequirement_def ex_offer_A_def ex_offer_B_def)
qed

lemma ex_read_challenge_upto:
  "read_challenge ex_config_b ex_402_upto =
     (Inr (Dyadic 1 0, [ex_offer_A, ex_offer_B], ex_offer_B), [])"
proof -
  have "cfg_network ex_config_b = ''b''"
    by (simp add: ex_config_b_def)
  then show ?thesis
    by (simp add: read_challenge_def falsy_version_def ex_402_upto_def ex_402_def
        ex_challenge_upto_def ex_selection_b)
qed

lemma ex_base64_upto:
  "toString_base64 (Buffer_from
     ''{\"version\":1,\"network\":\"B\",\"recipient\":\"Rcpt2\",\"amount\":\"2000\",\"scheme\":\"upto\",\"timestamp\":1700000000000}'')
   = ex_payment_header_upto"
  by code_simp

lemma ex_header_upto:
  "paymentHeader_of world (make_paymentData (Dyadic 1 0) ex_offer_B (Dyadic 1700000000000 0)) =
     ex_payment_header_upto"
  by (simp only: paymentHeader_of_def ex_payment_text_upto ex_base64_upto)

lemma ex_header_put_upto:
  "Headers_put ''x-payment'' ex_payment_header_upto [] = [(''x-payment'', ex_payment_header_upto)]"
  by code_simp

lemma ex_decoded_headers:
  "from_base64 ex_payment_header =
     Some ''{\"version\":1,\"network\":\"solana-devnet\",\"recipient\":\"Rcpt1\",\"amount\":\"2000000\",\"token\":\"USDC\",\"scheme\":\"exact\",\"timestamp\":1700000000000}''"
  "from_base64 ex_payment_header_upto =
     Some ''{\"version\":1,\"network\":\"B\",\"recipient\":\"Rcpt2\",\"amount\":\"2000\",\"scheme\":\"upto\",\"timestamp\":1700000000000}''"
  by code_simp+

lemma ex_check_no_ceiling:
  "maxAmount config = None \<Longrightarrow> check_maxAmount config sel = (Inr (), [])"
  by (simp add: check_maxAmount_def)

text \<open>When the check passes and \<open>onPaymentRequired\<close> returns, the header is built.\<close>

lemma header_built_paying:
  assumes "first_exchange world url init = Some (rq, response)"
    and "status response = 402"
    and "read_challenge config response = (Inr (v, reqs, sel), [])"
    and "check_maxAmount config sel = (Inr (), [])"
    and "returns_normally (onPaymentRequired config) (maxAmountRequired sel)"
  shows "header_built (snd (dexfraFetch world url config init))"
proof -
  from assms(1-3) obtain hs where
    "dexfraFetch world url config init =
       (fst (payment_catch config (pay world url config init hs v reqs sel)),
        Fetch rq (Inr response)
        # snd (payment_catch config (pay world url config init hs v reqs sel)))"
    by (rule dexfraFetch_paying)
  then show ?thesis
    using assms(4) call_optional_returns [OF assms(5)]
    by (simp add: snd_pay)
qed

section \<open>Properties of the selection\<close>

lemma array_find_None: "array_find p xs = None \<longleftrightarrow> (\<forall>x \<in> set xs. \<not> p x)"
  by (induction xs) auto

lemma array_find_Some:
  "array_find p xs = Some y \<longleftrightarrow>
     (\<exists>i < length xs. xs ! i = y \<and> p y \<and> (\<forall>j < i. \<not> p (xs ! j)))"
proof (induction xs)
  case Nil
  show ?case by simp
next
  case (Cons x xs)
  show ?case
  proof (cases "p x")
    case True
    have "i = 0" if "\<forall>j < i. \<not> p ((x # xs) ! j)" for i
    proof (rule ccontr)
      assume "i \<noteq> 0"
      with that have "\<not> p ((x # xs) ! 0)" by blast
      with True show False by simp
    qed
    note zero = this
    show ?thesis
    proof
      assume "array_find p (x # xs) = Some y"
      with True have "x = y" by simp
      with True show "\<exists>i < length (x # xs). (x # xs) ! i = y \<and> p y \<and>
          (\<forall>j < i. \<not> p ((x # xs) ! j))"
        by (intro exI [of _ 0]) simp
    next
      assume "\<exists>i < length (x # xs). (x # xs) ! i = y \<and> p y \<and>
          (\<forall>j < i. \<not> p ((x # xs) ! j))"
      then obtain i where i: "(x # xs) ! i = y" "\<forall>j < i. \<not> p ((x # xs) ! j)"
        by blast
      from zero [OF i(2)] i(1) have "x = y" by simp
      with True show "array_find p (x # xs) = Some y" by simp
    qed
  next
    case False
    have "(\<exists>i < length xs. xs ! i = y \<and> p y \<and> (\<forall>j < i. \<not> p (xs ! j))) \<longleftrightarrow>
          (\<exists>i < length (x # xs). (x # xs) ! i = y \<and> p y \<and> (\<forall>j < i. \<not> p ((x # xs) ! j)))"
      (is "?L \<longleftrightarrow> ?R")
    proof
      assume ?L
      then obtain i where i: "i < length xs" "xs ! i = y" "p y" "\<forall>j < i. \<not> p (xs ! j)"
        by blast
      have "\<forall>j < Suc i. \<not> p ((x # xs) ! j)"
        using i(4) False by (auto simp: nth_Cons split: nat.splits)
      with i show ?R by (intro exI [of _ "Suc i"]) simp
    next
      assume ?R
      then obtain i where i: "i < length (x # xs)" "(x # xs) ! i = y" "p y"
        "\<forall>j < i. \<not> p ((x # xs) ! j)"
        by blast
      from i False obtain k where k: "i = Suc k" by (cases i) auto
      have "\<forall>j < k. \<not> p (xs ! j)"
      proof (intro allI impI)
        fix j assume "j < k"
        then have "Suc j < i" using k by simp
        with i(4) show "\<not> p (xs ! j)" by fastforce
      qed
      with i k show ?L by (intro exI [of _ k]) simp
    qed
    with False Cons show ?thesis by simp
  qed
qed

lemma selectPaymentRequirement_by_case:
  "selectPaymentRequirement offers preferred =
     (case array_find (\<lambda>req. equal_ignoring_case (network req) preferred) offers of
        Some networkMatch \<Rightarrow> Some networkMatch
      | None \<Rightarrow> (case offers of [] \<Rightarrow> None | r # _ \<Rightarrow> Some r))"
  by (simp add: selectPaymentRequirement_def equal_ignoring_case_iff)

lemma ex_networks:
  "equal_ignoring_case ''solana-devnet'' ''SOLANA-Devnet''"
  "\<not> equal_ignoring_case ''A'' ''SOLANA-Devnet''"
  "\<not> equal_ignoring_case ''A'' ''B''"
  "equal_ignoring_case ''B'' ''B''"
  "\<not> equal_ignoring_case ''A'' ''b''"
  "equal_ignoring_case ''B'' ''b''"
  by code_simp+

text \<open>
  C8. For a non-empty list of offers the selection always returns an offer (it is total),
  and that offer is: the one at the least index whose network equals the preferred network
  without regard to the case of the letters, when there is such an index; the offer at
  index 0 when there is none. In particular, with one offer on network "A" and one on
  network "B" and preferred network "B" (or "b"), the "B" offer is returned in either list
  order.
\<close>

theorem selectPaymentRequirement_first_match_or_head:
  "offers \<noteq> [] \<Longrightarrow>
     (\<exists>r. selectPaymentRequirement offers preferred = Some r \<and>
        ((\<exists>i < length offers. r = offers ! i \<and>
             equal_ignoring_case (network r) preferred \<and>
             (\<forall>j < i. \<not> equal_ignoring_case (network (offers ! j)) preferred))
         \<or> ((\<forall>j < length offers. \<not> equal_ignoring_case (network (offers ! j)) preferred)
             \<and> r = offers ! 0)))
     \<and> (network a = ''A'' \<and> network b = ''B'' \<longrightarrow>
          selectPaymentRequirement [a, b] ''B'' = Some b \<and>
          selectPaymentRequirement [b, a] ''B'' = Some b \<and>
          selectPaymentRequirement [a, b] ''b'' = Some b \<and>
          selectPaymentRequirement [b, a] ''b'' = Some b)"
proof (intro conjI impI)
  assume ne: "offers \<noteq> []"
  let ?p = "\<lambda>req. equal_ignoring_case (network req) preferred"
  show "\<exists>r. selectPaymentRequirement offers preferred = Some r \<and>
        ((\<exists>i < length offers. r = offers ! i \<and>
             equal_ignoring_case (network r) preferred \<and>
             (\<forall>j < i. \<not> equal_ignoring_case (network (offers ! j)) preferred))
         \<or> ((\<forall>j < length offers. \<not> equal_ignoring_case (network (offers ! j)) preferred)
             \<and> r = offers ! 0))"
  proof (cases "array_find ?p offers")
    case None
    then have "\<forall>j < length offers. \<not> ?p (offers ! j)"
      by (simp add: array_find_None)
    moreover from ne obtain x xs where "offers = x # xs" by (cases offers) auto
    ultimately show ?thesis
      using None by (simp add: selectPaymentRequirement_by_case)
  next
    case (Some y)
    then obtain i where "i < length offers" "offers ! i = y" "?p y"
      "\<forall>j < i. \<not> ?p (offers ! j)"
      unfolding array_find_Some by blast
    then show ?thesis
      using Some by (auto simp: selectPaymentRequirement_by_case)
  qed
next
  assume ab: "network a = ''A'' \<and> network b = ''B''"
  then show "selectPaymentRequirement [a, b] ''B'' = Some b"
    by (simp add: selectPaymentRequirement_by_case ex_networks)
  from ab show "selectPaymentRequirement [b, a] ''B'' = Some b"
    by (simp add: selectPaymentRequirement_by_case ex_networks)
  from ab show "selectPaymentRequirement [a, b] ''b'' = Some b"
    by (simp add: selectPaymentRequirement_by_case ex_networks)
  from ab show "selectPaymentRequirement [b, a] ''b'' = Some b"
    by (simp add: selectPaymentRequirement_by_case ex_networks)
qed

theorem selectPaymentRequirement_first_match_or_head_witness:
  "[ex_offer_A, ex_offer] \<noteq> []
   \<and> network ex_offer_A = ''A'' \<and> network ex_offer = ''solana-devnet''
   \<and> network ex_offer_B = ''B''
   \<and> selectPaymentRequirement [ex_offer_A, ex_offer] ''SOLANA-Devnet'' = Some ex_offer
   \<and> selectPaymentRequirement [ex_offer_A, ex_offer_B] ''B'' = Some ex_offer_B
   \<and> selectPaymentRequirement [ex_offer_B, ex_offer_A] ''B'' = Some ex_offer_B
   \<and> selectPaymentRequirement [ex_offer_A, ex_offer_B] ''b'' = Some ex_offer_B
   \<and> selectPaymentRequirement [ex_offer_B, ex_offer_A] ''b'' = Some ex_offer_B"
proof -
  have ne: "[ex_offer_A, ex_offer] \<noteq> []"
    by simp
  have nets: "network ex_offer_A = ''A''" "network ex_offer = ''solana-devnet''"
    "network ex_offer_B = ''B''"
    by (simp_all add: ex_offer_A_def ex_offer_def ex_offer_B_def)
  from selectPaymentRequirement_first_match_or_head
    [OF ne, of "''SOLANA-Devnet''" ex_offer_A ex_offer_B]
  obtain r where r: "selectPaymentRequirement [ex_offer_A, ex_offer] ''SOLANA-Devnet'' = Some r"
    and which: "(\<exists>i < length [ex_offer_A, ex_offer]. r = [ex_offer_A, ex_offer] ! i \<and>
             equal_ignoring_case (network r) ''SOLANA-Devnet'' \<and>
             (\<forall>j < i. \<not> equal_ignoring_case (network ([ex_offer_A, ex_offer] ! j))
                ''SOLANA-Devnet''))
         \<or> ((\<forall>j < length [ex_offer_A, ex_offer].
               \<not> equal_ignoring_case (network ([ex_offer_A, ex_offer] ! j)) ''SOLANA-Devnet'')
             \<and> r = [ex_offer_A, ex_offer] ! 0)"
    and ab: "selectPaymentRequirement [ex_offer_A, ex_offer_B] ''B'' = Some ex_offer_B"
      "selectPaymentRequirement [ex_offer_B, ex_offer_A] ''B'' = Some ex_offer_B"
      "selectPaymentRequirement [ex_offer_A, ex_offer_B] ''b'' = Some ex_offer_B"
      "selectPaymentRequirement [ex_offer_B, ex_offer_A] ''b'' = Some ex_offer_B"
    using nets by blast
  have "r = ex_offer"
    using which
  proof
    assume "\<exists>i < length [ex_offer_A, ex_offer]. r = [ex_offer_A, ex_offer] ! i \<and>
             equal_ignoring_case (network r) ''SOLANA-Devnet'' \<and>
             (\<forall>j < i. \<not> equal_ignoring_case (network ([ex_offer_A, ex_offer] ! j))
                ''SOLANA-Devnet'')"
    then obtain i where i: "i < length [ex_offer_A, ex_offer]" "r = [ex_offer_A, ex_offer] ! i"
      "equal_ignoring_case (network r) ''SOLANA-Devnet''"
      by blast
    from i(1) have "i < 2" by simp
    then consider "i = 0" | "i = 1" by linarith
    then show ?thesis
    proof cases
      case 1
      with i(2,3) nets show ?thesis by (simp add: ex_networks)
    next
      case 2
      with i(2) show ?thesis by simp
    qed
  next
    assume "(\<forall>j < length [ex_offer_A, ex_offer].
               \<not> equal_ignoring_case (network ([ex_offer_A, ex_offer] ! j)) ''SOLANA-Devnet'')
             \<and> r = [ex_offer_A, ex_offer] ! 0"
    then have "\<forall>j < length [ex_offer_A, ex_offer].
               \<not> equal_ignoring_case (network ([ex_offer_A, ex_offer] ! j)) ''SOLANA-Devnet''"
      by (rule conjunct1)
    moreover have "1 < length [ex_offer_A, ex_offer]" by simp
    ultimately have
      "\<not> equal_ignoring_case (network ([ex_offer_A, ex_offer] ! 1)) ''SOLANA-Devnet''"
      by blast
    with nets show ?thesis by (simp add: ex_networks)
  qed
  with r ab ne nets show ?thesis by simp
qed

section \<open>Properties of the challenge validation\<close>



lemma dexfraFetch_invalid_shape:
  assumes "first_exchange world url init = Some (rq, response)"
    and "status response = 402"
    and "fst (read_challenge config response) = Inl e"
  shows "length (fetches (snd (dexfraFetch world url config init))) = 1"
    and "\<not> header_built (snd (dexfraFetch world url config init))"
    and "\<exists>error. fst (dexfraFetch world url config init) = Inl error"
proof -
  note run = dexfraFetch_invalid [OF assms]
  show "length (fetches (snd (dexfraFetch world url config init))) = 1"
    and "\<not> header_built (snd (dexfraFetch world url config init))"
    by (simp_all add: run)
  show "\<exists>error. fst (dexfraFetch world url config init) = Inl error"
    by (cases "instanceof_DexfraError e")
      (simp_all add: run payment_catch_Dexfra payment_catch_other split: option.splits)
qed




section \<open>Properties of the paid retry\<close>

text \<open>
  C6. Every run of \<open>dexfraFetch\<close> makes at most two network calls (the first request and
  at most one paid retry). When the run made two calls and the response to the second has
  status 402, the call fails with \<open>PaymentRequiredError\<close> ("Payment was not accepted"); as
  the list of calls has exactly these two entries, no third request was issued.
\<close>

theorem at_most_two_round_trips:
  "length (fetches (snd (dexfraFetch world url config init))) \<le> 2
   \<and> (fetches (snd (dexfraFetch world url config init)) = [first, Fetch rq (Inr paidResponse)]
        \<and> status paidResponse = 402 \<longrightarrow>
      (\<exists>amount offers. fst (dexfraFetch world url config init) =
          Inl (PaymentRequiredError ''Payment was not accepted'' amount offers)))"
proof (cases rule: fetches_dexfraFetch_cases [of world init url config])
  case (bad_headers e)
  then show ?thesis by simp
next
  case (rejected hs e)
  then show ?thesis by simp
next
  case (plain hs response)
  then show ?thesis by simp
next
  case (invalid hs response e)
  then show ?thesis by simp
next
  case (paying hs response v reqs sel)
  let ?pay = "pay world url config init hs v reqs sel"
  let ?paid = "paid_request world (make_request url init hs) v sel"
  have len: "length (fetches (snd (dexfraFetch world url config init))) \<le> 2"
    using paying(5) by (simp add: fetches_pay')
  have "\<exists>amount offers. fst (dexfraFetch world url config init) =
          Inl (PaymentRequiredError ''Payment was not accepted'' amount offers)"
    if two: "fetches (snd (dexfraFetch world url config init)) = [first, Fetch rq (Inr paidResponse)]"
      and st: "status paidResponse = 402"
  proof -
    from two paying(5) have hb: "header_built (snd ?pay)"
      and f2: "fetch world 1 ?paid = Inr paidResponse"
      by (auto simp: fetches_pay' split: if_splits)
    have "fst ?pay = Inl (PaymentRequiredError ''Payment was not accepted''
        (maxAmountRequired sel) reqs)"
      using fst_pay_header_built(3) [OF hb] f2 st by (simp add: settle_402)
    then have "fst (payment_catch config ?pay) = Inl (PaymentRequiredError
        ''Payment was not accepted'' (maxAmountRequired sel) reqs)"
      by (simp add: payment_catch_fst_Dexfra)
    with paying(5) show ?thesis by simp
  qed
  with len show ?thesis by blast
qed

theorem at_most_two_round_trips_witness:
  "fetches (snd (dexfraFetch ex_world_rejecting ex_url ex_config None)) =
     [Fetch ex_request (Inr ex_402), Fetch ex_paid_request (Inr ex_402)]
   \<and> status ex_402 = 402
   \<and> length (fetches (snd (dexfraFetch ex_world_rejecting ex_url ex_config None))) \<le> 2
   \<and> (\<exists>amount offers. fst (dexfraFetch ex_world_rejecting ex_url ex_config None) =
          Inl (PaymentRequiredError ''Payment was not accepted'' amount offers))"
proof -
  have calls: "fetches (snd (dexfraFetch ex_world_rejecting ex_url ex_config None)) =
     [Fetch ex_request (Inr ex_402), Fetch ex_paid_request (Inr ex_402)]"
    by (simp add: ex_run_rejected)
  have st: "status ex_402 = 402"
    by (simp add: ex_402_def)
  show ?thesis
    using at_most_two_round_trips [of ex_world_rejecting ex_url ex_config None
        "Fetch ex_request (Inr ex_402)" ex_paid_request ex_402] calls st
    by blast
qed







text \<open>The JSON text of the payment record, written out.\<close>

lemma JSON_stringify_paymentData_text:
  "JSON_stringify_paymentData world (make_paymentData v sel t) =
     ''{\"version\":'' @ JSON_stringify_number world v
     @ '',\"network\":'' @ JSON_stringify_string (network sel)
     @ '',\"recipient\":'' @ JSON_stringify_string (recipient sel)
     @ '',\"amount\":'' @ JSON_stringify_string (maxAmountRequired sel)
     @ (case token sel of
          None \<Rightarrow> []
        | Some name \<Rightarrow> '',\"token\":'' @ JSON_stringify_string name)
     @ '',\"scheme\":'' @ (case scheme sel of Exact \<Rightarrow> ''\"exact\"'' | Upto \<Rightarrow> ''\"upto\"'')
     @ '',\"timestamp\":'' @ JSON_stringify_number world t @ ''}''"
proof -
  have keys: "JSON_stringify_string ''version'' = ''\"version\"''"
    "JSON_stringify_string ''network'' = ''\"network\"''"
    "JSON_stringify_string ''recipient'' = ''\"recipient\"''"
    "JSON_stringify_string ''amount'' = ''\"amount\"''"
    "JSON_stringify_string ''token'' = ''\"token\"''"
    "JSON_stringify_string ''scheme'' = ''\"scheme\"''"
    "JSON_stringify_string ''timestamp'' = ''\"timestamp\"''"
    "JSON_stringify_string ''exact'' = ''\"exact\"''"
    "JSON_stringify_string ''upto'' = ''\"upto\"''"
    by code_simp+
  show ?thesis
    by (cases "scheme sel"; cases "token sel")
      (simp_all add: JSON_stringify_paymentData_def make_paymentData_def keys)
qed

text \<open>
  C10. The \<open>amount\<close> of the payment record is the \<open>maxAmountRequired\<close> of the offer,
  whatever its scheme. Whenever a run builds a header for the selected offer, it makes the
  paid retry with the first request's headers in which \<open>x-payment\<close> is set to that
  header; the header is base64 text that decodes to the UTF-8 bytes of the JSON text of
  the record, in which the member \<open>amount\<close> is the quoted \<open>maxAmountRequired\<close> of the
  selected offer and the member \<open>scheme\<close> is the offer's scheme; reading the quoted amount
  back gives \<open>maxAmountRequired\<close> itself.
\<close>

theorem payment_amount_is_full_maximum:
  "pd_amount (make_paymentData v offer t) = maxAmountRequired offer
   \<and> pd_scheme (make_paymentData v offer t) = scheme offer
   \<and> (first_exchange world url init = Some (rq, response)
        \<and> status response = 402
        \<and> read_challenge config response = (Inr (v, reqs, sel), [])
        \<and> header_built (snd (dexfraFetch world url config init)) \<longrightarrow>
      (\<exists>paid paymentHeader payload.
         fetches (snd (dexfraFetch world url config init)) =
           [Fetch rq (Inr response),
            Fetch (rq \<lparr> req_headers :=
                           Headers_put ''x-payment'' paymentHeader (req_headers rq) \<rparr>) paid]
         \<and> Headers_get ''x-payment''
              (Headers_put ''x-payment'' paymentHeader (req_headers rq)) = Some paymentHeader
         \<and> from_base64 paymentHeader = Some (Buffer_from payload)
         \<and> utf8_decode (Buffer_from payload) = Some payload
         \<and> payload =
             ''{\"version\":'' @ JSON_stringify_number world v
             @ '',\"network\":'' @ JSON_stringify_string (network sel)
             @ '',\"recipient\":'' @ JSON_stringify_string (recipient sel)
             @ '',\"amount\":'' @ JSON_stringify_string (maxAmountRequired sel)
             @ (case token sel of
                  None \<Rightarrow> []
                | Some name \<Rightarrow> '',\"token\":'' @ JSON_stringify_string name)
             @ '',\"scheme\":''
             @ (case scheme sel of Exact \<Rightarrow> ''\"exact\"'' | Upto \<Rightarrow> ''\"upto\"'')
             @ '',\"timestamp\":'' @ JSON_stringify_number world (now world) @ ''}''))
   \<and> JSON_unquote (JSON_stringify_string (maxAmountRequired sel) @ rest) =
         Some (maxAmountRequired sel, rest)"
proof (intro conjI impI)
  show "pd_amount (make_paymentData v offer t) = maxAmountRequired offer"
    and "pd_scheme (make_paymentData v offer t) = scheme offer"
    by (simp_all add: make_paymentData_def)
  show "JSON_unquote (JSON_stringify_string (maxAmountRequired sel) @ rest) =
         Some (maxAmountRequired sel, rest)"
    by (rule JSON_unquote_stringify)
next
  assume a: "first_exchange world url init = Some (rq, response)
        \<and> status response = 402
        \<and> read_challenge config response = (Inr (v, reqs, sel), [])
        \<and> header_built (snd (dexfraFetch world url config init))"
  let ?text = "JSON_stringify_paymentData world (make_paymentData v sel (now world))"
  let ?header = "paymentHeader_of world (make_paymentData v sel (now world))"
  from a obtain hs where rq: "rq = make_request url init hs"
    and run: "dexfraFetch world url config init =
       (fst (payment_catch config (pay world url config init hs v reqs sel)),
        Fetch rq (Inr response)
        # snd (payment_catch config (pay world url config init hs v reqs sel)))"
    using dexfraFetch_paying [of world url init rq response config v reqs sel] by blast
  from a run have hb: "header_built (snd (pay world url config init hs v reqs sel))"
    by simp
  have calls: "fetches (snd (dexfraFetch world url config init)) =
      [Fetch rq (Inr response),
       Fetch (rq \<lparr> req_headers := Headers_put ''x-payment'' ?header (req_headers rq) \<rparr>)
         (fetch world 1 (paid_request world rq v sel))]"
    using run hb by (simp add: fetches_pay' rq paid_request_def)
  have get: "Headers_get ''x-payment'' (Headers_put ''x-payment'' ?header (req_headers rq)) =
      Some ?header"
    by (simp add: Headers_get_put paymentHeader_of_def normalize_value_base64)
  have decode: "from_base64 ?header = Some (Buffer_from ?text)"
    by (simp add: paymentHeader_of_def from_base64_toString)
  have utf8: "utf8_decode (Buffer_from ?text) = Some ?text"
    by (rule utf8_decode_Buffer_from)
  from calls get decode utf8 JSON_stringify_paymentData_text [of world v sel "now world"]
  show "\<exists>paid paymentHeader payload.
         fetches (snd (dexfraFetch world url config init)) =
           [Fetch rq (Inr response),
            Fetch (rq \<lparr> req_headers :=
                           Headers_put ''x-payment'' paymentHeader (req_headers rq) \<rparr>) paid]
         \<and> Headers_get ''x-payment''
              (Headers_put ''x-payment'' paymentHeader (req_headers rq)) = Some paymentHeader
         \<and> from_base64 paymentHeader = Some (Buffer_from payload)
         \<and> utf8_decode (Buffer_from payload) = Some payload
         \<and> payload =
             ''{\"version\":'' @ JSON_stringify_number world v
             @ '',\"network\":'' @ JSON_stringify_string (network sel)
             @ '',\"recipient\":'' @ JSON_stringify_string (recipient sel)
             @ '',\"amount\":'' @ JSON_stringify_string (maxAmountRequired sel)
             @ (case token sel of
                  None \<Rightarrow> []
                | Some name \<Rightarrow> '',\"token\":'' @ JSON_stringify_string name)
             @ '',\"scheme\":''
             @ (case scheme sel of Exact \<Rightarrow> ''\"exact\"'' | Upto \<Rightarrow> ''\"upto\"'')
             @ '',\"timestamp\":'' @ JSON_stringify_number world (now world) @ ''}''"
    by blast
qed

theorem payment_amount_is_full_maximum_witness:
  "first_exchange ex_world ex_url None = Some (ex_request, ex_402)
   \<and> status ex_402 = 402
   \<and> read_challenge ex_config ex_402 = (Inr (Dyadic 1 0, [ex_offer], ex_offer), [])
   \<and> header_built (snd (dexfraFetch ex_world ex_url ex_config None))
   \<and> scheme ex_offer = Exact \<and> maxAmountRequired ex_offer = ''2000000''
   \<and> (\<exists>paid paymentHeader.
         fetches (snd (dexfraFetch ex_world ex_url ex_config None)) =
           [Fetch ex_request (Inr ex_402),
            Fetch (ex_request \<lparr> req_headers :=
                     Headers_put ''x-payment'' paymentHeader (req_headers ex_request) \<rparr>) paid]
         \<and> from_base64 paymentHeader = Some (Buffer_from
             ''{\"version\":1,\"network\":\"solana-devnet\",\"recipient\":\"Rcpt1\",\"amount\":\"2000000\",\"token\":\"USDC\",\"scheme\":\"exact\",\"timestamp\":1700000000000}''))
   \<and> first_exchange ex_world_upto ex_url None = Some (ex_request, ex_402_upto)
   \<and> status ex_402_upto = 402
   \<and> read_challenge ex_config_b ex_402_upto =
       (Inr (Dyadic 1 0, [ex_offer_A, ex_offer_B], ex_offer_B), [])
   \<and> header_built (snd (dexfraFetch ex_world_upto ex_url ex_config_b None))
   \<and> scheme ex_offer_B = Upto \<and> maxAmountRequired ex_offer_B = ''2000''
   \<and> (\<exists>paid paymentHeader.
         fetches (snd (dexfraFetch ex_world_upto ex_url ex_config_b None)) =
           [Fetch ex_request (Inr ex_402_upto),
            Fetch (ex_request \<lparr> req_headers :=
                     Headers_put ''x-payment'' paymentHeader (req_headers ex_request) \<rparr>) paid]
         \<and> from_base64 paymentHeader = Some (Buffer_from
             ''{\"version\":1,\"network\":\"B\",\"recipient\":\"Rcpt2\",\"amount\":\"2000\",\"scheme\":\"upto\",\"timestamp\":1700000000000}''))
   \<and> first_exchange ex_world ex_url (Some ex_init) = Some (ex_request_init, ex_402)
   \<and> header_built (snd (dexfraFetch ex_world ex_url ex_config (Some ex_init)))
   \<and> req_headers ex_request_init =
         [(''accept'', ''text/plain''), (''x-payment'', ''mine''), (''x-payment'', ''again'')]
   \<and> (\<exists>paid paymentHeader.
         fetches (snd (dexfraFetch ex_world ex_url ex_config (Some ex_init))) =
           [Fetch ex_request_init (Inr ex_402),
            Fetch (ex_request_init \<lparr> req_headers :=
                     Headers_put ''x-payment'' paymentHeader (req_headers ex_request_init) \<rparr>)
              paid]
         \<and> Headers_get ''x-payment''
              (Headers_put ''x-payment'' paymentHeader (req_headers ex_request_init)) =
             Some paymentHeader)
   \<and> Headers_put ''x-payment'' ex_payment_header (req_headers ex_request_init) =
         [(''accept'', ''text/plain''), (''x-payment'', ex_payment_header)]
   \<and> fetches (snd (dexfraFetch ex_world ex_url ex_config None)) =
         [Fetch ex_request (Inr ex_402), Fetch ex_paid_request (Inr ex_200)]
   \<and> req_headers ex_paid_request =
         [(''x-payment'',
           ''eyJ2ZXJzaW9uIjoxLCJuZXR3b3JrIjoic29sYW5hLWRldm5ldCIsInJlY2lwaWVudCI6IlJjcHQxIiwiYW1vdW50IjoiMjAwMDAwMCIsInRva2VuIjoiVVNEQyIsInNjaGVtZSI6ImV4YWN0IiwidGltZXN0YW1wIjoxNzAwMDAwMDAwMDAwfQ=='')]
   \<and> JSON_unquote ''\"2000000\",\"token\":\"USDC\"'' = Some (''2000000'', '',\"token\":\"USDC\"'')"
proof -
  have quoted: "map JSON_stringify_string
          [''solana-devnet'', ''Rcpt1'', ''2000000'', ''USDC'', ''B'', ''Rcpt2'', ''2000''] =
        [''\"solana-devnet\"'', ''\"Rcpt1\"'', ''\"2000000\"'', ''\"USDC\"'',
         ''\"B\"'', ''\"Rcpt2\"'', ''\"2000\"'']"
    by code_simp
  have 1: "first_exchange ex_world ex_url None = Some (ex_request, ex_402)"
    unfolding ex_world_def by (rule ex_first_exchange)
  have 2: "status ex_402 = 402"
    by (rule ex_statuses)
  have 3: "read_challenge ex_config ex_402 = (Inr (Dyadic 1 0, [ex_offer], ex_offer), [])"
    by (rule ex_read_challenge)
  have 4: "header_built (snd (dexfraFetch ex_world ex_url ex_config None))"
    by (simp add: ex_run_served)
  have 5: "scheme ex_offer = Exact" "maxAmountRequired ex_offer = ''2000000''"
    "network ex_offer = ''solana-devnet''" "recipient ex_offer = ''Rcpt1''"
    "token ex_offer = Some ''USDC''"
    by (simp_all add: ex_offer_def)
  have now: "now ex_world = Dyadic 1700000000000 0" "now ex_world_upto = Dyadic 1700000000000 0"
    by (simp_all add: ex_world_def ex_world_upto_def ex_server_simps)
  from payment_amount_is_full_maximum [where world = ex_world and url = ex_url
      and init = None and rq = ex_request and response = ex_402 and config = ex_config
      and v = "Dyadic 1 0" and reqs = "[ex_offer]" and sel = ex_offer
      and rest = "'',\"token\":\"USDC\"''"] 1 2 3 4
  obtain paid paymentHeader payload where exact:
    "fetches (snd (dexfraFetch ex_world ex_url ex_config None)) =
       [Fetch ex_request (Inr ex_402),
        Fetch (ex_request \<lparr> req_headers :=
                 Headers_put ''x-payment'' paymentHeader (req_headers ex_request) \<rparr>) paid]"
    "from_base64 paymentHeader = Some (Buffer_from payload)"
    "payload =
       ''{\"version\":'' @ JSON_stringify_number ex_world (Dyadic 1 0)
       @ '',\"network\":'' @ JSON_stringify_string (network ex_offer)
       @ '',\"recipient\":'' @ JSON_stringify_string (recipient ex_offer)
       @ '',\"amount\":'' @ JSON_stringify_string (maxAmountRequired ex_offer)
       @ (case token ex_offer of
            None \<Rightarrow> []
          | Some name \<Rightarrow> '',\"token\":'' @ JSON_stringify_string name)
       @ '',\"scheme\":''
       @ (case scheme ex_offer of Exact \<Rightarrow> ''\"exact\"'' | Upto \<Rightarrow> ''\"upto\"'')
       @ '',\"timestamp\":'' @ JSON_stringify_number ex_world (now ex_world) @ ''}''"
    and unquote: "JSON_unquote (JSON_stringify_string (maxAmountRequired ex_offer)
          @ '',\"token\":\"USDC\"'') =
        Some (maxAmountRequired ex_offer, '',\"token\":\"USDC\"'')"
    by blast
  from exact(3) quoted have payload:
    "payload = ''{\"version\":1,\"network\":\"solana-devnet\",\"recipient\":\"Rcpt1\",\"amount\":\"2000000\",\"token\":\"USDC\",\"scheme\":\"exact\",\"timestamp\":1700000000000}''"
    by (simp add: 5 now ex_numbers)
  have e: "\<exists>paid paymentHeader.
         fetches (snd (dexfraFetch ex_world ex_url ex_config None)) =
           [Fetch ex_request (Inr ex_402),
            Fetch (ex_request \<lparr> req_headers :=
                     Headers_put ''x-payment'' paymentHeader (req_headers ex_request) \<rparr>) paid]
         \<and> from_base64 paymentHeader = Some (Buffer_from
             ''{\"version\":1,\"network\":\"solana-devnet\",\"recipient\":\"Rcpt1\",\"amount\":\"2000000\",\"token\":\"USDC\",\"scheme\":\"exact\",\"timestamp\":1700000000000}'')"
    using exact(1,2) unfolding payload by blast
  from unquote quoted have u:
    "JSON_unquote ''\"2000000\",\"token\":\"USDC\"'' = Some (''2000000'', '',\"token\":\"USDC\"'')"
    by (simp add: 5)
  have 6: "first_exchange ex_world_upto ex_url None = Some (ex_request, ex_402_upto)"
    unfolding ex_world_upto_def by (rule ex_first_exchange)
  have 7: "status ex_402_upto = 402"
    by (rule ex_statuses)
  have 8: "read_challenge ex_config_b ex_402_upto =
       (Inr (Dyadic 1 0, [ex_offer_A, ex_offer_B], ex_offer_B), [])"
    by (rule ex_read_challenge_upto)
  have c: "maxAmount ex_config_b = None" "onPaymentRequired ex_config_b = Some (\<lambda>amount. None)"
    by (simp_all add: ex_config_b_def ex_config_def)
  have 9: "header_built (snd (dexfraFetch ex_world_upto ex_url ex_config_b None))"
    using 6 7 8 ex_check_no_ceiling [OF c(1)]
    by (rule header_built_paying) (simp add: returns_normally_def c(2))
  have 10: "scheme ex_offer_B = Upto" "maxAmountRequired ex_offer_B = ''2000''"
    "network ex_offer_B = ''B''" "recipient ex_offer_B = ''Rcpt2''" "token ex_offer_B = None"
    by (simp_all add: ex_offer_B_def)
  from payment_amount_is_full_maximum [where world = ex_world_upto and url = ex_url
      and init = None and rq = ex_request and response = ex_402_upto and config = ex_config_b
      and v = "Dyadic 1 0" and reqs = "[ex_offer_A, ex_offer_B]" and sel = ex_offer_B] 6 7 8 9
  obtain paid' paymentHeader' payload' where upto:
    "fetches (snd (dexfraFetch ex_world_upto ex_url ex_config_b None)) =
       [Fetch ex_request (Inr ex_402_upto),
        Fetch (ex_request \<lparr> req_headers :=
                 Headers_put ''x-payment'' paymentHeader' (req_headers ex_request) \<rparr>) paid']"
    "from_base64 paymentHeader' = Some (Buffer_from payload')"
    "payload' =
       ''{\"version\":'' @ JSON_stringify_number ex_world_upto (Dyadic 1 0)
       @ '',\"network\":'' @ JSON_stringify_string (network ex_offer_B)
       @ '',\"recipient\":'' @ JSON_stringify_string (recipient ex_offer_B)
       @ '',\"amount\":'' @ JSON_stringify_string (maxAmountRequired ex_offer_B)
       @ (case token ex_offer_B of
            None \<Rightarrow> []
          | Some name \<Rightarrow> '',\"token\":'' @ JSON_stringify_string name)
       @ '',\"scheme\":''
       @ (case scheme ex_offer_B of Exact \<Rightarrow> ''\"exact\"'' | Upto \<Rightarrow> ''\"upto\"'')
       @ '',\"timestamp\":'' @ JSON_stringify_number ex_world_upto (now ex_world_upto) @ ''}''"
    by blast
  from upto(3) quoted have payload':
    "payload' = ''{\"version\":1,\"network\":\"B\",\"recipient\":\"Rcpt2\",\"amount\":\"2000\",\"scheme\":\"upto\",\"timestamp\":1700000000000}''"
    by (simp add: 10 now ex_numbers)
  have e': "\<exists>paid paymentHeader.
         fetches (snd (dexfraFetch ex_world_upto ex_url ex_config_b None)) =
           [Fetch ex_request (Inr ex_402_upto),
            Fetch (ex_request \<lparr> req_headers :=
                     Headers_put ''x-payment'' paymentHeader (req_headers ex_request) \<rparr>) paid]
         \<and> from_base64 paymentHeader = Some (Buffer_from
             ''{\"version\":1,\"network\":\"B\",\"recipient\":\"Rcpt2\",\"amount\":\"2000\",\"scheme\":\"upto\",\"timestamp\":1700000000000}'')"
    using upto(1,2) unfolding payload' by blast
  have 11: "first_exchange ex_world ex_url (Some ex_init) = Some (ex_request_init, ex_402)"
    unfolding ex_world_def by (rule ex_first_exchange_init)
  have c': "maxAmount ex_config = None" "onPaymentRequired ex_config = Some (\<lambda>amount. None)"
    by (simp_all add: ex_config_def)
  have 12: "header_built (snd (dexfraFetch ex_world ex_url ex_config (Some ex_init)))"
    using 11 2 3 ex_check_no_ceiling [OF c'(1)]
    by (rule header_built_paying) (simp add: returns_normally_def c'(2))
  have 13: "req_headers ex_request_init =
         [(''accept'', ''text/plain''), (''x-payment'', ''mine''), (''x-payment'', ''again'')]"
    by (simp add: ex_request_init_def)
  from payment_amount_is_full_maximum [where world = ex_world and url = ex_url
      and init = "Some ex_init" and rq = ex_request_init and response = ex_402
      and config = ex_config and v = "Dyadic 1 0" and reqs = "[ex_offer]" and sel = ex_offer]
    11 2 3 12
  have e'': "\<exists>paid paymentHeader.
         fetches (snd (dexfraFetch ex_world ex_url ex_config (Some ex_init))) =
           [Fetch ex_request_init (Inr ex_402),
            Fetch (ex_request_init \<lparr> req_headers :=
                     Headers_put ''x-payment'' paymentHeader (req_headers ex_request_init) \<rparr>)
              paid]
         \<and> Headers_get ''x-payment''
              (Headers_put ''x-payment'' paymentHeader (req_headers ex_request_init)) =
             Some paymentHeader"
    by blast
  have calls: "fetches (snd (dexfraFetch ex_world ex_url ex_config None)) =
         [Fetch ex_request (Inr ex_402), Fetch ex_paid_request (Inr ex_200)]"
    by (simp add: ex_run_served)
  have hdr: "req_headers ex_paid_request =
         [(''x-payment'',
           ''eyJ2ZXJzaW9uIjoxLCJuZXR3b3JrIjoic29sYW5hLWRldm5ldCIsInJlY2lwaWVudCI6IlJjcHQxIiwiYW1vdW50IjoiMjAwMDAwMCIsInRva2VuIjoiVVNEQyIsInNjaGVtZSI6ImV4YWN0IiwidGltZXN0YW1wIjoxNzAwMDAwMDAwMDAwfQ=='')]"
    by (simp add: ex_paid_request_def ex_payment_header_def)
  from 1 2 3 4 5(1,2) e 6 7 8 9 10(1,2) e' 11 12 13 e'' ex_header_put_init calls hdr u
  show ?thesis
    by (intro conjI)
qed

section \<open>Properties of the ceiling check\<close>

text \<open>
  C1 (as amended). On every run, the header construction step is reached only after the
  ceiling check has returned normally for the selected offer, so no header is built for an
  offer above the ceiling. When the first response is a 402 with a valid challenge and the
  required amount of the selected offer is above the configured ceiling, the header
  construction step is not reached and exactly one network call is made. The error
  \<open>MaxAmountExceededError\<close> is handed to \<open>onPaymentError\<close> and the call raises it when
  that callback is absent or returns; when the callback throws a \<open>DexfraError\<close>, the call
  raises what it threw; when it throws anything else, that is wrapped in a
  \<open>DexfraError\<close> of code \<open>PAYMENT_PROCESSING_FAILED\<close>, the callback is called a second
  time with the wrapper, and the call raises the wrapper, or what the second call threw.
\<close>

theorem ceiling_check_precedes_header:
  "(header_built (snd (dexfraFetch world url config init)) \<longrightarrow>
      (\<exists>rq' response' v' reqs' sel'.
         first_exchange world url init = Some (rq', response')
         \<and> status response' = 402
         \<and> read_challenge config response' = (Inr (v', reqs', sel'), [])
         \<and> check_maxAmount config sel' = (Inr (), [])
         \<and> \<not> exceeds_maxAmount config sel'))
   \<and> (first_exchange world url init = Some (rq, response)
        \<and> status response = 402
        \<and> read_challenge config response = (Inr (v, reqs, sel), [])
        \<and> maxAmount config = Some amount
        \<and> parseUSDCAmount amount = Inr maxAmountWei
        \<and> BigInt_of_string (maxAmountRequired sel) = Inr requiredAmount
        \<and> requiredAmount > maxAmountWei \<longrightarrow>
      \<not> header_built (snd (dexfraFetch world url config init))
      \<and> length (fetches (snd (dexfraFetch world url config init))) = 1
      \<and> (onPaymentError config = None \<longrightarrow>
           dexfraFetch world url config init =
             (Inl (new_MaxAmountExceededError sel maxAmountWei), [Fetch rq (Inr response)]))
      \<and> (onPaymentError config = Some handler
           \<and> handler (new_MaxAmountExceededError sel maxAmountWei) = None \<longrightarrow>
           dexfraFetch world url config init =
             (Inl (new_MaxAmountExceededError sel maxAmountWei),
              [Fetch rq (Inr response),
               OnPaymentError (new_MaxAmountExceededError sel maxAmountWei)]))
      \<and> (onPaymentError config = Some handler
           \<and> handler (new_MaxAmountExceededError sel maxAmountWei) = Some thrown
           \<and> instanceof_DexfraError thrown \<longrightarrow>
           dexfraFetch world url config init =
             (Inl thrown,
              [Fetch rq (Inr response),
               OnPaymentError (new_MaxAmountExceededError sel maxAmountWei)]))
      \<and> (onPaymentError config = Some handler
           \<and> handler (new_MaxAmountExceededError sel maxAmountWei) = Some thrown
           \<and> \<not> instanceof_DexfraError thrown \<longrightarrow>
           dexfraFetch world url config init =
             (Inl (case handler (wrap_error thrown) of
                     None \<Rightarrow> wrap_error thrown
                   | Some again \<Rightarrow> again),
              [Fetch rq (Inr response),
               OnPaymentError (new_MaxAmountExceededError sel maxAmountWei),
               OnPaymentError (wrap_error thrown)])))"
proof (intro conjI impI)
  assume hb: "header_built (snd (dexfraFetch world url config init))"
  show "\<exists>rq' response' v' reqs' sel'.
         first_exchange world url init = Some (rq', response')
         \<and> status response' = 402
         \<and> read_challenge config response' = (Inr (v', reqs', sel'), [])
         \<and> check_maxAmount config sel' = (Inr (), [])
         \<and> \<not> exceeds_maxAmount config sel'"
  proof (cases rule: fetches_dexfraFetch_cases [of world init url config])
    case (bad_headers e)
    with hb show ?thesis by simp
  next
    case (rejected hs e)
    with hb show ?thesis by simp
  next
    case (plain hs response)
    with hb show ?thesis by simp
  next
    case (invalid hs response e)
    with hb show ?thesis by simp
  next
    case (paying hs response' v' reqs' sel')
    with hb have "header_built (snd (pay world url config init hs v' reqs' sel'))"
      by simp
    then have "fst (check_maxAmount config sel') = Inr ()"
      by (rule fst_pay_header_built(1))
    then have "check_maxAmount config sel' = (Inr (), []) \<and> \<not> exceeds_maxAmount config sel'"
      by (rule check_maxAmount_passes)
    with paying(3,4) first_exchangeI [OF paying(1,2)] show ?thesis by blast
  qed
next
  assume a: "first_exchange world url init = Some (rq, response)
        \<and> status response = 402
        \<and> read_challenge config response = (Inr (v, reqs, sel), [])
        \<and> maxAmount config = Some amount
        \<and> parseUSDCAmount amount = Inr maxAmountWei
        \<and> BigInt_of_string (maxAmountRequired sel) = Inr requiredAmount
        \<and> requiredAmount > maxAmountWei"
  let ?err = "new_MaxAmountExceededError sel maxAmountWei"
  from a obtain hs where run: "dexfraFetch world url config init =
       (fst (payment_catch config (pay world url config init hs v reqs sel)),
        Fetch rq (Inr response)
        # snd (payment_catch config (pay world url config init hs v reqs sel)))"
    using dexfraFetch_paying [of world url init rq response config v reqs sel] by blast
  from a have check: "check_maxAmount config sel =
     (case onPaymentError config of
        None \<Rightarrow> (Inl ?err, [])
      | Some handler \<Rightarrow>
          (Inl (case handler ?err of None \<Rightarrow> ?err | Some thrown \<Rightarrow> thrown),
           [OnPaymentError ?err]))"
    using check_maxAmount_exceeds [of config amount maxAmountWei sel requiredAmount] by blast
  then obtain e where e: "fst (check_maxAmount config sel) = Inl e"
    by (auto split: option.splits)
  then have p: "pay world url config init hs v reqs sel = (Inl e, snd (check_maxAmount config sel))"
    by (rule pay_check_fails)
  show "\<not> header_built (snd (dexfraFetch world url config init))"
    and "length (fetches (snd (dexfraFetch world url config init))) = 1"
    using run p by simp_all
  have failing: "dexfraFetch world url config init =
      (fst (payment_catch config (Inl x, evs)),
       Fetch rq (Inr response) # snd (payment_catch config (Inl x, evs)))"
    if "check_maxAmount config sel = (Inl x, evs)" for x evs
    using that run pay_check_fails [of config sel x world url init hs v reqs] by simp
  show "dexfraFetch world url config init = (Inl ?err, [Fetch rq (Inr response)])"
    if h: "onPaymentError config = None"
  proof -
    have "check_maxAmount config sel = (Inl ?err, [])"
      using check h by simp
    from failing [OF this] show ?thesis
      by (simp add: payment_catch_Dexfra)
  qed
  show "dexfraFetch world url config init =
      (Inl ?err, [Fetch rq (Inr response), OnPaymentError ?err])"
    if h: "onPaymentError config = Some handler \<and> handler ?err = None"
  proof -
    have "check_maxAmount config sel = (Inl ?err, [OnPaymentError ?err])"
      using check h by simp
    from failing [OF this] show ?thesis
      by (simp add: payment_catch_Dexfra)
  qed
  show "dexfraFetch world url config init =
      (Inl thrown, [Fetch rq (Inr response), OnPaymentError ?err])"
    if h: "onPaymentError config = Some handler \<and> handler ?err = Some thrown
           \<and> instanceof_DexfraError thrown"
  proof -
    have "check_maxAmount config sel = (Inl thrown, [OnPaymentError ?err])"
      using check h by simp
    from failing [OF this] h show ?thesis
      by (simp add: payment_catch_Dexfra)
  qed
  show "dexfraFetch world url config init =
      (Inl (case handler (wrap_error thrown) of
              None \<Rightarrow> wrap_error thrown
            | Some again \<Rightarrow> again),
       [Fetch rq (Inr response), OnPaymentError ?err, OnPaymentError (wrap_error thrown)])"
    if h: "onPaymentError config = Some handler \<and> handler ?err = Some thrown
           \<and> \<not> instanceof_DexfraError thrown"
  proof -
    have "check_maxAmount config sel = (Inl thrown, [OnPaymentError ?err])"
      using check h by simp
    from failing [OF this] h show ?thesis
      by (simp add: payment_catch_other)
  qed
qed

theorem ceiling_check_precedes_header_witness:
  "header_built (snd (dexfraFetch ex_world ex_url ex_config None))
   \<and> check_maxAmount ex_config ex_offer = (Inr (), [])
   \<and> first_exchange ex_world ex_url None = Some (ex_request, ex_402)
   \<and> status ex_402 = 402
   \<and> read_challenge ex_config_ceiling ex_402 = (Inr (Dyadic 1 0, [ex_offer], ex_offer), [])
   \<and> parseUSDCAmount (Dyadic 1 0) = Inr 1000000
   \<and> BigInt_of_string (maxAmountRequired ex_offer) = Inr 2000000
   \<and> (2000000 :: int) > 1000000
   \<and> new_MaxAmountExceededError ex_offer 1000000 =
       MaxAmountExceededError ''Payment amount 2000000 exceeds max amount 1000000''
         ''2000000'' ''1000000''
   \<and> \<not> header_built (snd (dexfraFetch ex_world ex_url ex_config_ceiling None))
   \<and> length (fetches (snd (dexfraFetch ex_world ex_url ex_config_ceiling None))) = 1
   \<and> dexfraFetch ex_world ex_url ex_config_ceiling_silent None =
       (Inl (new_MaxAmountExceededError ex_offer 1000000), [Fetch ex_request (Inr ex_402)])
   \<and> dexfraFetch ex_world ex_url ex_config_ceiling None =
       (Inl (new_MaxAmountExceededError ex_offer 1000000),
        [Fetch ex_request (Inr ex_402),
         OnPaymentError (new_MaxAmountExceededError ex_offer 1000000)])
   \<and> dexfraFetch ex_world ex_url ex_config_ceiling_rethrowing None =
       (Inl (new_MaxAmountExceededError ex_offer 1000000),
        [Fetch ex_request (Inr ex_402),
         OnPaymentError (new_MaxAmountExceededError ex_offer 1000000)])
   \<and> dexfraFetch ex_world ex_url ex_config_ceiling_throwing None =
       (Inl (JsError ''Error'' ''handler failed''),
        [Fetch ex_request (Inr ex_402),
         OnPaymentError (new_MaxAmountExceededError ex_offer 1000000),
         OnPaymentError (wrap_error (JsError ''Error'' ''handler failed''))])"
proof -
  let ?err = "new_MaxAmountExceededError ex_offer 1000000"
  have built: "header_built (snd (dexfraFetch ex_world ex_url ex_config None))"
    by (simp add: ex_run_served)
  have 1: "first_exchange ex_world ex_url None = Some (ex_request, ex_402)"
    unfolding ex_world_def by (rule ex_first_exchange)
  have 2: "status ex_402 = 402"
    by (rule ex_statuses)
  have 3: "read_challenge config ex_402 = (Inr (Dyadic 1 0, [ex_offer], ex_offer), [])"
    for config
    by (rule ex_read_challenge)
  have 4: "maxAmount ex_config_ceiling = Some (Dyadic 1 0)"
    "maxAmount ex_config_ceiling_silent = Some (Dyadic 1 0)"
    "maxAmount ex_config_ceiling_rethrowing = Some (Dyadic 1 0)"
    "maxAmount ex_config_ceiling_throwing = Some (Dyadic 1 0)"
    by (simp_all add: ex_config_ceiling_def ex_config_ceiling_silent_def
        ex_config_ceiling_rethrowing_def ex_config_ceiling_throwing_def)
  have 5: "parseUSDCAmount (Dyadic 1 0) = Inr 1000000"
    by (rule ex_conversions)
  have 6: "BigInt_of_string (maxAmountRequired ex_offer) = Inr 2000000"
    by (simp add: ex_amounts ex_conversions)
  have 7: "(2000000 :: int) > 1000000"
    by simp
  have h: "onPaymentError ex_config_ceiling_silent = None"
    "onPaymentError ex_config_ceiling = Some (\<lambda>error. None)"
    "onPaymentError ex_config_ceiling_rethrowing = Some (\<lambda>error. Some error)"
    "onPaymentError ex_config_ceiling_throwing =
       Some (\<lambda>error. Some (JsError ''Error'' ''handler failed''))"
    by (simp_all add: ex_config_ceiling_def ex_config_ceiling_silent_def
        ex_config_ceiling_rethrowing_def ex_config_ceiling_throwing_def ex_config_def)
  have i: "instanceof_DexfraError ?err" "\<not> instanceof_DexfraError (JsError ''Error'' ''handler failed'')"
    by simp_all
  note passing = ceiling_check_precedes_header [where world = ex_world and url = ex_url
      and config = ex_config and init = None]
  from passing built obtain rq' response' v' reqs' sel' where p:
    "first_exchange ex_world ex_url None = Some (rq', response')"
    "read_challenge ex_config response' = (Inr (v', reqs', sel'), [])"
    "check_maxAmount ex_config sel' = (Inr (), [])"
    by blast
  from p(1) 1 have "response' = ex_402" by simp
  with p(2) 3 [of ex_config] have "sel' = ex_offer" by simp
  with p(3) have passes: "check_maxAmount ex_config ex_offer = (Inr (), [])" by simp
  note exceeding = ceiling_check_precedes_header [where world = ex_world and url = ex_url
      and init = None and rq = ex_request and response = ex_402 and v = "Dyadic 1 0"
      and reqs = "[ex_offer]" and sel = ex_offer and amount = "Dyadic 1 0"
      and maxAmountWei = 1000000 and requiredAmount = 2000000]
  have silent: "dexfraFetch ex_world ex_url ex_config_ceiling_silent None =
       (Inl ?err, [Fetch ex_request (Inr ex_402)])"
    using exceeding [where config = ex_config_ceiling_silent] 1 2 3 4 5 6 7 h(1) by blast
  have returning: "\<not> header_built (snd (dexfraFetch ex_world ex_url ex_config_ceiling None))
       \<and> length (fetches (snd (dexfraFetch ex_world ex_url ex_config_ceiling None))) = 1
       \<and> dexfraFetch ex_world ex_url ex_config_ceiling None =
           (Inl ?err, [Fetch ex_request (Inr ex_402), OnPaymentError ?err])"
    using exceeding [where config = ex_config_ceiling and handler = "\<lambda>error. None"]
      1 2 3 4 5 6 7 h(2) by blast
  have rethrowing: "dexfraFetch ex_world ex_url ex_config_ceiling_rethrowing None =
       (Inl ?err, [Fetch ex_request (Inr ex_402), OnPaymentError ?err])"
    using exceeding [where config = ex_config_ceiling_rethrowing
        and handler = "\<lambda>error. Some error" and thrown = ?err]
      1 2 3 4 5 6 7 h(3) i(1) by blast
  have throwing: "dexfraFetch ex_world ex_url ex_config_ceiling_throwing None =
       (Inl (JsError ''Error'' ''handler failed''),
        [Fetch ex_request (Inr ex_402), OnPaymentError ?err,
         OnPaymentError (wrap_error (JsError ''Error'' ''handler failed''))])"
    using exceeding [where config = ex_config_ceiling_throwing
        and handler = "\<lambda>error. Some (JsError ''Error'' ''handler failed'')"
        and thrown = "JsError ''Error'' ''handler failed''"]
      1 2 3 4 5 6 7 h(4) i(2) by simp
  from built passes 1 2 3 [of ex_config_ceiling] 5 6 7 ex_ceiling_error silent returning
    rethrowing throwing
  show ?thesis
    by (intro conjI) simp_all
qed

text \<open>
  The claim as stated fails: the required amount is above the ceiling, the
  \<open>onPaymentError\<close> callback throws an error of its own, and the call raises that error,
  not \<open>MaxAmountExceededError\<close>.
\<close>

theorem ceiling_error_replaced_by_callback_error:
  "fetch ex_world 0 ex_request = Inr ex_402
   \<and> status ex_402 = 402
   \<and> read_challenge ex_config_ceiling_throwing ex_402 =
       (Inr (Dyadic 1 0, [ex_offer], ex_offer), [])
   \<and> exceeds_maxAmount ex_config_ceiling_throwing ex_offer
   \<and> fst (dexfraFetch ex_world ex_url ex_config_ceiling_throwing None) =
       Inl (JsError ''Error'' ''handler failed'')"
proof -
  have "fetch ex_world 0 ex_request = Inr ex_402"
    by (simp add: ex_world_def ex_server_simps)
  moreover have "status ex_402 = 402"
    by (rule ex_statuses)
  moreover have "read_challenge ex_config_ceiling_throwing ex_402 =
      (Inr (Dyadic 1 0, [ex_offer], ex_offer), [])"
    by (rule ex_read_challenge)
  ultimately show ?thesis
    by (simp add: ex_exceeds ex_run_ceiling_throwing)
qed

text \<open>
  C2. The conversion of the ceiling is \<open>Math.floor\<close> of a double-precision product, not
  the exact value \<open>c * 10 ^ 6\<close>. For the ceiling 1.0 and the required amount "2000000" the
  error carries required "2000000" and max "1000000" and no header is built. For the
  ceiling 8.2 (the double nearest to 8.2, within \<open>1 / (5 * 2 ^ 48)\<close> of it) the conversion
  gives 8199999, and an offer of exactly 8200000 base units is refused with max "8199999".
\<close>

theorem ceiling_conversion_truncates:
  "parseUSDCAmount (Dyadic 1 0) = Inr 1000000
   \<and> fst (dexfraFetch ex_world ex_url ex_config_ceiling None) =
       Inl (MaxAmountExceededError ''Payment amount 2000000 exceeds max amount 1000000''
              ''2000000'' ''1000000'')
   \<and> \<not> header_built (snd (dexfraFetch ex_world ex_url ex_config_ceiling None))
   \<and> is_double (Dyadic 2308094809027379 (- 48))
   \<and> \<bar>5 * 2308094809027379 - 41 * 2 ^ 48\<bar> \<le> (1 :: int)
   \<and> parseUSDCAmount (Dyadic 2308094809027379 (- 48)) = Inr 8199999
   \<and> maxAmount ex_config_82 = Some (Dyadic 2308094809027379 (- 48))
   \<and> maxAmountRequired ex_offer_82 = ''8200000''
   \<and> fst (dexfraFetch ex_world_82 ex_url ex_config_82 None) =
       Inl (MaxAmountExceededError ''Payment amount 8200000 exceeds max amount 8199999''
              ''8200000'' ''8199999'')"
proof -
  have near: "\<bar>5 * 2308094809027379 - 41 * 2 ^ 48\<bar> \<le> (1 :: int)"
    by simp
  have double: "is_double (Dyadic 2308094809027379 (- 48))"
    by (simp add: is_double_def)
  have config: "maxAmount ex_config_82 = Some (Dyadic 2308094809027379 (- 48))"
    by (simp add: ex_config_82_def)
  from near double config show ?thesis
    by (simp add: ex_run_ceiling ex_run_82 ex_conversions ex_amounts)
qed

section \<open>Properties of the error reporting\<close>

text \<open>
  C3. With an \<open>onPaymentError\<close> callback configured, a challenge without offers makes the
  call fail with \<open>INVALID_402_RESPONSE\<close> and a rejected payment makes it fail with
  \<open>PaymentRequiredError\<close>, and in both runs \<open>onPaymentError\<close> is never called; when
  the callback throws on the ceiling error it is called a second time, with the wrapper.
\<close>

theorem protocol_errors_not_reported:
  "onPaymentError ex_config \<noteq> None
   \<and> dexfraFetch ex_world_empty ex_url ex_config None =
       (Inl (DexfraError ''Invalid 402 Payment Required response'' ''INVALID_402_RESPONSE''
               (ChallengeDetails ex_empty_challenge)),
        [Fetch ex_request (Inr ex_402_empty)])
   \<and> filter is_OnPaymentError (snd (dexfraFetch ex_world_empty ex_url ex_config None)) = []
   \<and> fst (dexfraFetch ex_world_rejecting ex_url ex_config None) =
       Inl (PaymentRequiredError ''Payment was not accepted'' ''2000000'' [ex_offer])
   \<and> filter is_OnPaymentError (snd (dexfraFetch ex_world_rejecting ex_url ex_config None)) = []
   \<and> length (filter is_OnPaymentError
        (snd (dexfraFetch ex_world ex_url ex_config_ceiling_throwing None))) = 2"
proof -
  have "onPaymentError ex_config \<noteq> None"
    by (simp add: ex_config_def)
  then show ?thesis
    by (simp add: ex_run_empty ex_run_rejected ex_run_ceiling_throwing)
qed

text \<open>
  C5 (as amended). On the 402 path, once the challenge is valid and the ceiling check has
  passed, an \<open>onPaymentRequired\<close> callback that throws aborts the call: the call fails,
  no header is built and no paid retry is sent (exactly one network call). A thrown
  \<open>DexfraError\<close> reaches the caller as it is and \<open>onPaymentError\<close> is not called.
  Anything else is wrapped in a \<open>DexfraError\<close> of code \<open>PAYMENT_PROCESSING_FAILED\<close>;
  the wrapper is handed to \<open>onPaymentError\<close>, when there is one, exactly once, and the
  call raises the wrapper, or what \<open>onPaymentError\<close> threw.
\<close>

theorem throwing_onPaymentRequired_aborts:
  assumes "first_exchange world url init = Some (rq, response)"
    and "status response = 402"
    and "read_challenge config response = (Inr (v, reqs, sel), [])"
    and "check_maxAmount config sel = (Inr (), [])"
    and "onPaymentRequired config = Some callback"
    and "callback (maxAmountRequired sel) = Some thrown"
  shows "(\<exists>error. fst (dexfraFetch world url config init) = Inl error)
     \<and> \<not> header_built (snd (dexfraFetch world url config init))
     \<and> length (fetches (snd (dexfraFetch world url config init))) = 1
     \<and> (instanceof_DexfraError thrown \<longrightarrow>
          dexfraFetch world url config init =
            (Inl thrown, [Fetch rq (Inr response), OnPaymentRequired (maxAmountRequired sel)]))
     \<and> (\<not> instanceof_DexfraError thrown \<and> onPaymentError config = None \<longrightarrow>
          dexfraFetch world url config init =
            (Inl (wrap_error thrown),
             [Fetch rq (Inr response), OnPaymentRequired (maxAmountRequired sel)]))
     \<and> (\<not> instanceof_DexfraError thrown \<and> onPaymentError config = Some handler \<longrightarrow>
          dexfraFetch world url config init =
            (Inl (case handler (wrap_error thrown) of
                    None \<Rightarrow> wrap_error thrown
                  | Some again \<Rightarrow> again),
             [Fetch rq (Inr response), OnPaymentRequired (maxAmountRequired sel),
              OnPaymentError (wrap_error thrown)]))
     \<and> code (wrap_error thrown) = Some ''PAYMENT_PROCESSING_FAILED''"
proof -
  from assms(1-3) obtain hs where run: "dexfraFetch world url config init =
       (fst (payment_catch config (pay world url config init hs v reqs sel)),
        Fetch rq (Inr response)
        # snd (payment_catch config (pay world url config init hs v reqs sel)))"
    by (rule dexfraFetch_paying)
  have p: "pay world url config init hs v reqs sel =
      (Inl thrown, [OnPaymentRequired (maxAmountRequired sel)])"
    using assms(4-6) by (rule pay_required_throws)
  have shape: "\<not> header_built (snd (dexfraFetch world url config init))
     \<and> length (fetches (snd (dexfraFetch world url config init))) = 1"
    using run p by simp
  have dexfra: "dexfraFetch world url config init =
      (Inl thrown, [Fetch rq (Inr response), OnPaymentRequired (maxAmountRequired sel)])"
    if "instanceof_DexfraError thrown"
    using run p that by (simp add: payment_catch_Dexfra)
  have silent: "dexfraFetch world url config init =
      (Inl (wrap_error thrown),
       [Fetch rq (Inr response), OnPaymentRequired (maxAmountRequired sel)])"
    if "\<not> instanceof_DexfraError thrown \<and> onPaymentError config = None"
    using run p that by (simp add: payment_catch_other)
  have reported: "dexfraFetch world url config init =
      (Inl (case handler (wrap_error thrown) of
              None \<Rightarrow> wrap_error thrown
            | Some again \<Rightarrow> again),
       [Fetch rq (Inr response), OnPaymentRequired (maxAmountRequired sel),
        OnPaymentError (wrap_error thrown)])"
    if "\<not> instanceof_DexfraError thrown \<and> onPaymentError config = Some handler" for handler
    using run p that by (simp add: payment_catch_other)
  have fails: "\<exists>error. fst (dexfraFetch world url config init) = Inl error"
  proof (cases "instanceof_DexfraError thrown")
    case True
    then show ?thesis by (simp add: dexfra)
  next
    case False
    then show ?thesis
      using silent reported by (cases "onPaymentError config") simp_all
  qed
  have "code (wrap_error thrown) = Some ''PAYMENT_PROCESSING_FAILED''"
    by (simp add: wrap_error_def)
  with fails shape dexfra silent reported show ?thesis by blast
qed

theorem throwing_onPaymentRequired_aborts_witness:
  "first_exchange ex_world ex_url None = Some (ex_request, ex_402)
   \<and> status ex_402 = 402
   \<and> read_challenge ex_config_required_throwing ex_402 =
       (Inr (Dyadic 1 0, [ex_offer], ex_offer), [])
   \<and> check_maxAmount ex_config_required_throwing ex_offer = (Inr (), [])
   \<and> onPaymentRequired ex_config_required_throwing =
       Some (\<lambda>amount. Some (JsError ''Error'' ''handler failed''))
   \<and> onPaymentError ex_config_required_throwing = Some (\<lambda>error. None)
   \<and> \<not> instanceof_DexfraError (JsError ''Error'' ''handler failed'')
   \<and> \<not> header_built (snd (dexfraFetch ex_world ex_url ex_config_required_throwing None))
   \<and> length (fetches (snd (dexfraFetch ex_world ex_url ex_config_required_throwing None))) = 1
   \<and> dexfraFetch ex_world ex_url ex_config_required_throwing None =
       (Inl (wrap_error (JsError ''Error'' ''handler failed'')),
        [Fetch ex_request (Inr ex_402), OnPaymentRequired ''2000000'',
         OnPaymentError (wrap_error (JsError ''Error'' ''handler failed''))])
   \<and> onPaymentError ex_config_required_silent = None
   \<and> dexfraFetch ex_world ex_url ex_config_required_silent None =
       (Inl (wrap_error (JsError ''Error'' ''handler failed'')),
        [Fetch ex_request (Inr ex_402), OnPaymentRequired ''2000000''])
   \<and> onPaymentRequired ex_config_required_rejecting =
       Some (\<lambda>amount. Some (DexfraError ''declined'' ''USER_DECLINED'' NoDetails))
   \<and> dexfraFetch ex_world ex_url ex_config_required_rejecting None =
       (Inl (DexfraError ''declined'' ''USER_DECLINED'' NoDetails),
        [Fetch ex_request (Inr ex_402), OnPaymentRequired ''2000000''])"
proof -
  let ?thrown = "JsError ''Error'' ''handler failed''"
  let ?declined = "DexfraError ''declined'' ''USER_DECLINED'' NoDetails"
  have 1: "first_exchange ex_world ex_url None = Some (ex_request, ex_402)"
    unfolding ex_world_def by (rule ex_first_exchange)
  have 2: "status ex_402 = 402"
    by (rule ex_statuses)
  have 3: "read_challenge config ex_402 = (Inr (Dyadic 1 0, [ex_offer], ex_offer), [])"
    for config
    by (rule ex_read_challenge)
  have m: "maxAmount ex_config_required_throwing = None"
    "maxAmount ex_config_required_silent = None"
    "maxAmount ex_config_required_rejecting = None"
    by (simp_all add: ex_config_required_throwing_def ex_config_required_silent_def
        ex_config_required_rejecting_def ex_config_def)
  note 4 = m [THEN ex_check_no_ceiling, of ex_offer]
  have 5: "onPaymentRequired ex_config_required_throwing = Some (\<lambda>amount. Some ?thrown)"
    "onPaymentRequired ex_config_required_silent = Some (\<lambda>amount. Some ?thrown)"
    "onPaymentRequired ex_config_required_rejecting = Some (\<lambda>amount. Some ?declined)"
    by (simp_all add: ex_config_required_throwing_def ex_config_required_silent_def
        ex_config_required_rejecting_def)
  have 6: "(\<lambda>amount. Some ?thrown) (maxAmountRequired ex_offer) = Some ?thrown"
    "(\<lambda>amount. Some ?declined) (maxAmountRequired ex_offer) = Some ?declined"
    by simp_all
  have 7: "\<not> instanceof_DexfraError ?thrown" "instanceof_DexfraError ?declined"
    by simp_all
  have 8: "onPaymentError ex_config_required_throwing = Some (\<lambda>error. None)"
    "onPaymentError ex_config_required_silent = None"
    by (simp_all add: ex_config_required_throwing_def ex_config_required_silent_def ex_config_def)
  have throwing: "\<not> header_built (snd (dexfraFetch ex_world ex_url ex_config_required_throwing None))
     \<and> length (fetches (snd (dexfraFetch ex_world ex_url ex_config_required_throwing None))) = 1
     \<and> dexfraFetch ex_world ex_url ex_config_required_throwing None =
       (Inl (wrap_error ?thrown),
        [Fetch ex_request (Inr ex_402), OnPaymentRequired ''2000000'',
         OnPaymentError (wrap_error ?thrown)])"
    using throwing_onPaymentRequired_aborts [OF 1 2 3 4(1) 5(1) 6(1),
        where handler = "\<lambda>error. None"] 7(1) 8(1)
    by (simp add: ex_amounts)
  have silent: "dexfraFetch ex_world ex_url ex_config_required_silent None =
       (Inl (wrap_error ?thrown),
        [Fetch ex_request (Inr ex_402), OnPaymentRequired ''2000000''])"
    using throwing_onPaymentRequired_aborts [OF 1 2 3 4(2) 5(2) 6(1)] 7(1) 8(2)
    by (simp add: ex_amounts)
  have rejecting: "dexfraFetch ex_world ex_url ex_config_required_rejecting None =
       (Inl ?declined, [Fetch ex_request (Inr ex_402), OnPaymentRequired ''2000000''])"
    using throwing_onPaymentRequired_aborts [OF 1 2 3 4(3) 5(3) 6(2)] 7(2)
    by (simp add: ex_amounts)
  from 1 2 3 [of ex_config_required_throwing] 4(1) 5(1,3) 7(1) 8 throwing silent rejecting
  show ?thesis
    by (intro conjI) simp_all
qed

text \<open>
  The claim as stated fails: in a world where the paid retry would be served, the call
  with a throwing \<open>onPaymentRequired\<close> fails after a single network call, while the same
  call with a callback that returns gets the response of the retry.
\<close>

theorem throwing_onPaymentRequired_changes_result:
  "fst (dexfraFetch ex_world ex_url ex_config_required_throwing None) =
     Inl (DexfraError ''Payment processing failed: handler failed''
            ''PAYMENT_PROCESSING_FAILED'' (Cause (JsError ''Error'' ''handler failed'')))
   \<and> length (fetches (snd (dexfraFetch ex_world ex_url ex_config_required_throwing None))) = 1
   \<and> fst (dexfraFetch ex_world ex_url ex_config None) = Inr ex_200
   \<and> length (fetches (snd (dexfraFetch ex_world ex_url ex_config None))) = 2"
  by (simp add: ex_run_required_throwing ex_run_served)

section \<open>Properties of the payment header\<close>

text \<open>
  C4 (as amended). The header construction step assembles the record \<open>version, network,
  recipient, amount, token, scheme, timestamp\<close> from the challenge version, the selected
  offer and the clock, and returns the base64 text of the UTF-8 bytes of its JSON text;
  that text decodes back to exactly those bytes, and the bytes to the JSON text, so nothing
  is truncated. The step never fails, and it does not use the wallet: the header, and the
  whole run of \<open>dexfraFetch\<close>, are the same for every wallet, so no signing operation is
  invoked.
\<close>

theorem payment_header_is_unsigned_encoding:
  "createPaymentHeader world wallet' connection' v requirement =
     (Inr (toString_base64 (Buffer_from (JSON_stringify_paymentData world
             (make_paymentData v requirement (now world))))),
      [CreatePaymentHeader v requirement])
   \<and> make_paymentData v requirement date_now =
       \<lparr> pd_version = v, pd_network = network requirement,
         pd_recipient = recipient requirement, pd_amount = maxAmountRequired requirement,
         pd_token = token requirement, pd_scheme = scheme requirement,
         pd_timestamp = date_now \<rparr>
   \<and> from_base64 (toString_base64 (Buffer_from (JSON_stringify_paymentData world
         (make_paymentData v requirement date_now)))) =
       Some (Buffer_from (JSON_stringify_paymentData world
         (make_paymentData v requirement date_now)))
   \<and> utf8_decode (Buffer_from (JSON_stringify_paymentData world
         (make_paymentData v requirement date_now))) =
       Some (JSON_stringify_paymentData world (make_paymentData v requirement date_now))
   \<and> createPaymentHeader world other_wallet connection' v requirement =
       createPaymentHeader world wallet' connection' v requirement
   \<and> dexfraFetch world url (config \<lparr> wallet := other_wallet \<rparr>) init =
       dexfraFetch world url config init"
  by (simp add: createPaymentHeader_eq paymentHeader_of_def make_paymentData_def
      from_base64_toString utf8_decode_Buffer_from dexfraFetch_wallet_irrelevant)

text \<open>
  The claim as stated fails: with a wallet whose signing operations always reject, the
  step still returns a header, where a delegated signing would have failed.
\<close>

theorem failing_signer_still_yields_header:
  "signTransaction ex_wallet = (\<lambda>t. Inl (JsError ''Error'' ''signing refused''))
   \<and> now ex_world = Dyadic 1700000000000 0
   \<and> createPaymentHeader ex_world ex_wallet ''rpc'' (Dyadic 1 0) ex_offer =
     (Inr ''eyJ2ZXJzaW9uIjoxLCJuZXR3b3JrIjoic29sYW5hLWRldm5ldCIsInJlY2lwaWVudCI6IlJjcHQxIiwiYW1vdW50IjoiMjAwMDAwMCIsInRva2VuIjoiVVNEQyIsInNjaGVtZSI6ImV4YWN0IiwidGltZXN0YW1wIjoxNzAwMDAwMDAwMDAwfQ=='',
      [CreatePaymentHeader (Dyadic 1 0) ex_offer])"
proof -
  have "signTransaction ex_wallet = (\<lambda>t. Inl (JsError ''Error'' ''signing refused''))"
    by (simp add: ex_wallet_def)
  moreover have "now ex_world = Dyadic 1700000000000 0"
    by (simp add: ex_world_def ex_server_simps)
  ultimately show ?thesis
    by (simp add: createPaymentHeader_eq ex_header ex_payment_header_def)
qed

end
